theory Spec2Isabelle
  imports Complex_Main
begin

section \<open>JavaScript values and string primitives used by the handlers\<close>

text \<open>
  The edge functions are TypeScript running on Deno. Request bodies, store rows and
  response bodies are JSON values; an absent object key (JavaScript \<open>undefined\<close>) is a
  failed lookup. JavaScript numbers are modelled as integers: every number the handlers
  compute with is an id, a count or a page number.
\<close>

datatype json =
    JNull
  | JBool bool
  | JNum int
  | JStr string
  | JArr "json list"
  | JObj "(string \<times> json) list"

type_synonym row = "(string \<times> json) list"

text \<open>\<open>!v\<close> is \<open>\<not> js_truthy v\<close>; \<open>None\<close> is \<open>undefined\<close>.\<close>

fun js_truthy :: "json option \<Rightarrow> bool" where
  "js_truthy None = False"
| "js_truthy (Some JNull) = False"
| "js_truthy (Some (JBool b)) = b"
| "js_truthy (Some (JNum n)) = (n \<noteq> 0)"
| "js_truthy (Some (JStr s)) = (s \<noteq> [])"
| "js_truthy (Some (JArr xs)) = True"
| "js_truthy (Some (JObj kvs)) = True"

text \<open>An object literal \<open>{k1: v1, ...}\<close> as it is serialised: keys whose value is
  \<open>undefined\<close> are dropped.\<close>

fun js_object :: "(string \<times> json option) list \<Rightarrow> row" where
  "js_object [] = []"
| "js_object ((k, None) # kvs) = js_object kvs"
| "js_object ((k, Some v) # kvs) = (k, v) # js_object kvs"

text \<open>\<open>delete obj.k\<close>.\<close>

definition js_delete :: "string \<Rightarrow> row \<Rightarrow> row" where
  "js_delete k obj = filter (\<lambda>kv. fst kv \<noteq> k) obj"

text \<open>\<open>s.split('/')\<close>: never empty; \<open>''/a''\<close> gives \<open>['''', ''a'']\<close>.\<close>

fun split_slash :: "string \<Rightarrow> string list" where
  "split_slash [] = [[]]"
| "split_slash (c # cs) =
     (if c = CHR ''/'' then [] # split_slash cs
      else (case split_slash cs of
              [] \<Rightarrow> [[c]]
            | p # ps \<Rightarrow> (c # p) # ps))"

text \<open>\<open>s.startsWith(p)\<close>, \<open>s.includes(p)\<close> and \<open>s.replace(p, r)\<close> with a string
  pattern (the first occurrence only).\<close>

fun js_startsWith :: "string \<Rightarrow> string \<Rightarrow> bool" where
  "js_startsWith s [] = True"
| "js_startsWith [] (p # ps) = False"
| "js_startsWith (c # cs) (p # ps) = (c = p \<and> js_startsWith cs ps)"

fun js_includes :: "string \<Rightarrow> string \<Rightarrow> bool" where
  "js_includes [] p = (p = [])"
| "js_includes (c # cs) p = (js_startsWith (c # cs) p \<or> js_includes cs p)"

fun js_replace :: "string \<Rightarrow> string \<Rightarrow> string \<Rightarrow> string" where
  "js_replace [] p r = (if p = [] then r else [])"
| "js_replace (c # cs) p r =
     (if js_startsWith (c # cs) p then r @ drop (length p) (c # cs)
      else c # js_replace cs p r)"

subsection \<open>\<open>Number(s)\<close> and \<open>isNaN\<close>\<close>

text \<open>
  \<open>isNaN(Number(s))\<close> for a string \<open>s\<close>, after ECMAScript's StringToNumber: the string,
  with white space stripped on both sides, is empty (the number 0), a signed decimal
  literal (digits with an optional fraction and exponent, or \<open>Infinity\<close>), or an unsigned
  binary, octal or hexadecimal integer literal; anything else is \<open>NaN\<close>. White space is
  modelled for ASCII, which is all a URL path holds.
\<close>

definition is_digit :: "char \<Rightarrow> bool" where
  "is_digit c = (c \<in> set ''0123456789'')"

definition is_hex_digit :: "char \<Rightarrow> bool" where
  "is_hex_digit c = (c \<in> set ''0123456789abcdefABCDEF'')"

definition is_ws :: "char \<Rightarrow> bool" where
  "is_ws c = (c \<in> set [CHR '' '', CHR 0x09, CHR 0x0A, CHR 0x0B, CHR 0x0C, CHR 0x0D])"

definition strip_ws :: "string \<Rightarrow> string" where
  "strip_ws s = rev (dropWhile is_ws (rev (dropWhile is_ws s)))"

definition all_digits :: "(char \<Rightarrow> bool) \<Rightarrow> string \<Rightarrow> bool" where
  "all_digits ok ds = (ds \<noteq> [] \<and> list_all ok ds)"

definition is_exponent_opt :: "string \<Rightarrow> bool" where
  "is_exponent_opt s =
     (case s of
        [] \<Rightarrow> True
      | e # r \<Rightarrow>
          (e = CHR ''e'' \<or> e = CHR ''E'') \<and>
          (case r of
             [] \<Rightarrow> False
           | sg # ds \<Rightarrow>
               if sg = CHR ''+'' \<or> sg = CHR ''-'' then all_digits is_digit ds
               else all_digits is_digit r))"

definition is_unsigned_decimal :: "string \<Rightarrow> bool" where
  "is_unsigned_decimal s =
     (s = ''Infinity'' \<or>
      (let ip = takeWhile is_digit s; r1 = dropWhile is_digit s
       in case r1 of
            [] \<Rightarrow> ip \<noteq> []
          | d # r2 \<Rightarrow>
              if d = CHR ''.''
              then (let fp = takeWhile is_digit r2; r3 = dropWhile is_digit r2
                    in (ip \<noteq> [] \<or> fp \<noteq> []) \<and> is_exponent_opt r3)
              else ip \<noteq> [] \<and> is_exponent_opt r1))"

definition is_str_decimal :: "string \<Rightarrow> bool" where
  "is_str_decimal s =
     (case s of
        [] \<Rightarrow> False
      | sg # r \<Rightarrow>
          if sg = CHR ''+'' \<or> sg = CHR ''-'' then is_unsigned_decimal r
          else is_unsigned_decimal s)"

definition is_non_decimal :: "string \<Rightarrow> bool" where
  "is_non_decimal s =
     (case s of
        z # x # ds \<Rightarrow>
          z = CHR ''0'' \<and>
          (if x = CHR ''x'' \<or> x = CHR ''X'' then all_digits is_hex_digit ds
           else if x = CHR ''o'' \<or> x = CHR ''O'' then all_digits (\<lambda>c. c \<in> set ''01234567'') ds
           else if x = CHR ''b'' \<or> x = CHR ''B'' then all_digits (\<lambda>c. c \<in> set ''01'') ds
           else False)
      | _ \<Rightarrow> False)"

definition js_Number_isNaN :: "string \<Rightarrow> bool" where
  "js_Number_isNaN s =
     (let t = strip_ws s in \<not> (t = [] \<or> is_str_decimal t \<or> is_non_decimal t))"

section \<open>Resource locator: the id extractors\<close>

text \<open>
  Every extractor splits \<open>url.pathname\<close> at \<open>/\<close> and scans the parts with an index
  loop. The loops are written here as recursion over the list of parts: the equation for
  \<open>p # q # rest\<close> is the loop body at index \<open>i\<close> with \<open>p = pathParts[i]\<close> and
  \<open>q = pathParts[i + 1]\<close>, and the recursive call is \<open>i++\<close>. The result \<open>None\<close> is
  \<open>null\<close>.
\<close>

text \<open>group-schedules/index.ts, \<open>getGroupIdFromUrl\<close>: the loop runs while
  \<open>i < pathParts.length - 1\<close> and returns the part after \<open>group-schedules\<close> only
  when \<open>id && !isNaN(Number(id))\<close>.\<close>

fun scan_checked_id :: "string \<Rightarrow> string list \<Rightarrow> string option" where
  "scan_checked_id name (p # q # rest) =
     (if p = name \<and> q \<noteq> [] \<and> \<not> js_Number_isNaN q then Some q
      else scan_checked_id name (q # rest))"
| "scan_checked_id name parts = None"

definition getGroupIdFromUrl :: "string \<Rightarrow> string option" where
  "getGroupIdFromUrl pathname = scan_checked_id ''group-schedules'' (split_slash pathname)"

text \<open>artists/index.ts, \<open>getArtistIdFromUrl\<close>: the same loop for \<open>artists\<close>.\<close>

definition getArtistIdFromUrl :: "string \<Rightarrow> string option" where
  "getArtistIdFromUrl pathname = scan_checked_id ''artists'' (split_slash pathname)"

text \<open>set-times/index.ts, \<open>getSetTimeIdFromUrl\<close> and \<open>getCollaborationIdFromUrl\<close>;
  lineups/index.ts, \<open>getLineupEntryIdFromUrl\<close>: the loop returns the part after the
  first matching name, whatever it is.\<close>

fun scan_next_part :: "(string \<Rightarrow> bool) \<Rightarrow> string list \<Rightarrow> string option" where
  "scan_next_part is_name (p # q # rest) =
     (if is_name p then Some q else scan_next_part is_name (q # rest))"
| "scan_next_part is_name parts = None"

definition getSetTimeIdFromUrl :: "string \<Rightarrow> string option" where
  "getSetTimeIdFromUrl pathname =
     scan_next_part (\<lambda>p. p = ''set_times'' \<or> p = ''set-times'') (split_slash pathname)"

definition getCollaborationIdFromUrl :: "string \<Rightarrow> string option" where
  "getCollaborationIdFromUrl pathname =
     scan_next_part (\<lambda>p. p = ''artist_collaborations'') (split_slash pathname)"

definition getLineupEntryIdFromUrl :: "string \<Rightarrow> string option" where
  "getLineupEntryIdFromUrl pathname =
     scan_next_part (\<lambda>p. p = ''lineups'') (split_slash pathname)"

text \<open>stages/index.ts, \<open>getStageIdFromUrl\<close>: the part after \<open>stages\<close> unless it is
  \<open>events\<close>.\<close>

fun scan_stage_id :: "string list \<Rightarrow> string option" where
  "scan_stage_id (p # q # rest) =
     (if p = ''stages'' \<and> q \<noteq> ''events'' then Some q else scan_stage_id (q # rest))"
| "scan_stage_id parts = None"

definition getStageIdFromUrl :: "string \<Rightarrow> string option" where
  "getStageIdFromUrl pathname = scan_stage_id (split_slash pathname)"

text \<open>The nested forms \<open>/<parent>/:eventId/<child>\<close>: the loop runs while
  \<open>i < pathParts.length - 2\<close> and returns \<open>pathParts[i + 1]\<close>. Three files define a
  \<open>getEventIdFromUrl\<close> of this shape (lineups, set-times, stages).\<close>

fun scan_nested_id :: "(string \<Rightarrow> bool) \<Rightarrow> string \<Rightarrow> string list \<Rightarrow> string option" where
  "scan_nested_id is_parent child (p # q # r # rest) =
     (if is_parent p \<and> r = child then Some q
      else scan_nested_id is_parent child (q # r # rest))"
| "scan_nested_id is_parent child parts = None"

definition getEventIdFromUrl_lineups :: "string \<Rightarrow> string option" where
  "getEventIdFromUrl_lineups pathname =
     scan_nested_id (\<lambda>p. p = ''events'' \<or> p = ''lineups'') ''lineup'' (split_slash pathname)"

definition getEventIdFromUrl_set_times :: "string \<Rightarrow> string option" where
  "getEventIdFromUrl_set_times pathname =
     scan_nested_id (\<lambda>p. p = ''events'' \<or> p = ''set-times'') ''schedule'' (split_slash pathname)"

definition getEventIdFromUrl_stages :: "string \<Rightarrow> string option" where
  "getEventIdFromUrl_stages pathname =
     scan_nested_id (\<lambda>p. p = ''events'') ''stages'' (split_slash pathname)"

text \<open>events/index.ts, \<open>getEventIdFromUrl\<close>: \<open>pathParts[2]\<close> when there are at least
  three parts.\<close>

definition getEventIdFromUrl :: "string \<Rightarrow> string option" where
  "getEventIdFromUrl pathname =
     (case split_slash pathname of
        a # b # c # rest \<Rightarrow> Some c
      | _ \<Rightarrow> None)"

section \<open>The persistence store and the authentication provider\<close>

text \<open>
  Modelled from the spec: the Persistence Store and the Authentication Provider are the
  external collaborators of section 6 (a relational store reached through the supabase-js
  query builder, and a provider that validates bearer tokens). Neither is code of this
  repository. The store is modelled as named tables of JSON rows with the operations the
  handlers call (filtered, ordered and ranged reads, counts, inserts, updates, deletes) and
  the uniqueness constraints of section 3. Every other way a store call can fail (the
  network, a row-security policy, a foreign key, a malformed value) is a \<open>fault\<close>
  scripted in the world: the n-th store call of a run fails with the n-th scripted error
  when there is one. Row-security policies that hide rows and foreign-key cascades are
  outside the model. Every call is recorded in \<open>calls\<close> with its error, if it
  returned one.
\<close>

datatype store_error = StoreError (err_code: string) (err_message: string)

datatype qfilter =
    Eq string json
  | Ilike string string
  | Gte string json
  | Lte string json
  | In string "json list"

datatype op = OpSelect | OpCount | OpInsert | OpUpdate | OpDelete

datatype store_call = Call (call_op: op) (call_table: string) (call_error: "store_error option")

record world =
  tables :: "string \<Rightarrow> row list"
  faults :: "store_error option list"
  calls :: "store_call list"
  api_key :: "string option"
  auth_users :: "string \<Rightarrow> string option"
  clock :: string

text \<open>A value as the query string carries it: PostgREST compares the text of a filter
  value with the column.\<close>

definition digit_char :: "nat \<Rightarrow> char" where
  "digit_char n = ''0123456789'' ! n"

function show_nat :: "nat \<Rightarrow> string" where
  "show_nat n = (if n < 10 then [digit_char n] else show_nat (n div 10) @ [digit_char (n mod 10)])"
  by pat_completeness auto
termination
  by (relation "measure id") auto

declare show_nat.simps [simp del]

definition show_int :: "int \<Rightarrow> string" where
  "show_int i = (if i < 0 then CHR ''-'' # show_nat (nat (- i)) else show_nat (nat i))"

fun json_text :: "json \<Rightarrow> string" where
  "json_text JNull = ''null''"
| "json_text (JBool b) = (if b then ''true'' else ''false'')"
| "json_text (JNum n) = show_int n"
| "json_text (JStr s) = s"
| "json_text (JArr xs) = ''[]''"
| "json_text (JObj kvs) = ''{}''"

fun str_le :: "string \<Rightarrow> string \<Rightarrow> bool" where
  "str_le [] t = True"
| "str_le (c # s) [] = False"
| "str_le (c # s) (d # t) = (if c = d then str_le s t else (of_char c :: nat) < of_char d)"

fun json_le :: "json \<Rightarrow> json \<Rightarrow> bool" where
  "json_le (JNum a) (JNum b) = (a \<le> b)"
| "json_le x y = str_le (json_text x) (json_text y)"

definition lower_char :: "char \<Rightarrow> char" where
  "lower_char c =
     (case map_of (zip ''ABCDEFGHIJKLMNOPQRSTUVWXYZ'' ''abcdefghijklmnopqrstuvwxyz'') c of
        None \<Rightarrow> c
      | Some l \<Rightarrow> l)"

text \<open>SQL \<open>ILIKE\<close>: \<open>%\<close> matches any run of characters, \<open>_\<close> any one character,
  letters without regard to case.\<close>

fun like_match :: "string \<Rightarrow> string \<Rightarrow> bool" where
  "like_match [] s = (s = [])"
| "like_match (p # ps) [] = (p = CHR ''%'' \<and> like_match ps [])"
| "like_match (p # ps) (c # cs) =
     (if p = CHR ''%'' then like_match ps (c # cs) \<or> like_match (p # ps) cs
      else (p = CHR ''_'' \<or> lower_char p = lower_char c) \<and> like_match ps cs)"

fun filter_holds :: "qfilter \<Rightarrow> row \<Rightarrow> bool" where
  "filter_holds (Eq c v) r =
     (case map_of r c of
        None \<Rightarrow> False
      | Some x \<Rightarrow> x \<noteq> JNull \<and> json_text x = json_text v)"
| "filter_holds (Ilike c pat) r =
     (case map_of r c of
        Some (JStr s) \<Rightarrow> like_match pat s
      | _ \<Rightarrow> False)"
| "filter_holds (Gte c v) r =
     (case map_of r c of
        None \<Rightarrow> False
      | Some x \<Rightarrow> x \<noteq> JNull \<and> json_le v x)"
| "filter_holds (Lte c v) r =
     (case map_of r c of
        None \<Rightarrow> False
      | Some x \<Rightarrow> x \<noteq> JNull \<and> json_le x v)"
| "filter_holds (In c vs) r =
     (case map_of r c of
        None \<Rightarrow> False
      | Some x \<Rightarrow> x \<noteq> JNull \<and> list_ex (\<lambda>v. json_text x = json_text v) vs)"

definition matching :: "qfilter list \<Rightarrow> row list \<Rightarrow> row list" where
  "matching fs rows = filter (\<lambda>r. list_all (\<lambda>f. filter_holds f r) fs) rows"

text \<open>\<open>.order(column, {ascending})\<close>, the first call the primary key; SQL puts
  \<open>NULL\<close> last in ascending order. The sort is a stable insertion sort.\<close>

fun null_last_le :: "json option \<Rightarrow> json option \<Rightarrow> bool" where
  "null_last_le x None = True"
| "null_last_le x (Some JNull) = True"
| "null_last_le None (Some y) = False"
| "null_last_le (Some JNull) (Some y) = False"
| "null_last_le (Some x) (Some y) = json_le x y"

fun row_le :: "(string \<times> bool) list \<Rightarrow> row \<Rightarrow> row \<Rightarrow> bool" where
  "row_le [] a b = True"
| "row_le ((c, asc) # os) a b =
     (let x = map_of a c; y = map_of b c
      in if x = y then row_le os a b
         else if asc then null_last_le x y else null_last_le y x)"

fun insert_row :: "(string \<times> bool) list \<Rightarrow> row \<Rightarrow> row list \<Rightarrow> row list" where
  "insert_row ord r [] = [r]"
| "insert_row ord r (x # xs) =
     (if row_le ord r x then r # x # xs else x # insert_row ord r xs)"

definition order_rows :: "(string \<times> bool) list \<Rightarrow> row list \<Rightarrow> row list" where
  "order_rows ord rows = foldr (insert_row ord) rows []"

text \<open>\<open>.range(from, to)\<close> sends \<open>offset = from\<close> and \<open>limit = to - from + 1\<close>; a
  bound that is \<open>NaN\<close> (\<open>None\<close>) or negative is refused by the store.\<close>

definition apply_range :: "(int option \<times> int option) option \<Rightarrow> row list \<Rightarrow> store_error + row list" where
  "apply_range rng rows =
     (case rng of
        None \<Rightarrow> Inr rows
      | Some (Some a, Some b) \<Rightarrow>
          if 0 \<le> a \<and> 0 \<le> b - a + 1 then Inr (take (nat (b - a + 1)) (drop (nat a) rows))
          else Inl (StoreError ''PGRST103'' ''Requested range not satisfiable'')
      | Some _ \<Rightarrow> Inl (StoreError ''PGRST103'' ''Requested range not satisfiable''))"

text \<open>The select list: \<open>select("*")\<close> keeps the row, a column list projects it, and an
  embedded resource adds the referenced row (\<open>alias:fk_column (cols)\<close>) or the referencing
  rows (\<open>alias:table!fk_column (cols)\<close>) under its alias.\<close>

type_synonym shape = "(string \<Rightarrow> row list) \<Rightarrow> row \<Rightarrow> row"

definition star :: shape where
  "star tb r = r"

definition cols :: "string list \<Rightarrow> shape" where
  "cols cs tb r = filter (\<lambda>kv. fst kv \<in> set cs) r"

definition embed_one :: "string \<Rightarrow> string \<Rightarrow> string \<Rightarrow> shape \<Rightarrow> shape" where
  "embed_one alias fk tbl sh tb r =
     [(alias,
       (case map_of r fk of
          None \<Rightarrow> JNull
        | Some v \<Rightarrow>
            (case matching [Eq ''id'' v] (tb tbl) of
               [] \<Rightarrow> JNull
             | x # xs \<Rightarrow> JObj (sh tb x))))]"

definition embed_many :: "string \<Rightarrow> string \<Rightarrow> string \<Rightarrow> shape \<Rightarrow> shape" where
  "embed_many alias tbl fk sh tb r =
     [(alias,
       (case map_of r ''id'' of
          None \<Rightarrow> JArr []
        | Some v \<Rightarrow> JArr (map (\<lambda>x. JObj (sh tb x)) (matching [Eq fk v] (tb tbl)))))]"

definition shapes :: "shape list \<Rightarrow> shape" where
  "shapes shs tb r = concat (map (\<lambda>sh. sh tb r) shs)"

text \<open>One awaited query: the scripted fault, if any, is the call's error and the tables
  are not touched; otherwise the operation runs on the tables. The call takes its entry
  off the script and is appended to the log.\<close>

definition error_of :: "store_error + 'a \<Rightarrow> store_error option" where
  "error_of r = (case r of Inl e \<Rightarrow> Some e | Inr x \<Rightarrow> None)"

definition store_exec ::
  "op \<Rightarrow> string \<Rightarrow> ((string \<Rightarrow> row list) \<Rightarrow> (store_error + 'a) \<times> (string \<Rightarrow> row list)) \<Rightarrow>
   world \<Rightarrow> (store_error + 'a) \<times> world" where
  "store_exec k t f w =
     (case (case faults w of
              Some e # fs \<Rightarrow> (Inl e, tables w)
            | _ \<Rightarrow> f (tables w)) of
        (r, tb) \<Rightarrow>
          (r, w\<lparr>tables := tb, faults := tl (faults w),
                 calls := calls w @ [Call k t (error_of r)]\<rparr>))"

definition read_rows ::
  "string \<Rightarrow> shape \<Rightarrow> qfilter list \<Rightarrow> (string \<times> bool) list \<Rightarrow> (int option \<times> int option) option \<Rightarrow>
   (string \<Rightarrow> row list) \<Rightarrow> store_error + row list" where
  "read_rows t sh fs ord rng tb =
     (case apply_range rng (order_rows ord (matching fs (tb t))) of
        Inl e \<Rightarrow> Inl e
      | Inr rs \<Rightarrow> Inr (map (sh tb) rs))"

definition no_rows_error :: store_error where
  "no_rows_error = StoreError ''PGRST116'' ''JSON object requested, multiple (or no) rows returned''"

text \<open>\<open>await query\<close>, \<open>.single()\<close>, \<open>.maybeSingle()\<close> and
  \<open>select(..., {count: "exact", head: true})\<close>.\<close>

definition select_rows ::
  "string \<Rightarrow> shape \<Rightarrow> qfilter list \<Rightarrow> (string \<times> bool) list \<Rightarrow> (int option \<times> int option) option \<Rightarrow>
   world \<Rightarrow> (store_error + row list) \<times> world" where
  "select_rows t sh fs ord rng = store_exec OpSelect t (\<lambda>tb. (read_rows t sh fs ord rng tb, tb))"

definition select_single ::
  "string \<Rightarrow> shape \<Rightarrow> qfilter list \<Rightarrow> world \<Rightarrow> (store_error + row) \<times> world" where
  "select_single t sh fs =
     store_exec OpSelect t
       (\<lambda>tb. (case matching fs (tb t) of
                 [r] \<Rightarrow> Inr (sh tb r)
               | _ \<Rightarrow> Inl no_rows_error, tb))"

definition select_maybe_single ::
  "string \<Rightarrow> shape \<Rightarrow> qfilter list \<Rightarrow> world \<Rightarrow> (store_error + row option) \<times> world" where
  "select_maybe_single t sh fs =
     store_exec OpSelect t
       (\<lambda>tb. (case matching fs (tb t) of
                 [] \<Rightarrow> Inr None
               | [r] \<Rightarrow> Inr (Some (sh tb r))
               | _ \<Rightarrow> Inl no_rows_error, tb))"

definition select_count ::
  "string \<Rightarrow> qfilter list \<Rightarrow> world \<Rightarrow> (store_error + nat) \<times> world" where
  "select_count t fs = store_exec OpCount t (\<lambda>tb. (Inr (length (matching fs (tb t))), tb))"

text \<open>Inserts. The store assigns the id. The uniqueness constraints are those of section 3
  of the spec: a lineup entry per (event, artist), a collaboration per (set time, artist),
  a membership per (group, user); a violation is error code 23505.\<close>

definition unique_keys :: "string \<Rightarrow> string list list" where
  "unique_keys t =
     (if t = ''lineups'' then [[''event_id'', ''artist_id'']]
      else if t = ''artist_collaborations'' then [[''set_time_id'', ''artist_id'']]
      else if t = ''group_members'' then [[''group_id'', ''user_id'']]
      else [])"

definition same_key :: "string list \<Rightarrow> row \<Rightarrow> row \<Rightarrow> bool" where
  "same_key key a b =
     list_all (\<lambda>c. case (map_of a c, map_of b c) of
                      (Some x, Some y) \<Rightarrow> x \<noteq> JNull \<and> json_text x = json_text y
                    | _ \<Rightarrow> False) key"

definition violates_unique :: "string \<Rightarrow> row \<Rightarrow> row list \<Rightarrow> bool" where
  "violates_unique t r rows = list_ex (\<lambda>key. list_ex (same_key key r) rows) (unique_keys t)"

definition unique_error :: store_error where
  "unique_error = StoreError ''23505'' ''duplicate key value violates unique constraint''"

definition fresh_id :: "row list \<Rightarrow> int" where
  "fresh_id rows =
     1 + fold (\<lambda>r m. case map_of r ''id'' of Some (JNum n) \<Rightarrow> max n m | _ \<Rightarrow> m) rows 0"

definition insert_core ::
  "string \<Rightarrow> row \<Rightarrow> (string \<Rightarrow> row list) \<Rightarrow> (store_error + row) \<times> (string \<Rightarrow> row list)" where
  "insert_core t r tb =
     (if violates_unique t r (tb t) then (Inl unique_error, tb)
      else (let r' = (''id'', JNum (fresh_id (tb t))) # r
            in (Inr r', tb(t := tb t @ [r']))))"

text \<open>\<open>insert([r]).select().single()\<close> returns the stored row; a bare \<open>insert([r])\<close>
  returns no data.\<close>

definition insert_single :: "string \<Rightarrow> row \<Rightarrow> world \<Rightarrow> (store_error + row) \<times> world" where
  "insert_single t r = store_exec OpInsert t (insert_core t r)"

definition insert_only :: "string \<Rightarrow> row \<Rightarrow> world \<Rightarrow> (store_error + unit) \<times> world" where
  "insert_only t r =
     store_exec OpInsert t
       (\<lambda>tb. case insert_core t r tb of
                (Inl e, tb') \<Rightarrow> (Inl e, tb')
              | (Inr r', tb') \<Rightarrow> (Inr (), tb'))"

text \<open>\<open>update(payload).eq(...).select().single()\<close>: the payload's keys replace the
  row's; when not exactly one row matches, the singular response is an error and nothing
  is written.\<close>

definition row_update :: "row \<Rightarrow> row \<Rightarrow> row" where
  "row_update payload r =
     map (\<lambda>kv. case map_of payload (fst kv) of None \<Rightarrow> kv | Some v \<Rightarrow> (fst kv, v)) r
     @ filter (\<lambda>kv. map_of r (fst kv) = None) payload"

definition update_single ::
  "string \<Rightarrow> row \<Rightarrow> qfilter list \<Rightarrow> world \<Rightarrow> (store_error + row) \<times> world" where
  "update_single t payload fs =
     store_exec OpUpdate t
       (\<lambda>tb. case matching fs (tb t) of
                [r] \<Rightarrow>
                  (Inr (row_update payload r),
                   tb(t := map (\<lambda>x. if list_all (\<lambda>f. filter_holds f x) fs
                                     then row_update payload x else x) (tb t)))
              | _ \<Rightarrow> (Inl no_rows_error, tb))"

definition delete_rows :: "string \<Rightarrow> qfilter list \<Rightarrow> world \<Rightarrow> (store_error + unit) \<times> world" where
  "delete_rows t fs =
     store_exec OpDelete t
       (\<lambda>tb. (Inr (), tb(t := filter (\<lambda>r. \<not> list_all (\<lambda>f. filter_holds f r) fs) (tb t))))"

section \<open>Requests and responses\<close>

text \<open>What a handler reads of a request: the method, \<open>url.pathname\<close>, the search
  parameters, the two credential headers, and the outcome of \<open>await req.json()\<close>: the
  fields of the body object, or the message of the exception it throws (the handler's
  \<open>catch\<close> turns that into a 500).\<close>

record request =
  req_method :: string
  req_path :: string
  req_query :: "(string \<times> string) list"
  req_api_key :: "string option"
  req_authorization :: "string option"
  req_body :: "string + row"

record response =
  resp_status :: nat
  resp_body :: json

definition json_response :: "nat \<Rightarrow> (string \<times> json) list \<Rightarrow> response" where
  "json_response st kvs = \<lparr>resp_status = st, resp_body = JObj kvs\<rparr>"

definition unauthorizedResponse :: response where
  "unauthorizedResponse = json_response 401 [(''error'', JStr ''Unauthorized'')]"

definition badRequestResponse :: "string \<Rightarrow> response" where
  "badRequestResponse message = json_response 400 [(''error'', JStr message)]"

definition methodNotAllowedResponse :: response where
  "methodNotAllowedResponse = json_response 405 [(''error'', JStr ''Method not allowed'')]"

definition serverErrorResponse :: "string \<Rightarrow> response" where
  "serverErrorResponse message = json_response 500 [(''error'', JStr message)]"

definition notFoundResponse :: "string \<Rightarrow> response" where
  "notFoundResponse message = json_response 404 [(''error'', JStr message)]"

text \<open>\<open>verifyApiKey\<close>: \<open>req.headers.get("x-api-key") === API_KEY\<close>. An absent header
  is \<open>null\<close> and an unset secret is \<open>undefined\<close>, which are not \<open>===\<close>.\<close>

definition verifyApiKey :: "request \<Rightarrow> world \<Rightarrow> bool" where
  "verifyApiKey req w =
     (case (req_api_key req, api_key w) of
        (Some h, Some k) \<Rightarrow> h = k
      | _ \<Rightarrow> False)"

text \<open>\<open>getAuthenticatedUser\<close>: the token is the Authorization header with the first
  \<open>"Bearer "\<close> removed; no header, an empty token, a provider error and an exception all
  give no user. The group-schedules file returns the token with the user.\<close>

definition bearer_token :: "request \<Rightarrow> string option" where
  "bearer_token req =
     (case req_authorization req of
        None \<Rightarrow> None
      | Some h \<Rightarrow> (let token = js_replace h ''Bearer '' [] in if token = [] then None else Some token))"

definition getAuthenticatedUser :: "request \<Rightarrow> world \<Rightarrow> string option" where
  "getAuthenticatedUser req w =
     (case bearer_token req of
        None \<Rightarrow> None
      | Some token \<Rightarrow> auth_users w token)"

text \<open>\<open>url.searchParams.get(k)\<close>.\<close>

definition search_param :: "request \<Rightarrow> string \<Rightarrow> string option" where
  "search_param req k = map_of (req_query req) k"

section \<open>Numbers from query strings, paging arithmetic\<close>


definition digit_val :: "char \<Rightarrow> int" where
  "digit_val c =
     (case map_of (zip ''0123456789abcdef'' [0, 1, 2, 3, 4, 5, 6, 7, 8, 9, 10, 11, 12, 13, 14, 15])
             (lower_char c) of
        None \<Rightarrow> 0
      | Some v \<Rightarrow> v)"

definition digits_value :: "int \<Rightarrow> string \<Rightarrow> int" where
  "digits_value radix ds = foldl (\<lambda>acc c. acc * radix + digit_val c) 0 ds"

definition parseInt :: "string \<Rightarrow> int option" where
  "parseInt s =
     (let t = dropWhile is_ws s;
          neg = (case t of [] \<Rightarrow> False | c # r \<Rightarrow> c = CHR ''-'');
          u = (case t of [] \<Rightarrow> [] | c # r \<Rightarrow> if c = CHR ''-'' \<or> c = CHR ''+'' then r else t);
          hex = (case u of z # x # r \<Rightarrow> z = CHR ''0'' \<and> (x = CHR ''x'' \<or> x = CHR ''X'') | _ \<Rightarrow> False);
          ds = (if hex then takeWhile is_hex_digit (drop 2 u) else takeWhile is_digit u);
          v = digits_value (if hex then 16 else 10) ds
      in if ds = [] then None else Some (if neg then - v else v))"

text \<open>\<open>a || d\<close> for a string that may be \<open>null\<close>.\<close>

definition or_default :: "string option \<Rightarrow> string \<Rightarrow> string" where
  "or_default a d = (case a of None \<Rightarrow> d | Some s \<Rightarrow> if s = [] then d else s)"

definition num2 :: "(int \<Rightarrow> int \<Rightarrow> int) \<Rightarrow> int option \<Rightarrow> int option \<Rightarrow> int option" where
  "num2 f a b = (case (a, b) of (Some x, Some y) \<Rightarrow> Some (f x y) | _ \<Rightarrow> None)"

text \<open>\<open>const startRange = (page - 1) * pageSize; const endRange = page * pageSize - 1\<close>,
  exact while \<open>page * pageSize\<close> is a safe integer.\<close>

definition startRange :: "int option \<Rightarrow> int option \<Rightarrow> int option" where
  "startRange page pageSize = num2 (*) (num2 (-) page (Some 1)) pageSize"

definition endRange :: "int option \<Rightarrow> int option \<Rightarrow> int option" where
  "endRange page pageSize = num2 (-) (num2 (*) page pageSize) (Some 1)"

text \<open>\<open>JSON.stringify\<close> writes \<open>NaN\<close> and the infinities as \<open>null\<close>;
  \<open>Math.ceil(totalCount / pageSize)\<close> is one of them when \<open>pageSize\<close> is \<open>NaN\<close> or 0.\<close>

definition num_json :: "int option \<Rightarrow> json" where
  "num_json a = (case a of None \<Rightarrow> JNull | Some n \<Rightarrow> JNum n)"

definition ceil_div_json :: "int \<Rightarrow> int option \<Rightarrow> json" where
  "ceil_div_json a b =
     (case b of
        None \<Rightarrow> JNull
      | Some d \<Rightarrow> if d = 0 then JNull else JNum (- ((- a) div d)))"

text \<open>\<open>xs.slice(start, end)\<close>: \<open>NaN\<close> counts as 0, a negative index counts from the
  end, both are clamped to the length.\<close>

definition js_slice :: "'a list \<Rightarrow> int option \<Rightarrow> int option \<Rightarrow> 'a list" where
  "js_slice xs s e =
     (let len = int (length xs);
          rel = (\<lambda>v. case v of
                       None \<Rightarrow> 0
                     | Some i \<Rightarrow> if i < 0 then max (len + i) 0 else min i len);
          k = rel s;
          final = rel e
      in take (nat (final - k)) (drop (nat k) xs))"

text \<open>\<open>obj.k\<close> on a value that is not \<open>null\<close>, and \<open>new Map(entries).values()\<close>: a key
  keeps the position of its first entry and the value of its last.\<close>

definition js_get :: "json \<Rightarrow> string \<Rightarrow> json option" where
  "js_get v k = (case v of JObj kvs \<Rightarrow> map_of kvs k | _ \<Rightarrow> None)"

fun map_set :: "'k \<Rightarrow> 'v \<Rightarrow> ('k \<times> 'v) list \<Rightarrow> ('k \<times> 'v) list" where
  "map_set k v [] = [(k, v)]"
| "map_set k v (e # m) = (if fst e = k then (k, v) # m else e # map_set k v m)"

definition js_Map :: "('k \<times> 'v) list \<Rightarrow> ('k \<times> 'v) list" where
  "js_Map entries = fold (\<lambda>e m. map_set (fst e) (snd e) m) entries []"

definition js_Map_values :: "('k \<times> 'v) list \<Rightarrow> 'v list" where
  "js_Map_values entries = map snd (js_Map entries)"

definition is_nullish :: "json option \<Rightarrow> bool" where
  "is_nullish v = (v = None \<or> v = Some JNull)"

text \<open>The message of the \<open>TypeError\<close> that \<open>group.event_id.toString()\<close> throws at
  the first group whose \<open>event_id\<close> is \<open>null\<close> or \<open>undefined\<close>, as the runtime (V8)
  words it.\<close>

definition type_error_message :: "json list \<Rightarrow> string" where
  "type_error_message groups =
     ''Cannot read properties of ''
     @ (case find (\<lambda>g. is_nullish (js_get g ''event_id'')) groups of
          None \<Rightarrow> ''undefined''
        | Some g \<Rightarrow> if js_get g ''event_id'' = None then ''undefined'' else ''null'')
     @ '' (reading 'toString')''"

section \<open>group-schedules/index.ts\<close>

definition group_list_shape :: shape where
  "group_list_shape =
     shapes [star,
             embed_one ''events'' ''event_id'' ''events'' (cols [''id'', ''name'', ''image_url'']),
             embed_many ''members'' ''group_members'' ''group_id''
               (cols [''id'', ''user_id'', ''is_admin'', ''status''])]"

definition rls_response :: "string \<Rightarrow> string \<Rightarrow> string \<Rightarrow> response" where
  "rls_response table_name details suggestion =
     json_response 403
       [(''error'', JStr (''Row Level Security policy violation. Please verify your RLS policies for ''
                          @ table_name @ '' table.'')),
        (''details'', JStr details),
        (''suggestion'', JStr suggestion)]"

text \<open>The steps of \<open>handleListGroupSchedules\<close> after its two queries: the merge of
  the created groups with the groups of the memberships (\<open>.filter(Boolean)\<close> drops a
  membership whose group is \<open>null\<close>), the removal of duplicates through a \<open>Map\<close> keyed by
  \<open>group.id\<close>, and the event filter \<open>group.event_id.toString() === eventId\<close>.\<close>

definition allGroups :: "row list \<Rightarrow> row list \<Rightarrow> json list" where
  "allGroups createdGroups memberGroups =
     map JObj createdGroups
     @ filter (\<lambda>g. js_truthy (Some g))
         (map (\<lambda>item. case map_of item ''group'' of None \<Rightarrow> JNull | Some g \<Rightarrow> g) memberGroups)"

definition uniqueGroups :: "row list \<Rightarrow> row list \<Rightarrow> json list" where
  "uniqueGroups createdGroups memberGroups =
     js_Map_values (map (\<lambda>g. (js_get g ''id'', g)) (allGroups createdGroups memberGroups))"

definition has_event_filter :: "string option \<Rightarrow> bool" where
  "has_event_filter eventId = (eventId \<noteq> None \<and> eventId \<noteq> Some [])"

definition filteredGroups :: "string option \<Rightarrow> json list \<Rightarrow> json list" where
  "filteredGroups eventId groups =
     (if has_event_filter eventId
      then filter (\<lambda>g. Some (json_text (the (js_get g ''event_id''))) = eventId) groups
      else groups)"

definition pagination_json :: "int option \<Rightarrow> int option \<Rightarrow> int \<Rightarrow> json \<Rightarrow> json" where
  "pagination_json page pageSize totalCount totalPages =
     JObj [(''page'', num_json page), (''pageSize'', num_json pageSize),
           (''totalCount'', JNum totalCount), (''totalPages'', totalPages)]"

definition handleListGroupSchedules :: "request \<Rightarrow> world \<Rightarrow> response \<times> world" where
  "handleListGroupSchedules req w =
     (case getAuthenticatedUser req w of
        None \<Rightarrow> (unauthorizedResponse, w)
      | Some uid \<Rightarrow>
          (let eventId = search_param req ''event_id'';
               page = parseInt (or_default (search_param req ''page'') ''1'');
               pageSize = parseInt (or_default (search_param req ''pageSize'') ''20'')
           in case select_rows ''group_schedules'' group_list_shape
                     [Eq ''created_by'' (JStr uid)] [(''created_at'', False)] None w of
                (Inl createdError, w1) \<Rightarrow> (serverErrorResponse (err_message createdError), w1)
              | (Inr createdGroups, w1) \<Rightarrow>
                  (case select_rows ''group_members''
                          (embed_one ''group'' ''group_id'' ''group_schedules'' group_list_shape)
                          [Eq ''user_id'' (JStr uid)] [(''created_at'', False)] None w1 of
                     (Inl memberError, w2) \<Rightarrow> (serverErrorResponse (err_message memberError), w2)
                   | (Inr memberGroups, w2) \<Rightarrow>
                       if has_event_filter eventId
                          \<and> list_ex (\<lambda>g. is_nullish (js_get g ''event_id''))
                                (uniqueGroups createdGroups memberGroups)
                       then (serverErrorResponse
                               (type_error_message (uniqueGroups createdGroups memberGroups)),
                             w2)
                       else
                         (let filtered = filteredGroups eventId (uniqueGroups createdGroups memberGroups);
                              totalCount = int (length filtered);
                              paginatedGroups =
                                js_slice filtered (startRange page pageSize)
                                  (num2 (+) (endRange page pageSize) (Some 1))
                          in (json_response 200
                                [(''group_schedules'', JArr paginatedGroups),
                                 (''pagination'',
                                  pagination_json page pageSize totalCount
                                    (ceil_div_json totalCount pageSize))],
                              w2)))))"

text \<open>\<open>handleGetGroupSchedule\<close> after its access check: the group with its event,
  then its members.\<close>

definition read_group_schedule :: "string \<Rightarrow> world \<Rightarrow> response \<times> world" where
  "read_group_schedule groupId w =
     (case select_single ''group_schedules''
             (shapes [star,
                      embed_one ''events'' ''event_id'' ''events''
                        (cols [''id'', ''name'', ''date_start'', ''date_end'', ''venue'',
                               ''city'', ''country'', ''image_url''])])
             [Eq ''id'' (JStr groupId)] w of
        (Inl error, w1) \<Rightarrow> (serverErrorResponse (err_message error), w1)
      | (Inr data, w1) \<Rightarrow>
          (case select_rows ''group_members''
                  (cols [''id'', ''user_id'', ''is_admin'', ''status'', ''joined_at'', ''created_at''])
                  [Eq ''group_id'' (JStr groupId)] [] None w1 of
             (Inl membersError, w2) \<Rightarrow> (serverErrorResponse (err_message membersError), w2)
           | (Inr members, w2) \<Rightarrow>
               (json_response 200 (row_update [(''members'', JArr (map JObj members))] data), w2)))"

text \<open>The member lookup runs only when the caller is not the creator
  (\<open>if (!isCreator)\<close>); the handler goes on to read the group when either holds.\<close>

definition handleGetGroupSchedule :: "request \<Rightarrow> world \<Rightarrow> response \<times> world" where
  "handleGetGroupSchedule req w =
     (case getAuthenticatedUser req w of
        None \<Rightarrow> (unauthorizedResponse, w)
      | Some uid \<Rightarrow>
          (case getGroupIdFromUrl (req_path req) of
             None \<Rightarrow> (badRequestResponse ''Missing group ID'', w)
           | Some groupId \<Rightarrow>
               (case select_maybe_single ''group_schedules'' star
                       [Eq ''id'' (JStr groupId), Eq ''created_by'' (JStr uid)] w of
                  (Inl creatorError, w1) \<Rightarrow> (serverErrorResponse (err_message creatorError), w1)
                | (Inr isCreator, w1) \<Rightarrow>
                    if isCreator \<noteq> None then read_group_schedule groupId w1
                    else
                      (case select_maybe_single ''group_members'' star
                              [Eq ''group_id'' (JStr groupId), Eq ''user_id'' (JStr uid)] w1 of
                         (Inl memberError, w2) \<Rightarrow> (serverErrorResponse (err_message memberError), w2)
                       | (Inr membership, w2) \<Rightarrow>
                           if membership = None
                           then (notFoundResponse ''Group schedule not found or you don't have access'', w2)
                           else read_group_schedule groupId w2))))"

definition handleCreateGroupSchedule :: "request \<Rightarrow> world \<Rightarrow> response \<times> world" where
  "handleCreateGroupSchedule req w =
     (case getAuthenticatedUser req w of
        None \<Rightarrow> (unauthorizedResponse, w)
      | Some uid \<Rightarrow>
          (case req_body req of
             Inl thrown \<Rightarrow> (serverErrorResponse thrown, w)
           | Inr body \<Rightarrow>
               (let name = map_of body ''name''; event_id = map_of body ''event_id''
                in if \<not> js_truthy name then (badRequestResponse ''Missing required field: name'', w)
                   else if \<not> js_truthy event_id
                   then (badRequestResponse ''Missing required field: event_id'', w)
                   else
                     (case insert_single ''group_schedules''
                             (js_object [(''name'', name), (''event_id'', event_id),
                                         (''created_by'', Some (JStr uid))]) w of
                        (Inl groupError, w1) \<Rightarrow>
                          if js_includes (err_message groupError) ''row-level security''
                          then (rls_response ''group_schedules'' (err_message groupError)
                                  ''Make sure you have a policy allowing users to create groups with themselves as created_by.'',
                                w1)
                          else (serverErrorResponse (err_message groupError), w1)
                      | (Inr grp, w1) \<Rightarrow>
                          (case insert_only ''group_members''
                                  (js_object [(''group_id'', map_of grp ''id''),
                                              (''user_id'', Some (JStr uid)),
                                              (''is_admin'', Some (JBool True)),
                                              (''status'', Some (JStr ''accepted'')),
                                              (''joined_at'', Some (JStr (clock w1)))]) w1 of
                             (Inl memberError, w2) \<Rightarrow>
                               (case delete_rows ''group_schedules''
                                       [Eq ''id'' (case map_of grp ''id'' of None \<Rightarrow> JNull | Some i \<Rightarrow> i)] w2 of
                                  (cleanup, w3) \<Rightarrow>
                                    if js_includes (err_message memberError) ''row-level security''
                                    then (rls_response ''group_members'' (err_message memberError)
                                            ''Make sure you have a policy allowing the group creator to add themselves as a member.'',
                                          w3)
                                    else (serverErrorResponse (err_message memberError), w3))
                           | (Inr u, w2) \<Rightarrow>
                               (json_response 201
                                  [(''success'', JBool True),
                                   (''group_schedule'', JObj grp),
                                   (''message'', JStr ''Group and initial membership created successfully.'')],
                                w2))))))"

text \<open>\<open>if (updates.k) delete updates.k\<close>.\<close>

definition strip_if_truthy :: "string \<Rightarrow> row \<Rightarrow> row" where
  "strip_if_truthy k updates = (if js_truthy (map_of updates k) then js_delete k updates else updates)"

text \<open>\<open>handleUpdateGroupSchedule\<close> after its permission check.\<close>

definition write_group_schedule :: "row \<Rightarrow> string \<Rightarrow> world \<Rightarrow> response \<times> world" where
  "write_group_schedule updates groupId w =
     (case update_single ''group_schedules'' updates [Eq ''id'' (JStr groupId)] w of
        (Inl error, w1) \<Rightarrow> (serverErrorResponse (err_message error), w1)
      | (Inr data, w1) \<Rightarrow>
          (json_response 200 [(''success'', JBool True), (''group_schedule'', JObj data)], w1))"

text \<open>The admin lookup runs only when the caller is not the creator
  (\<open>if (!permissionCheck)\<close>).\<close>

definition handleUpdateGroupSchedule :: "request \<Rightarrow> world \<Rightarrow> response \<times> world" where
  "handleUpdateGroupSchedule req w =
     (case getAuthenticatedUser req w of
        None \<Rightarrow> (unauthorizedResponse, w)
      | Some uid \<Rightarrow>
          (case getGroupIdFromUrl (req_path req) of
             None \<Rightarrow> (badRequestResponse ''Missing group ID'', w)
           | Some groupId \<Rightarrow>
               (case req_body req of
                  Inl thrown \<Rightarrow> (serverErrorResponse thrown, w)
                | Inr body \<Rightarrow>
                    (let updates = strip_if_truthy ''created_by'' (strip_if_truthy ''id'' body)
                     in case select_maybe_single ''group_schedules'' (cols [''id'', ''created_by''])
                               [Eq ''id'' (JStr groupId), Eq ''created_by'' (JStr uid)] w of
                          (Inl permissionError, w1) \<Rightarrow>
                            (serverErrorResponse (err_message permissionError), w1)
                        | (Inr permissionCheck, w1) \<Rightarrow>
                            if permissionCheck \<noteq> None then write_group_schedule updates groupId w1
                            else
                              (case select_maybe_single ''group_members'' (cols [''id''])
                                      [Eq ''group_id'' (JStr groupId), Eq ''user_id'' (JStr uid),
                                       Eq ''is_admin'' (JBool True)] w1 of
                                 (Inl adminError, w2) \<Rightarrow>
                                   (serverErrorResponse (err_message adminError), w2)
                               | (Inr adminCheck, w2) \<Rightarrow>
                                   if adminCheck = None then (unauthorizedResponse, w2)
                                   else write_group_schedule updates groupId w2)))))"

definition handleDeleteGroupSchedule :: "request \<Rightarrow> world \<Rightarrow> response \<times> world" where
  "handleDeleteGroupSchedule req w =
     (case getAuthenticatedUser req w of
        None \<Rightarrow> (unauthorizedResponse, w)
      | Some uid \<Rightarrow>
          (case getGroupIdFromUrl (req_path req) of
             None \<Rightarrow> (badRequestResponse ''Missing group ID'', w)
           | Some groupId \<Rightarrow>
               (case select_maybe_single ''group_schedules'' (cols [''id''])
                       [Eq ''id'' (JStr groupId), Eq ''created_by'' (JStr uid)] w of
                  (Inl permissionError, w1) \<Rightarrow> (serverErrorResponse (err_message permissionError), w1)
                | (Inr permissionCheck, w1) \<Rightarrow>
                    if permissionCheck = None then (unauthorizedResponse, w1)
                    else
                      (case delete_rows ''group_schedules'' [Eq ''id'' (JStr groupId)] w1 of
                         (Inl error, w2) \<Rightarrow> (serverErrorResponse (err_message error), w2)
                       | (Inr u, w2) \<Rightarrow> (json_response 200 [(''success'', JBool True)], w2)))))"

text \<open>\<open>Deno.serve\<close> of group-schedules/index.ts.\<close>

definition serve_group_schedules :: "request \<Rightarrow> world \<Rightarrow> response \<times> world" where
  "serve_group_schedules req w =
     (let path = req_path req;
          isBaseRoute = (path = ''/group-schedules'' \<or> path = ''/group-schedules/'');
          isSpecificRoute = (getGroupIdFromUrl path \<noteq> None)
      in if isBaseRoute \<and> req_method req = ''GET'' then handleListGroupSchedules req w
         else if isBaseRoute \<and> req_method req = ''POST'' then handleCreateGroupSchedule req w
         else if isSpecificRoute \<and> req_method req = ''GET'' then handleGetGroupSchedule req w
         else if isSpecificRoute \<and> req_method req = ''PUT'' then handleUpdateGroupSchedule req w
         else if isSpecificRoute \<and> req_method req = ''DELETE'' then handleDeleteGroupSchedule req w
         else (methodNotAllowedResponse, w))"

section \<open>events/index.ts\<close>

text \<open>\<open>!eventId\<close> for an extracted id: \<open>null\<close> or the empty string.\<close>

definition no_id :: "string option \<Rightarrow> bool" where
  "no_id i = (i = None \<or> i = Some [])"

definition handleCreateEvent :: "request \<Rightarrow> world \<Rightarrow> response \<times> world" where
  "handleCreateEvent req w =
     (if \<not> verifyApiKey req w then (unauthorizedResponse, w)
      else
        (case req_body req of
           Inl thrown \<Rightarrow> (serverErrorResponse thrown, w)
         | Inr body \<Rightarrow>
             if \<not> js_truthy (map_of body ''name'') \<or> \<not> js_truthy (map_of body ''date_start'')
                \<or> \<not> js_truthy (map_of body ''date_end'')
             then (badRequestResponse ''Missing required fields: name, date_start, date_end'', w)
             else
               (case insert_single ''events''
                       (js_object [(''name'', map_of body ''name''),
                                   (''date_start'', map_of body ''date_start''),
                                   (''date_end'', map_of body ''date_end''),
                                   (''venue'', map_of body ''venue''),
                                   (''city'', map_of body ''city''),
                                   (''country'', map_of body ''country''),
                                   (''featured'', map_of body ''featured''),
                                   (''details'', map_of body ''details''),
                                   (''image_url'', map_of body ''image_url''),
                                   (''created_by'', Some JNull)]) w of
                  (Inl error, w1) \<Rightarrow> (serverErrorResponse (err_message error), w1)
                | (Inr data, w1) \<Rightarrow>
                    (json_response 200 [(''success'', JBool True), (''event'', JObj data)], w1))))"

definition handleUpdateEvent :: "request \<Rightarrow> world \<Rightarrow> response \<times> world" where
  "handleUpdateEvent req w =
     (if \<not> verifyApiKey req w then (unauthorizedResponse, w)
      else if no_id (getEventIdFromUrl (req_path req))
      then (badRequestResponse ''Missing event ID'', w)
      else
        (case req_body req of
           Inl thrown \<Rightarrow> (serverErrorResponse thrown, w)
         | Inr body \<Rightarrow>
             (case update_single ''events''
                     (strip_if_truthy ''created_by'' (strip_if_truthy ''id'' body))
                     [Eq ''id'' (JStr (the (getEventIdFromUrl (req_path req))))] w of
                (Inl error, w1) \<Rightarrow> (serverErrorResponse (err_message error), w1)
              | (Inr data, w1) \<Rightarrow>
                  (json_response 200 [(''success'', JBool True), (''event'', JObj data)], w1))))"

definition handleDeleteEvent :: "request \<Rightarrow> world \<Rightarrow> response \<times> world" where
  "handleDeleteEvent req w =
     (if \<not> verifyApiKey req w then (unauthorizedResponse, w)
      else if no_id (getEventIdFromUrl (req_path req))
      then (badRequestResponse ''Missing event ID'', w)
      else
        (case delete_rows ''events''
                [Eq ''id'' (JStr (the (getEventIdFromUrl (req_path req))))] w of
           (Inl error, w1) \<Rightarrow> (serverErrorResponse (err_message error), w1)
         | (Inr u, w1) \<Rightarrow> (json_response 200 [(''success'', JBool True)], w1)))"

section \<open>artists/index.ts\<close>

text \<open>The search filter both queries of \<open>handleListArtists\<close> apply:
  \<open>if (search) query.ilike('name', `%${search}%`)\<close>.\<close>

definition artist_search_filters :: "request \<Rightarrow> qfilter list" where
  "artist_search_filters req =
     (case search_param req ''search'' of
        None \<Rightarrow> []
      | Some search \<Rightarrow> if search = [] then [] else [Ilike ''name'' (''%'' @ search @ ''%'')])"

definition not_found_artist :: response where
  "not_found_artist = json_response 404 [(''error'', JStr ''Artist not found'')]"

definition handleCreateArtist :: "request \<Rightarrow> world \<Rightarrow> response \<times> world" where
  "handleCreateArtist req w =
     (case getAuthenticatedUser req w of
        None \<Rightarrow> (unauthorizedResponse, w)
      | Some uid \<Rightarrow>
          (case req_body req of
             Inl thrown \<Rightarrow> (serverErrorResponse thrown, w)
           | Inr body \<Rightarrow>
               if \<not> js_truthy (map_of body ''name'')
               then (badRequestResponse ''Missing required field: name'', w)
               else
                 (case insert_single ''artists''
                         (js_object [(''name'', map_of body ''name''),
                                     (''spotify_id'', map_of body ''spotify_id''),
                                     (''spotify_url'', map_of body ''spotify_url''),
                                     (''followers'', map_of body ''followers''),
                                     (''genres'', map_of body ''genres''),
                                     (''popularity'', map_of body ''popularity''),
                                     (''image_url'', map_of body ''image_url''),
                                     (''top_tracks'', map_of body ''top_tracks''),
                                     (''related_artists'', map_of body ''related_artists'')]) w of
                    (Inl error, w1) \<Rightarrow> (serverErrorResponse (err_message error), w1)
                  | (Inr data, w1) \<Rightarrow>
                      (json_response 201 [(''success'', JBool True), (''artist'', JObj data)], w1))))"

definition handleListArtists :: "request \<Rightarrow> world \<Rightarrow> response \<times> world" where
  "handleListArtists req w =
     (case getAuthenticatedUser req w of
        None \<Rightarrow> (unauthorizedResponse, w)
      | Some uid \<Rightarrow>
          (let page = parseInt (or_default (search_param req ''page'') ''1'');
               pageSize = parseInt (or_default (search_param req ''pageSize'') ''20'')
           in case select_count ''artists'' (artist_search_filters req) w of
                (Inl countError, w1) \<Rightarrow> (serverErrorResponse (err_message countError), w1)
              | (Inr totalCount, w1) \<Rightarrow>
                  (case select_rows ''artists'' star (artist_search_filters req) [(''name'', True)]
                          (Some (startRange page pageSize, endRange page pageSize)) w1 of
                     (Inl error, w2) \<Rightarrow> (serverErrorResponse (err_message error), w2)
                   | (Inr data, w2) \<Rightarrow>
                       (json_response 200
                          [(''artists'', JArr (map JObj data)),
                           (''pagination'',
                            pagination_json page pageSize (int totalCount)
                              (if totalCount = 0 then JNum 0
                               else ceil_div_json (int totalCount) pageSize))],
                        w2))))"

definition handleGetArtist :: "request \<Rightarrow> world \<Rightarrow> response \<times> world" where
  "handleGetArtist req w =
     (case getAuthenticatedUser req w of
        None \<Rightarrow> (unauthorizedResponse, w)
      | Some uid \<Rightarrow>
          (case getArtistIdFromUrl (req_path req) of
             None \<Rightarrow> (badRequestResponse ''Missing artist ID'', w)
           | Some artistId \<Rightarrow>
               (case select_single ''artists'' star [Eq ''id'' (JStr artistId)] w of
                  (Inl error, w1) \<Rightarrow>
                    if err_code error = ''PGRST116'' then (not_found_artist, w1)
                    else (serverErrorResponse (err_message error), w1)
                | (Inr data, w1) \<Rightarrow> (json_response 200 data, w1))))"

definition handleUpdateArtist :: "request \<Rightarrow> world \<Rightarrow> response \<times> world" where
  "handleUpdateArtist req w =
     (case getAuthenticatedUser req w of
        None \<Rightarrow> (unauthorizedResponse, w)
      | Some uid \<Rightarrow>
          (case getArtistIdFromUrl (req_path req) of
             None \<Rightarrow> (badRequestResponse ''Missing artist ID'', w)
           | Some artistId \<Rightarrow>
               (case req_body req of
                  Inl thrown \<Rightarrow> (serverErrorResponse thrown, w)
                | Inr body \<Rightarrow>
                    (case select_single ''artists'' (cols [''id'']) [Eq ''id'' (JStr artistId)] w of
                       (Inl checkError, w1) \<Rightarrow>
                         if err_code checkError = ''PGRST116'' then (not_found_artist, w1)
                         else (serverErrorResponse (err_message checkError), w1)
                     | (Inr existingArtist, w1) \<Rightarrow>
                         (case update_single ''artists'' (strip_if_truthy ''id'' body)
                                 [Eq ''id'' (JStr artistId)] w1 of
                            (Inl error, w2) \<Rightarrow> (serverErrorResponse (err_message error), w2)
                          | (Inr data, w2) \<Rightarrow>
                              (json_response 200
                                 [(''success'', JBool True), (''artist'', JObj data)], w2))))))"

text \<open>The 409 of \<open>handleDeleteArtist\<close> for a dependency count that is not zero.\<close>

definition dependency_response :: "string \<Rightarrow> string \<Rightarrow> nat \<Rightarrow> response" where
  "dependency_response what key n =
     json_response 409
       [(''error'', JStr (''Cannot delete artist with existing '' @ what)),
        (''dependencies'', JObj [(key, JNum (int n))])]"

definition handleDeleteArtist :: "request \<Rightarrow> world \<Rightarrow> response \<times> world" where
  "handleDeleteArtist req w =
     (if \<not> verifyApiKey req w then (unauthorizedResponse, w)
      else
        (case getArtistIdFromUrl (req_path req) of
           None \<Rightarrow> (badRequestResponse ''Missing artist ID'', w)
         | Some artistId \<Rightarrow>
             (case select_single ''artists'' (cols [''id'']) [Eq ''id'' (JStr artistId)] w of
                (Inl checkError, w1) \<Rightarrow>
                  if err_code checkError = ''PGRST116'' then (not_found_artist, w1)
                  else (serverErrorResponse (err_message checkError), w1)
              | (Inr existingArtist, w1) \<Rightarrow>
                  (case select_count ''lineups'' [Eq ''artist_id'' (JStr artistId)] w1 of
                     (Inl lineupError, w2) \<Rightarrow> (serverErrorResponse (err_message lineupError), w2)
                   | (Inr lineupCount, w2) \<Rightarrow>
                       if lineupCount > 0
                       then (dependency_response ''lineup entries'' ''lineups'' lineupCount, w2)
                       else
                         (case select_count ''set_times'' [Eq ''artist_id'' (JStr artistId)] w2 of
                            (Inl setTimeError, w3) \<Rightarrow>
                              (serverErrorResponse (err_message setTimeError), w3)
                          | (Inr setTimeCount, w3) \<Rightarrow>
                              if setTimeCount > 0
                              then (dependency_response ''set times'' ''set_times'' setTimeCount, w3)
                              else
                                (case select_count ''artist_collaborations''
                                        [Eq ''artist_id'' (JStr artistId)] w3 of
                                   (Inl collabError, w4) \<Rightarrow>
                                     (serverErrorResponse (err_message collabError), w4)
                                 | (Inr collabCount, w4) \<Rightarrow>
                                     if collabCount > 0
                                     then (dependency_response ''collaborations'' ''collaborations''
                                             collabCount, w4)
                                     else
                                       (case delete_rows ''artists'' [Eq ''id'' (JStr artistId)] w4 of
                                          (Inl error, w5) \<Rightarrow>
                                            (serverErrorResponse (err_message error), w5)
                                        | (Inr u, w5) \<Rightarrow>
                                            (json_response 200 [(''success'', JBool True)], w5))))))))"

text \<open>\<open>Deno.serve\<close> of artists/index.ts.\<close>

definition serve_artists :: "request \<Rightarrow> world \<Rightarrow> response \<times> world" where
  "serve_artists req w =
     (let path = req_path req;
          isArtistsBaseRoute = (path = ''/artists'' \<or> path = ''/artists/'');
          isArtistSpecificRoute = (getArtistIdFromUrl path \<noteq> None)
      in if isArtistsBaseRoute \<and> req_method req = ''POST'' then handleCreateArtist req w
         else if isArtistsBaseRoute \<and> req_method req = ''GET'' then handleListArtists req w
         else if isArtistSpecificRoute \<and> req_method req = ''GET'' then handleGetArtist req w
         else if isArtistSpecificRoute \<and> req_method req = ''PUT'' then handleUpdateArtist req w
         else if isArtistSpecificRoute \<and> req_method req = ''DELETE'' then handleDeleteArtist req w
         else (methodNotAllowedResponse, w))"

section \<open>Helpers shared by the remaining handlers\<close>

text \<open>\<open>row.k\<close> passed on to a query or a response; \<open>undefined\<close> is written as
  \<open>null\<close>.\<close>

definition row_get :: "row \<Rightarrow> string \<Rightarrow> json" where
  "row_get r k = (case map_of r k of None \<Rightarrow> JNull | Some v \<Rightarrow> v)"

text \<open>A response whose body is any JSON value (the list handlers answer with an array).\<close>

definition value_response :: "nat \<Rightarrow> json \<Rightarrow> response" where
  "value_response st v = \<lparr>resp_status = st, resp_body = v\<rparr>"

definition not_found_message :: "string \<Rightarrow> response" where
  "not_found_message m = json_response 404 [(''error'', JStr m)]"

definition success_response :: response where
  "success_response = json_response 200 [(''success'', JBool True)]"

text \<open>\<open>Number(s)\<close> for the id a stage is created under. Decimal integers are read,
  exactly while they are safe integers; a string in another notation (an exponent, a
  fraction, \<open>0x\<close>) is outside the integer model of numbers and is written as
  \<open>null\<close>, as \<open>NaN\<close> is. The handler reaches this only with an id that the store has
  matched against the id of an event.\<close>

definition js_Number_int :: "string \<Rightarrow> int option" where
  "js_Number_int s =
     (let t = strip_ws s;
          neg = (case t of [] \<Rightarrow> False | c # r \<Rightarrow> c = CHR ''-'');
          u = (case t of [] \<Rightarrow> [] | c # r \<Rightarrow> if c = CHR ''-'' \<or> c = CHR ''+'' then r else t)
      in if t = [] then Some 0
         else if all_digits is_digit u
         then Some (if neg then - digits_value 10 u else digits_value 10 u)
         else None)"

text \<open>The access check every child resource repeats: the event with this id can be read
  (\<open>select("id").eq("id", ...).single()\<close> on \<open>events\<close>).\<close>

definition select_event :: "json \<Rightarrow> world \<Rightarrow> (store_error + row) \<times> world" where
  "select_event event_id = select_single ''events'' (cols [''id'']) [Eq ''id'' event_id]"

section \<open>events/index.ts, the read handlers\<close>

definition event_list_filters :: "request \<Rightarrow> qfilter list" where
  "event_list_filters req =
     (if search_param req ''featured'' = Some ''true'' then [Eq ''featured'' (JBool True)] else [])
     @ (case search_param req ''search'' of
          None \<Rightarrow> []
        | Some search \<Rightarrow> if search = [] then [] else [Ilike ''name'' (''%'' @ search @ ''%'')])
     @ (case search_param req ''from'' of
          None \<Rightarrow> []
        | Some from \<Rightarrow> if from = [] then [] else [Gte ''date_start'' (JStr from)])
     @ (case search_param req ''to'' of
          None \<Rightarrow> []
        | Some to \<Rightarrow> if to = [] then [] else [Lte ''date_end'' (JStr to)])"

text \<open>\<open>userEventMap[event.id] || false\<close>: object keys are strings.\<close>

definition has_user_event :: "row list \<Rightarrow> row \<Rightarrow> bool" where
  "has_user_event userEvents event =
     list_ex (\<lambda>ue. json_text (row_get ue ''event_id'') = json_text (row_get event ''id'')) userEvents"

definition handleListEvents :: "request \<Rightarrow> world \<Rightarrow> response \<times> world" where
  "handleListEvents req w =
     (case getAuthenticatedUser req w of
        None \<Rightarrow> (unauthorizedResponse, w)
      | Some uid \<Rightarrow>
          (let page = parseInt (or_default (search_param req ''page'') ''1'');
               pageSize = parseInt (or_default (search_param req ''pageSize'') ''10'')
           in case select_rows ''events''
                     (cols [''id'', ''name'', ''date_start'', ''date_end'', ''venue'', ''city'',
                            ''country'', ''featured'', ''details'', ''image_url''])
                     (event_list_filters req) []
                     (Some (startRange page pageSize, endRange page pageSize)) w of
                (Inl error, w1) \<Rightarrow> (serverErrorResponse (err_message error), w1)
              | (Inr events, w1) \<Rightarrow>
                  (case select_rows ''user_events'' (cols [''event_id''])
                          [Eq ''user_id'' (JStr uid)] [] None w1 of
                     (userEventsResult, w2) \<Rightarrow>
                       (let userEvents = (case userEventsResult of Inl userEventError \<Rightarrow> [] | Inr rows \<Rightarrow> rows)
                        in (value_response 200
                              (JArr (map (\<lambda>event.
                                            JObj (row_update
                                                    [(''has_user_event'', JBool (has_user_event userEvents event))]
                                                    event))
                                       events)),
                            w2)))))"

definition handleGetEvent :: "request \<Rightarrow> world \<Rightarrow> response \<times> world" where
  "handleGetEvent req w =
     (case getAuthenticatedUser req w of
        None \<Rightarrow> (unauthorizedResponse, w)
      | Some uid \<Rightarrow>
          if no_id (getEventIdFromUrl (req_path req)) then (badRequestResponse ''Missing event ID'', w)
          else
            (let eventId = the (getEventIdFromUrl (req_path req))
             in case select_single ''events'' star [Eq ''id'' (JStr eventId)] w of
                  (Inl error, w1) \<Rightarrow> (serverErrorResponse (err_message error), w1)
                | (Inr event, w1) \<Rightarrow>
                    (case select_maybe_single ''user_events'' star
                            [Eq ''event_id'' (JStr eventId), Eq ''user_id'' (JStr uid)] w1 of
                       (userEventResult, w2) \<Rightarrow>
                         (let userEvent = (case userEventResult of Inl userEventError \<Rightarrow> None | Inr r \<Rightarrow> r)
                          in (json_response 200
                                (row_update [(''has_user_event'', JBool (userEvent \<noteq> None))] event),
                              w2)))))"

text \<open>\<open>Deno.serve\<close> of events/index.ts; the path is matched with a leading
  \<open>/functions/v1\<close> removed.\<close>

definition serve_events :: "request \<Rightarrow> world \<Rightarrow> response \<times> world" where
  "serve_events req w =
     (let path = req_path req;
          normalizedPath = (if js_startsWith path ''/functions/v1'' then drop 13 path else path);
          eventId = getEventIdFromUrl normalizedPath
      in if normalizedPath = ''/events'' \<or> normalizedPath = ''/events/''
         then (if req_method req = ''POST'' then handleCreateEvent req w
               else if req_method req = ''GET'' then handleListEvents req w
               else (methodNotAllowedResponse, w))
         else if js_startsWith normalizedPath ''/events/'' \<and> \<not> no_id eventId
         then (if req_method req = ''GET'' then handleGetEvent req w
               else if req_method req = ''PUT'' then handleUpdateEvent req w
               else if req_method req = ''DELETE'' then handleDeleteEvent req w
               else (methodNotAllowedResponse, w))
         else (methodNotAllowedResponse, w))"

section \<open>lineups/index.ts\<close>

text \<open>The 409 of \<open>handleAddLineupEntry\<close>.\<close>

definition lineup_conflict_response :: response where
  "lineup_conflict_response =
     json_response 409 [(''error'', JStr ''This artist is already in the lineup for this event'')]"

text \<open>The row \<open>handleAddLineupEntry\<close> inserts for a body.\<close>

definition lineup_row :: "row \<Rightarrow> row" where
  "lineup_row body =
     js_object [(''event_id'', map_of body ''event_id''),
                (''artist_id'', map_of body ''artist_id''),
                (''is_headliner'', map_of body ''is_headliner''),
                (''tier'', map_of body ''tier''),
                (''announcement_date'', map_of body ''announcement_date'')]"

definition handleAddLineupEntry :: "request \<Rightarrow> world \<Rightarrow> response \<times> world" where
  "handleAddLineupEntry req w =
     (case getAuthenticatedUser req w of
        None \<Rightarrow> (unauthorizedResponse, w)
      | Some uid \<Rightarrow>
          (case req_body req of
             Inl thrown \<Rightarrow> (serverErrorResponse thrown, w)
           | Inr body \<Rightarrow>
               if \<not> js_truthy (map_of body ''event_id'') \<or> \<not> js_truthy (map_of body ''artist_id'')
               then (badRequestResponse ''Missing required fields: event_id, artist_id'', w)
               else
                 (case select_event (row_get body ''event_id'') w of
                    (Inl eventError, w1) \<Rightarrow> (not_found_message ''Event not found or access denied'', w1)
                  | (Inr event, w1) \<Rightarrow>
                      (case select_single ''artists'' (cols [''id''])
                              [Eq ''id'' (row_get body ''artist_id'')] w1 of
                         (Inl artistError, w2) \<Rightarrow> (not_found_artist, w2)
                       | (Inr artist, w2) \<Rightarrow>
                           (case insert_single ''lineups'' (lineup_row body) w2 of
                              (Inl error, w3) \<Rightarrow>
                                if err_code error = ''23505'' then (lineup_conflict_response, w3)
                                else (serverErrorResponse (err_message error), w3)
                            | (Inr data, w3) \<Rightarrow>
                                (json_response 200
                                   [(''success'', JBool True), (''entry'', JObj data)], w3))))))"

definition handleListLineup :: "request \<Rightarrow> world \<Rightarrow> response \<times> world" where
  "handleListLineup req w =
     (case getAuthenticatedUser req w of
        None \<Rightarrow> (unauthorizedResponse, w)
      | Some uid \<Rightarrow>
          if no_id (getEventIdFromUrl_lineups (req_path req))
          then (badRequestResponse ''Missing event ID'', w)
          else
            (let eventId = the (getEventIdFromUrl_lineups (req_path req))
             in case select_event (JStr eventId) w of
                  (Inl eventError, w1) \<Rightarrow> (not_found_message ''Event not found or access denied'', w1)
                | (Inr event, w1) \<Rightarrow>
                    (case select_rows ''lineups''
                            (shapes [cols [''id'', ''event_id'', ''artist_id'', ''is_headliner'', ''tier'',
                                           ''announcement_date''],
                                     embed_one ''artists'' ''artist_id'' ''artists''
                                       (cols [''id'', ''name'', ''spotify_id'', ''image_url''])])
                            [Eq ''event_id'' (JStr eventId)]
                            [(''tier'', True), (''is_headliner'', False)] None w1 of
                       (Inl error, w2) \<Rightarrow> (serverErrorResponse (err_message error), w2)
                     | (Inr data, w2) \<Rightarrow> (value_response 200 (JArr (map JObj data)), w2))))"

definition handleRemoveLineupEntry :: "request \<Rightarrow> world \<Rightarrow> response \<times> world" where
  "handleRemoveLineupEntry req w =
     (case getAuthenticatedUser req w of
        None \<Rightarrow> (unauthorizedResponse, w)
      | Some uid \<Rightarrow>
          if no_id (getLineupEntryIdFromUrl (req_path req))
          then (badRequestResponse ''Missing lineup entry ID'', w)
          else
            (let entryId = the (getLineupEntryIdFromUrl (req_path req))
             in case select_single ''lineups'' (cols [''id'', ''event_id''])
                       [Eq ''id'' (JStr entryId)] w of
                  (Inl entryError, w1) \<Rightarrow> (not_found_message ''Lineup entry not found'', w1)
                | (Inr entry, w1) \<Rightarrow>
                    (case select_event (row_get entry ''event_id'') w1 of
                       (Inl eventError, w2) \<Rightarrow> (unauthorizedResponse, w2)
                     | (Inr event, w2) \<Rightarrow>
                         (case delete_rows ''lineups'' [Eq ''id'' (JStr entryId)] w2 of
                            (Inl error, w3) \<Rightarrow> (serverErrorResponse (err_message error), w3)
                          | (Inr u, w3) \<Rightarrow> (success_response, w3)))))"

text \<open>\<open>Deno.serve\<close> of lineups/index.ts.\<close>

definition serve_lineups :: "request \<Rightarrow> world \<Rightarrow> response \<times> world" where
  "serve_lineups req w =
     (let path = req_path req;
          isEventLineupRoute =
            (js_includes path ''/lineup'' \<and> \<not> no_id (getEventIdFromUrl_lineups path));
          isLineupPostRoute = (path = ''/lineups'' \<or> path = ''/lineups/'');
          isLineupEntryRoute =
            (js_includes path ''/lineups/'' \<and> \<not> no_id (getLineupEntryIdFromUrl path))
      in if isLineupPostRoute \<and> req_method req = ''POST'' then handleAddLineupEntry req w
         else if isEventLineupRoute \<and> req_method req = ''GET'' then handleListLineup req w
         else if isLineupEntryRoute \<and> req_method req = ''DELETE'' then handleRemoveLineupEntry req w
         else (methodNotAllowedResponse, w))"

section \<open>stages/index.ts\<close>

definition handleCreateStage :: "request \<Rightarrow> world \<Rightarrow> response \<times> world" where
  "handleCreateStage req w =
     (case getAuthenticatedUser req w of
        None \<Rightarrow> (unauthorizedResponse, w)
      | Some uid \<Rightarrow>
          if no_id (getEventIdFromUrl_stages (req_path req))
          then (badRequestResponse ''Missing event ID'', w)
          else
            (let eventId = the (getEventIdFromUrl_stages (req_path req))
             in case req_body req of
                  Inl thrown \<Rightarrow> (serverErrorResponse thrown, w)
                | Inr body \<Rightarrow>
                    if \<not> js_truthy (map_of body ''name'') then (badRequestResponse ''Name is required'', w)
                    else
                      (case select_event (JStr eventId) w of
                         (Inl eventError, w1) \<Rightarrow>
                           (not_found_message ''Event not found or access denied'', w1)
                       | (Inr event, w1) \<Rightarrow>
                           (case insert_single ''stages''
                                   (js_object [(''name'', map_of body ''name''),
                                               (''event_id'', Some (num_json (js_Number_int eventId))),
                                               (''description'', map_of body ''description'')]) w1 of
                              (Inl error, w2) \<Rightarrow> (serverErrorResponse (err_message error), w2)
                            | (Inr data, w2) \<Rightarrow>
                                (json_response 200
                                   [(''success'', JBool True), (''stage'', JObj data)], w2)))))"

definition handleListStages :: "request \<Rightarrow> world \<Rightarrow> response \<times> world" where
  "handleListStages req w =
     (case getAuthenticatedUser req w of
        None \<Rightarrow> (unauthorizedResponse, w)
      | Some uid \<Rightarrow>
          if no_id (getEventIdFromUrl_stages (req_path req))
          then (badRequestResponse ''Missing event ID'', w)
          else
            (let eventId = the (getEventIdFromUrl_stages (req_path req))
             in case select_event (JStr eventId) w of
                  (Inl eventError, w1) \<Rightarrow> (not_found_message ''Event not found or access denied'', w1)
                | (Inr event, w1) \<Rightarrow>
                    (case select_rows ''stages'' star [Eq ''event_id'' (JStr eventId)]
                            [(''name'', True)] None w1 of
                       (Inl error, w2) \<Rightarrow> (serverErrorResponse (err_message error), w2)
                     | (Inr stages, w2) \<Rightarrow> (value_response 200 (JArr (map JObj stages)), w2))))"

definition handleUpdateStage :: "request \<Rightarrow> world \<Rightarrow> response \<times> world" where
  "handleUpdateStage req w =
     (case getAuthenticatedUser req w of
        None \<Rightarrow> (unauthorizedResponse, w)
      | Some uid \<Rightarrow>
          if no_id (getStageIdFromUrl (req_path req))
          then (badRequestResponse ''Missing stage ID'', w)
          else
            (let stageId = the (getStageIdFromUrl (req_path req))
             in case req_body req of
                  Inl thrown \<Rightarrow> (serverErrorResponse thrown, w)
                | Inr body \<Rightarrow>
                    (case select_single ''stages'' (cols [''id'', ''event_id''])
                            [Eq ''id'' (JStr stageId)] w of
                       (Inl stageError, w1) \<Rightarrow> (not_found_message ''Stage not found'', w1)
                     | (Inr stage, w1) \<Rightarrow>
                         (case select_event (row_get stage ''event_id'') w1 of
                            (Inl eventError, w2) \<Rightarrow> (unauthorizedResponse, w2)
                          | (Inr event, w2) \<Rightarrow>
                              (case update_single ''stages''
                                      (strip_if_truthy ''event_id'' (strip_if_truthy ''id'' body))
                                      [Eq ''id'' (JStr stageId)] w2 of
                                 (Inl error, w3) \<Rightarrow> (serverErrorResponse (err_message error), w3)
                               | (Inr data, w3) \<Rightarrow>
                                   (json_response 200
                                      [(''success'', JBool True), (''stage'', JObj data)], w3))))))"

definition handleDeleteStage :: "request \<Rightarrow> world \<Rightarrow> response \<times> world" where
  "handleDeleteStage req w =
     (case getAuthenticatedUser req w of
        None \<Rightarrow> (unauthorizedResponse, w)
      | Some uid \<Rightarrow>
          if no_id (getStageIdFromUrl (req_path req))
          then (badRequestResponse ''Missing stage ID'', w)
          else
            (let stageId = the (getStageIdFromUrl (req_path req))
             in case select_single ''stages'' (cols [''id'', ''event_id''])
                       [Eq ''id'' (JStr stageId)] w of
                  (Inl stageError, w1) \<Rightarrow> (not_found_message ''Stage not found'', w1)
                | (Inr stage, w1) \<Rightarrow>
                    (case select_event (row_get stage ''event_id'') w1 of
                       (Inl eventError, w2) \<Rightarrow> (unauthorizedResponse, w2)
                     | (Inr event, w2) \<Rightarrow>
                         (case delete_rows ''stages'' [Eq ''id'' (JStr stageId)] w2 of
                            (Inl error, w3) \<Rightarrow> (serverErrorResponse (err_message error), w3)
                          | (Inr u, w3) \<Rightarrow> (success_response, w3)))))"

text \<open>\<open>Deno.serve\<close> of stages/index.ts.\<close>

definition serve_stages :: "request \<Rightarrow> world \<Rightarrow> response \<times> world" where
  "serve_stages req w =
     (if \<not> no_id (getEventIdFromUrl_stages (req_path req))
      then (if req_method req = ''POST'' then handleCreateStage req w
            else if req_method req = ''GET'' then handleListStages req w
            else (methodNotAllowedResponse, w))
      else if \<not> no_id (getStageIdFromUrl (req_path req))
      then (if req_method req = ''PUT'' then handleUpdateStage req w
            else if req_method req = ''DELETE'' then handleDeleteStage req w
            else (methodNotAllowedResponse, w))
      else (methodNotAllowedResponse, w))"

section \<open>set-times/index.ts\<close>

text \<open>The event a set time belongs to is reached through its stage:
  \<open>select("event_id")\<close> on \<open>stages\<close>, answered with a 500 when it fails.\<close>

definition select_stage_event :: "json \<Rightarrow> world \<Rightarrow> (store_error + row) \<times> world" where
  "select_stage_event stage_id = select_single ''stages'' (cols [''event_id'']) [Eq ''id'' stage_id]"

definition stage_error_response :: response where
  "stage_error_response = serverErrorResponse ''Error retrieving stage information''"

definition set_time_not_found :: response where
  "set_time_not_found = not_found_message ''Set time not found''"

definition artist_embed :: "string list \<Rightarrow> shape" where
  "artist_embed cs = embed_one ''artist'' ''artist_id'' ''artists'' (cols cs)"

definition handleCreateSetTime :: "request \<Rightarrow> world \<Rightarrow> response \<times> world" where
  "handleCreateSetTime req w =
     (case getAuthenticatedUser req w of
        None \<Rightarrow> (unauthorizedResponse, w)
      | Some uid \<Rightarrow>
          (case req_body req of
             Inl thrown \<Rightarrow> (serverErrorResponse thrown, w)
           | Inr body \<Rightarrow>
               if \<not> js_truthy (map_of body ''artist_id'') \<or> \<not> js_truthy (map_of body ''stage_id'')
                  \<or> \<not> js_truthy (map_of body ''start_time'') \<or> \<not> js_truthy (map_of body ''end_time'')
               then (badRequestResponse
                       ''Missing required fields: artist_id, stage_id, start_time, end_time'', w)
               else
                 (case select_single ''artists'' (cols [''id''])
                         [Eq ''id'' (row_get body ''artist_id'')] w of
                    (Inl artistError, w1) \<Rightarrow> (not_found_artist, w1)
                  | (Inr artist, w1) \<Rightarrow>
                      (case select_single ''stages'' (cols [''id'', ''event_id''])
                              [Eq ''id'' (row_get body ''stage_id'')] w1 of
                         (Inl stageError, w2) \<Rightarrow> (not_found_message ''Stage not found'', w2)
                       | (Inr stage, w2) \<Rightarrow>
                           (case select_event (row_get stage ''event_id'') w2 of
                              (Inl eventError, w3) \<Rightarrow> (unauthorizedResponse, w3)
                            | (Inr event, w3) \<Rightarrow>
                                (case insert_single ''set_times''
                                        (js_object [(''artist_id'', map_of body ''artist_id''),
                                                    (''stage_id'', map_of body ''stage_id''),
                                                    (''start_time'', map_of body ''start_time''),
                                                    (''end_time'', map_of body ''end_time''),
                                                    (''notes'', map_of body ''notes'')]) w3 of
                                   (Inl error, w4) \<Rightarrow> (serverErrorResponse (err_message error), w4)
                                 | (Inr data, w4) \<Rightarrow>
                                     (json_response 200
                                        [(''success'', JBool True), (''set_time'', JObj data)],
                                      w4)))))))"

text \<open>The schedule \<open>handleListSetTimes\<close> builds from its three query results: each set
  time with its stage and the artists of its collaborations, grouped by stage.\<close>

definition schedule_json :: "row list \<Rightarrow> row list \<Rightarrow> row list \<Rightarrow> json" where
  "schedule_json stages setTimes collaborations =
     (let enriched =
            map (\<lambda>setTime.
                   row_update
                     (js_object
                        [(''stage'',
                          (case filter (\<lambda>stage. json_text (row_get stage ''id'')
                                                  = json_text (row_get setTime ''stage_id'')) stages of
                             [] \<Rightarrow> None
                           | stage # others \<Rightarrow> Some (JObj (last (stage # others))))),
                         (''collaborators'',
                          Some (JArr (map (\<lambda>collab. row_get collab ''artist'')
                                        (filter (\<lambda>collab. json_text (row_get collab ''set_time_id'')
                                                           = json_text (row_get setTime ''id''))
                                           collaborations))))])
                     setTime)
              setTimes
      in JArr (map (\<lambda>stage.
                      JObj [(''stage'', JObj stage),
                            (''set_times'',
                             JArr (map JObj
                                     (filter (\<lambda>st. row_get st ''stage_id'' = row_get stage ''id'')
                                        enriched)))])
                 stages))"

definition handleListSetTimes :: "request \<Rightarrow> world \<Rightarrow> response \<times> world" where
  "handleListSetTimes req w =
     (case getAuthenticatedUser req w of
        None \<Rightarrow> (unauthorizedResponse, w)
      | Some uid \<Rightarrow>
          if no_id (getEventIdFromUrl_set_times (req_path req))
          then (badRequestResponse ''Missing event ID'', w)
          else
            (let eventId = the (getEventIdFromUrl_set_times (req_path req))
             in case select_event (JStr eventId) w of
                  (Inl eventError, w1) \<Rightarrow> (not_found_message ''Event not found or access denied'', w1)
                | (Inr event, w1) \<Rightarrow>
                    (case select_rows ''stages'' (cols [''id'', ''name'', ''description''])
                            [Eq ''event_id'' (JStr eventId)] [] None w1 of
                       (Inl stagesError, w2) \<Rightarrow> (serverErrorResponse (err_message stagesError), w2)
                     | (Inr stages, w2) \<Rightarrow>
                         if stages = [] then (value_response 200 (JArr []), w2)
                         else
                           (case select_rows ''set_times''
                                   (shapes [cols [''id'', ''start_time'', ''end_time'', ''notes'',
                                                  ''stage_id''],
                                            artist_embed [''id'', ''name'', ''image_url'']])
                                   [In ''stage_id'' (map (\<lambda>stage. row_get stage ''id'') stages)]
                                   [(''start_time'', True)] None w2 of
                              (Inl setTimesError, w3) \<Rightarrow>
                                (serverErrorResponse (err_message setTimesError), w3)
                            | (Inr setTimes, w3) \<Rightarrow>
                                (case select_rows ''artist_collaborations''
                                        (shapes [cols [''id'', ''set_time_id''],
                                                 artist_embed [''id'', ''name'', ''image_url'']])
                                        [In ''set_time_id''
                                           (map (\<lambda>setTime. row_get setTime ''id'') setTimes)]
                                        [] None w3 of
                                   (collabResult, w4) \<Rightarrow>
                                     (let collaborations =
                                            (case collabResult of Inl collabError \<Rightarrow> [] | Inr rows \<Rightarrow> rows)
                                      in (value_response 200
                                            (schedule_json stages setTimes collaborations),
                                          w4)))))))"

text \<open>\<open>handleUpdateSetTime\<close> after the check of a new stage: the event is reached
  through the set time's present stage, then the update is made.\<close>

definition write_set_time :: "row \<Rightarrow> string \<Rightarrow> row \<Rightarrow> world \<Rightarrow> response \<times> world" where
  "write_set_time updates setTimeId setTime w =
     (case select_stage_event (row_get setTime ''stage_id'') w of
        (Inl stageError, w1) \<Rightarrow> (stage_error_response, w1)
      | (Inr stage, w1) \<Rightarrow>
          (case select_event (row_get stage ''event_id'') w1 of
             (Inl eventError, w2) \<Rightarrow> (unauthorizedResponse, w2)
           | (Inr event, w2) \<Rightarrow>
               (case update_single ''set_times'' updates [Eq ''id'' (JStr setTimeId)] w2 of
                  (Inl error, w3) \<Rightarrow> (serverErrorResponse (err_message error), w3)
                | (Inr data, w3) \<Rightarrow>
                    (json_response 200 [(''success'', JBool True), (''set_time'', JObj data)], w3))))"

definition handleUpdateSetTime :: "request \<Rightarrow> world \<Rightarrow> response \<times> world" where
  "handleUpdateSetTime req w =
     (case getAuthenticatedUser req w of
        None \<Rightarrow> (unauthorizedResponse, w)
      | Some uid \<Rightarrow>
          if no_id (getSetTimeIdFromUrl (req_path req))
          then (badRequestResponse ''Missing set time ID'', w)
          else
            (let setTimeId = the (getSetTimeIdFromUrl (req_path req))
             in case req_body req of
                  Inl thrown \<Rightarrow> (serverErrorResponse thrown, w)
                | Inr body \<Rightarrow>
                    (let updates = strip_if_truthy ''id'' body
                     in case select_single ''set_times'' (cols [''id'', ''stage_id''])
                               [Eq ''id'' (JStr setTimeId)] w of
                          (Inl setTimeError, w1) \<Rightarrow> (set_time_not_found, w1)
                        | (Inr setTime, w1) \<Rightarrow>
                            if js_truthy (map_of updates ''stage_id'')
                               \<and> row_get updates ''stage_id'' \<noteq> row_get setTime ''stage_id''
                            then (case select_single ''stages'' (cols [''id'', ''event_id''])
                                         [Eq ''id'' (row_get updates ''stage_id'')] w1 of
                                    (Inl stageError, w2) \<Rightarrow>
                                      (not_found_message ''New stage not found'', w2)
                                  | (Inr stage, w2) \<Rightarrow> write_set_time updates setTimeId setTime w2)
                            else write_set_time updates setTimeId setTime w1)))"

definition handleDeleteSetTime :: "request \<Rightarrow> world \<Rightarrow> response \<times> world" where
  "handleDeleteSetTime req w =
     (case getAuthenticatedUser req w of
        None \<Rightarrow> (unauthorizedResponse, w)
      | Some uid \<Rightarrow>
          if no_id (getSetTimeIdFromUrl (req_path req))
          then (badRequestResponse ''Missing set time ID'', w)
          else
            (let setTimeId = the (getSetTimeIdFromUrl (req_path req))
             in case select_single ''set_times'' (cols [''id'', ''stage_id''])
                       [Eq ''id'' (JStr setTimeId)] w of
                  (Inl setTimeError, w1) \<Rightarrow> (set_time_not_found, w1)
                | (Inr setTime, w1) \<Rightarrow>
                    (case select_stage_event (row_get setTime ''stage_id'') w1 of
                       (Inl stageError, w2) \<Rightarrow> (stage_error_response, w2)
                     | (Inr stage, w2) \<Rightarrow>
                         (case select_event (row_get stage ''event_id'') w2 of
                            (Inl eventError, w3) \<Rightarrow> (unauthorizedResponse, w3)
                          | (Inr event, w3) \<Rightarrow>
                              (case delete_rows ''set_times'' [Eq ''id'' (JStr setTimeId)] w3 of
                                 (Inl error, w4) \<Rightarrow> (serverErrorResponse (err_message error), w4)
                               | (Inr u, w4) \<Rightarrow> (success_response, w4))))))"

definition handleAddCollaboration :: "request \<Rightarrow> world \<Rightarrow> response \<times> world" where
  "handleAddCollaboration req w =
     (case getAuthenticatedUser req w of
        None \<Rightarrow> (unauthorizedResponse, w)
      | Some uid \<Rightarrow>
          if no_id (getSetTimeIdFromUrl (req_path req))
          then (badRequestResponse ''Missing set time ID'', w)
          else
            (let setTimeId = the (getSetTimeIdFromUrl (req_path req))
             in case req_body req of
                  Inl thrown \<Rightarrow> (serverErrorResponse thrown, w)
                | Inr body \<Rightarrow>
                    if \<not> js_truthy (map_of body ''artist_id'')
                    then (badRequestResponse ''Missing required field: artist_id'', w)
                    else
                      (case select_single ''set_times'' (cols [''id'', ''stage_id'', ''artist_id''])
                              [Eq ''id'' (JStr setTimeId)] w of
                         (Inl setTimeError, w1) \<Rightarrow> (set_time_not_found, w1)
                       | (Inr setTime, w1) \<Rightarrow>
                           if row_get setTime ''artist_id'' = row_get body ''artist_id''
                           then (badRequestResponse ''Cannot add main artist as a collaborator'', w1)
                           else
                             (case select_single ''artists'' (cols [''id''])
                                     [Eq ''id'' (row_get body ''artist_id'')] w1 of
                                (Inl artistError, w2) \<Rightarrow> (not_found_artist, w2)
                              | (Inr artist, w2) \<Rightarrow>
                                  (case select_stage_event (row_get setTime ''stage_id'') w2 of
                                     (Inl stageError, w3) \<Rightarrow> (stage_error_response, w3)
                                   | (Inr stage, w3) \<Rightarrow>
                                       (case select_event (row_get stage ''event_id'') w3 of
                                          (Inl eventError, w4) \<Rightarrow> (unauthorizedResponse, w4)
                                        | (Inr event, w4) \<Rightarrow>
                                            (case insert_single ''artist_collaborations''
                                                    [(''set_time_id'', num_json (parseInt setTimeId)),
                                                     (''artist_id'', row_get body ''artist_id'')] w4 of
                                               (Inl error, w5) \<Rightarrow>
                                                 if err_code error = ''23505''
                                                 then (json_response 409
                                                         [(''error'',
                                                           JStr ''This artist is already a collaborator for this set time'')],
                                                       w5)
                                                 else (serverErrorResponse (err_message error), w5)
                                             | (Inr data, w5) \<Rightarrow>
                                                 (json_response 200
                                                    [(''success'', JBool True),
                                                     (''collaboration'', JObj data)],
                                                  w5))))))))"

definition handleListCollaborations :: "request \<Rightarrow> world \<Rightarrow> response \<times> world" where
  "handleListCollaborations req w =
     (case getAuthenticatedUser req w of
        None \<Rightarrow> (unauthorizedResponse, w)
      | Some uid \<Rightarrow>
          if no_id (getSetTimeIdFromUrl (req_path req))
          then (badRequestResponse ''Missing set time ID'', w)
          else
            (let setTimeId = the (getSetTimeIdFromUrl (req_path req))
             in case select_single ''set_times'' (cols [''id'', ''stage_id''])
                       [Eq ''id'' (JStr setTimeId)] w of
                  (Inl setTimeError, w1) \<Rightarrow> (set_time_not_found, w1)
                | (Inr setTime, w1) \<Rightarrow>
                    (case select_stage_event (row_get setTime ''stage_id'') w1 of
                       (Inl stageError, w2) \<Rightarrow> (stage_error_response, w2)
                     | (Inr stage, w2) \<Rightarrow>
                         (case select_event (row_get stage ''event_id'') w2 of
                            (Inl eventError, w3) \<Rightarrow> (unauthorizedResponse, w3)
                          | (Inr event, w3) \<Rightarrow>
                              (case select_rows ''artist_collaborations''
                                      (shapes [cols [''id'', ''set_time_id''],
                                               artist_embed [''id'', ''name'', ''spotify_id'',
                                                             ''image_url'']])
                                      [Eq ''set_time_id'' (JStr setTimeId)] [] None w3 of
                                 (Inl error, w4) \<Rightarrow> (serverErrorResponse (err_message error), w4)
                               | (Inr data, w4) \<Rightarrow>
                                   (value_response 200 (JArr (map JObj data)), w4))))))"

definition handleRemoveCollaboration :: "request \<Rightarrow> world \<Rightarrow> response \<times> world" where
  "handleRemoveCollaboration req w =
     (case getAuthenticatedUser req w of
        None \<Rightarrow> (unauthorizedResponse, w)
      | Some uid \<Rightarrow>
          if no_id (getCollaborationIdFromUrl (req_path req))
          then (badRequestResponse ''Missing collaboration ID'', w)
          else
            (let collabId = the (getCollaborationIdFromUrl (req_path req))
             in case select_single ''artist_collaborations'' (cols [''id'', ''set_time_id''])
                       [Eq ''id'' (JStr collabId)] w of
                  (Inl collabError, w1) \<Rightarrow> (not_found_message ''Collaboration not found'', w1)
                | (Inr collab, w1) \<Rightarrow>
                    (case select_single ''set_times'' (cols [''stage_id''])
                            [Eq ''id'' (row_get collab ''set_time_id'')] w1 of
                       (Inl setTimeError, w2) \<Rightarrow>
                         (not_found_message ''Associated set time not found'', w2)
                     | (Inr setTime, w2) \<Rightarrow>
                         (case select_stage_event (row_get setTime ''stage_id'') w2 of
                            (Inl stageError, w3) \<Rightarrow> (stage_error_response, w3)
                          | (Inr stage, w3) \<Rightarrow>
                              (case select_event (row_get stage ''event_id'') w3 of
                                 (Inl eventError, w4) \<Rightarrow> (unauthorizedResponse, w4)
                               | (Inr event, w4) \<Rightarrow>
                                   (case delete_rows ''artist_collaborations''
                                           [Eq ''id'' (JStr collabId)] w4 of
                                      (Inl error, w5) \<Rightarrow>
                                        (serverErrorResponse (err_message error), w5)
                                    | (Inr u, w5) \<Rightarrow> (success_response, w5)))))))"

text \<open>\<open>Deno.serve\<close> of set-times/index.ts.\<close>

definition serve_set_times :: "request \<Rightarrow> world \<Rightarrow> response \<times> world" where
  "serve_set_times req w =
     (let path = req_path req;
          hasSetTimeId = (\<not> no_id (getSetTimeIdFromUrl path));
          isScheduleRoute =
            (js_includes path ''/schedule'' \<and> \<not> no_id (getEventIdFromUrl_set_times path));
          isSetTimesPostRoute =
            (path = ''/set_times'' \<or> path = ''/set_times/'' \<or> path = ''/set-times''
             \<or> path = ''/set-times/'');
          isSetTimeRoute =
            ((js_includes path ''/set_times/'' \<or> js_includes path ''/set-times/'') \<and> hasSetTimeId
             \<and> \<not> js_includes path ''/collaborations'' \<and> \<not> js_includes path ''/schedule'');
          isCollaborationsRoute =
            (js_includes path ''/collaborations'' \<and> hasSetTimeId
             \<and> \<not> js_includes path ''artist_collaborations'');
          isArtistCollaborationsRoute =
            (js_includes path ''/artist_collaborations/''
             \<and> \<not> no_id (getCollaborationIdFromUrl path))
      in if isSetTimesPostRoute \<and> req_method req = ''POST'' then handleCreateSetTime req w
         else if isScheduleRoute \<and> req_method req = ''GET'' then handleListSetTimes req w
         else if isSetTimeRoute \<and> req_method req = ''PUT'' then handleUpdateSetTime req w
         else if isSetTimeRoute \<and> req_method req = ''DELETE'' then handleDeleteSetTime req w
         else if isCollaborationsRoute \<and> req_method req = ''POST'' then handleAddCollaboration req w
         else if isCollaborationsRoute \<and> req_method req = ''GET'' then handleListCollaborations req w
         else if isArtistCollaborationsRoute \<and> req_method req = ''DELETE''
         then handleRemoveCollaboration req w
         else (methodNotAllowedResponse, w))"

section \<open>Example inputs\<close>

definition example_world :: world where
  "example_world =
     \<lparr>tables = (\<lambda>t. []), faults = [], calls = [], api_key = Some ''secret'',
      auth_users = (\<lambda>t. if t = ''tok-alice'' then Some ''alice''
                         else if t = ''tok-bob'' then Some ''bob''
                         else if t = ''tok-carol'' then Some ''carol'' else None),
      clock = ''2025-01-01T00:00:00.000Z''\<rparr>"

definition delete_event_request :: request where
  "delete_event_request =
     \<lparr>req_method = ''DELETE'', req_path = ''/events/7'', req_query = [], req_api_key = Some ''wrong'',
      req_authorization = Some ''Bearer tok-alice'', req_body = Inl ''Unexpected end of JSON input''\<rparr>"

text \<open>The response of \<open>handleCreateGroupSchedule\<close> to a failed member insert: 403 with
  a hint when the message names row-level security, 500 with the message otherwise.\<close>

definition member_error_response :: "store_error \<Rightarrow> response" where
  "member_error_response e =
     (if js_includes (err_message e) ''row-level security''
      then rls_response ''group_members'' (err_message e)
             ''Make sure you have a policy allowing the group creator to add themselves as a member.''
      else serverErrorResponse (err_message e))"

definition create_group_request :: request where
  "create_group_request =
     \<lparr>req_method = ''POST'', req_path = ''/group-schedules'', req_query = [], req_api_key = None,
      req_authorization = Some ''Bearer tok-alice'',
      req_body = Inr [(''name'', JStr ''Squad''), (''event_id'', JNum 1)]\<rparr>"

definition rls_error :: store_error where
  "rls_error = StoreError ''42501'' ''new row violates row-level security policy''"

text \<open>A world in which alice has created group 1 and bob is an admin member of it.\<close>

definition world_with_group :: world where
  "world_with_group =
     example_world
       \<lparr>tables :=
          (\<lambda>t. if t = ''group_schedules''
                then [[(''id'', JNum 1), (''name'', JStr ''Squad''), (''event_id'', JNum 1),
                       (''created_by'', JStr ''alice'')]]
                else if t = ''group_members''
                then [[(''id'', JNum 1), (''group_id'', JNum 1), (''user_id'', JStr ''alice''),
                       (''is_admin'', JBool True), (''status'', JStr ''accepted'')],
                      [(''id'', JNum 2), (''group_id'', JNum 1), (''user_id'', JStr ''bob''),
                       (''is_admin'', JBool True), (''status'', JStr ''accepted'')]]
                else [])\<rparr>"

definition group_request :: "string \<Rightarrow> string \<Rightarrow> request" where
  "group_request m token =
     \<lparr>req_method = m, req_path = ''/group-schedules/1'', req_query = [], req_api_key = None,
      req_authorization = Some (''Bearer '' @ token),
      req_body = Inr [(''name'', JStr ''Renamed'')]\<rparr>"

text \<open>The next \<open>n\<close> store calls are not scripted to fail.\<close>

definition store_answers :: "nat \<Rightarrow> world \<Rightarrow> bool" where
  "store_answers n w = list_all (\<lambda>f. f = None) (take n (faults w))"

text \<open>The 404 of \<open>handleGetGroupSchedule\<close>.\<close>

definition not_found_no_access :: response where
  "not_found_no_access = notFoundResponse ''Group schedule not found or you don't have access''"

text \<open>A call of the given kind on the given table is in the log.\<close>

definition issued :: "op \<Rightarrow> string \<Rightarrow> world \<Rightarrow> bool" where
  "issued k t w = list_ex (\<lambda>c. call_op c = k \<and> call_table c = t) (calls w)"

text \<open>The rows the two permission queries of the group handlers match: the group with
  this id created by this user, and this user's admin membership of the group.\<close>

definition creator_rows :: "world \<Rightarrow> string \<Rightarrow> string \<Rightarrow> row list" where
  "creator_rows w groupId uid =
     matching [Eq ''id'' (JStr groupId), Eq ''created_by'' (JStr uid)] (tables w ''group_schedules'')"

definition admin_rows :: "world \<Rightarrow> string \<Rightarrow> string \<Rightarrow> row list" where
  "admin_rows w groupId uid =
     matching [Eq ''group_id'' (JStr groupId), Eq ''user_id'' (JStr uid), Eq ''is_admin'' (JBool True)]
       (tables w ''group_members'')"









text \<open>The rows of the three tables that reference an artist, as \<open>handleDeleteArtist\<close>
  counts them.\<close>

definition lineup_refs :: "world \<Rightarrow> string \<Rightarrow> nat" where
  "lineup_refs w artistId = length (matching [Eq ''artist_id'' (JStr artistId)] (tables w ''lineups''))"

definition set_time_refs :: "world \<Rightarrow> string \<Rightarrow> nat" where
  "set_time_refs w artistId = length (matching [Eq ''artist_id'' (JStr artistId)] (tables w ''set_times''))"

definition collaboration_refs :: "world \<Rightarrow> string \<Rightarrow> nat" where
  "collaboration_refs w artistId =
     length (matching [Eq ''artist_id'' (JStr artistId)] (tables w ''artist_collaborations''))"

text \<open>One artist, in the lineup of one event; the request that deletes the artist.\<close>

definition world_with_lineup_artist :: world where
  "world_with_lineup_artist =
     example_world
       \<lparr>tables :=
          (\<lambda>t. if t = ''artists'' then [[(''id'', JNum 1), (''name'', JStr ''DJ'')]]
                else if t = ''lineups''
                then [[(''id'', JNum 1), (''event_id'', JNum 1), (''artist_id'', JNum 1)]]
                else [])\<rparr>"

definition delete_artist_request :: request where
  "delete_artist_request =
     \<lparr>req_method = ''DELETE'', req_path = ''/artists/1'', req_query = [],
      req_api_key = Some ''secret'', req_authorization = None,
      req_body = Inl ''Unexpected end of JSON input''\<rparr>"


text \<open>The (event, artist) pair of a request body is already in the lineup table.\<close>

definition lineup_pair_exists :: "world \<Rightarrow> row \<Rightarrow> bool" where
  "lineup_pair_exists w body =
     list_ex (same_key [''event_id'', ''artist_id''] (lineup_row body)) (tables w ''lineups'')"

text \<open>One event and one artist, no lineup entry yet; the request that adds the artist to the
  event's lineup.\<close>

definition world_with_event_artist :: world where
  "world_with_event_artist =
     example_world
       \<lparr>tables :=
          (\<lambda>t. if t = ''artists'' then [[(''id'', JNum 1), (''name'', JStr ''DJ'')]]
                else if t = ''events'' then [[(''id'', JNum 1), (''name'', JStr ''Rave'')]]
                else [])\<rparr>"

definition add_lineup_request :: request where
  "add_lineup_request =
     \<lparr>req_method = ''POST'', req_path = ''/lineups'', req_query = [],
      req_api_key = None, req_authorization = Some ''Bearer tok-alice'',
      req_body = Inr [(''event_id'', JNum 1), (''artist_id'', JNum 1)]\<rparr>"


section \<open>The handlers as one family\<close>

datatype handler =
    ListGroupSchedules | GetGroupSchedule | CreateGroupSchedule | UpdateGroupSchedule
  | DeleteGroupSchedule
  | CreateEvent | ListEvents | GetEvent | UpdateEvent | DeleteEvent
  | CreateArtist | ListArtists | GetArtist | UpdateArtist | DeleteArtist
  | AddLineupEntry | ListLineup | RemoveLineupEntry
  | CreateStage | ListStages | UpdateStage | DeleteStage
  | CreateSetTime | ListSetTimes | UpdateSetTime | DeleteSetTime
  | AddCollaboration | ListCollaborations | RemoveCollaboration

fun run :: "handler \<Rightarrow> request \<Rightarrow> world \<Rightarrow> response \<times> world" where
  "run ListGroupSchedules = handleListGroupSchedules"
| "run GetGroupSchedule = handleGetGroupSchedule"
| "run CreateGroupSchedule = handleCreateGroupSchedule"
| "run UpdateGroupSchedule = handleUpdateGroupSchedule"
| "run DeleteGroupSchedule = handleDeleteGroupSchedule"
| "run CreateEvent = handleCreateEvent"
| "run ListEvents = handleListEvents"
| "run GetEvent = handleGetEvent"
| "run UpdateEvent = handleUpdateEvent"
| "run DeleteEvent = handleDeleteEvent"
| "run CreateArtist = handleCreateArtist"
| "run ListArtists = handleListArtists"
| "run GetArtist = handleGetArtist"
| "run UpdateArtist = handleUpdateArtist"
| "run DeleteArtist = handleDeleteArtist"
| "run AddLineupEntry = handleAddLineupEntry"
| "run ListLineup = handleListLineup"
| "run RemoveLineupEntry = handleRemoveLineupEntry"
| "run CreateStage = handleCreateStage"
| "run ListStages = handleListStages"
| "run UpdateStage = handleUpdateStage"
| "run DeleteStage = handleDeleteStage"
| "run CreateSetTime = handleCreateSetTime"
| "run ListSetTimes = handleListSetTimes"
| "run UpdateSetTime = handleUpdateSetTime"
| "run DeleteSetTime = handleDeleteSetTime"
| "run AddCollaboration = handleAddCollaboration"
| "run ListCollaborations = handleListCollaborations"
| "run RemoveCollaboration = handleRemoveCollaboration"

text \<open>The store calls whose error a handler passes over, each marked in the source with
  a comment (\<open>Continue with empty user events rather than failing\<close>,
  \<open>Continue without collaborations rather than failing\<close>): the lookup of the caller's
  \<open>user_events\<close> in \<open>handleListEvents\<close> and \<open>handleGetEvent\<close>, and the lookup of the
  collaborations in \<open>handleListSetTimes\<close>.\<close>

definition tolerated :: "handler \<Rightarrow> store_call \<Rightarrow> bool" where
  "tolerated h c =
     (call_op c = OpSelect \<and>
      ((h = ListEvents \<or> h = GetEvent) \<and> call_table c = ''user_events''
       \<or> h = ListSetTimes \<and> call_table c = ''artist_collaborations''))"

text \<open>The one call made after a failed call: the delete of the new group that
  \<open>handleCreateGroupSchedule\<close> issues after the insert of the member has failed.\<close>

definition compensation :: "handler \<Rightarrow> store_call \<Rightarrow> store_call list \<Rightarrow> bool" where
  "compensation h c cs =
     (h = CreateGroupSchedule \<and> call_op c = OpInsert \<and> call_table c = ''group_members''
      \<and> length cs = 1 \<and> call_op (hd cs) = OpDelete \<and> call_table (hd cs) = ''group_schedules'')"

text \<open>A handler's calls, in order, and its response: every failed call is the last call, or
  is followed by the compensation only; and the response is an error (status 400 or more),
  except that it is 200 when the failed call is one of the tolerated lookups.\<close>

fun stops_at_failure :: "handler \<Rightarrow> store_call list \<Rightarrow> response \<Rightarrow> bool" where
  "stops_at_failure h [] resp = True"
| "stops_at_failure h (c # cs) resp =
     (if call_error c = None then stops_at_failure h cs resp
      else (cs = [] \<or> compensation h c cs)
           \<and> (if tolerated h c then resp_status resp = 200 else 400 \<le> resp_status resp)
           \<and> stops_at_failure h cs resp)"

text \<open>The calls a run adds to the log, and three properties of the outcome of a piece of a
  handler started in a world: it obeys \<open>stops_at_failure\<close>; it makes no call and answers
  200; it makes no call and answers with an error.\<close>

definition new_calls :: "world \<Rightarrow> world \<Rightarrow> store_call list" where
  "new_calls w w' = drop (length (calls w)) (calls w')"

definition orderly :: "handler \<Rightarrow> world \<Rightarrow> response \<times> world \<Rightarrow> bool" where
  "orderly h w p =
     (calls (snd p) = calls w @ new_calls w (snd p)
      \<and> stops_at_failure h (new_calls w (snd p)) (fst p))"

definition passing :: "world \<Rightarrow> response \<times> world \<Rightarrow> bool" where
  "passing w p = (calls (snd p) = calls w \<and> resp_status (fst p) = 200)"

definition failing :: "world \<Rightarrow> response \<times> world \<Rightarrow> bool" where
  "failing w p = (calls (snd p) = calls w \<and> 400 \<le> resp_status (fst p))"

text \<open>An event with one stage, and a store that answers three calls and fails the fourth; the
  request for the event's schedule. An artist and a store that answers one call and fails the
  second, for the request that deletes the artist.\<close>

definition connection_lost :: store_error where
  "connection_lost = StoreError ''08006'' ''connection lost''"

definition world_losing_collaborations :: world where
  "world_losing_collaborations =
     example_world
       \<lparr>tables :=
          (\<lambda>t. if t = ''events'' then [[(''id'', JNum 1), (''name'', JStr ''Rave'')]]
                else if t = ''stages''
                then [[(''id'', JNum 1), (''event_id'', JNum 1), (''name'', JStr ''Main'')]]
                else []),
        faults := [None, None, None, Some connection_lost]\<rparr>"

definition schedule_request :: request where
  "schedule_request =
     \<lparr>req_method = ''GET'', req_path = ''/events/1/schedule'', req_query = [],
      req_api_key = None, req_authorization = Some ''Bearer tok-alice'',
      req_body = Inl ''Unexpected end of JSON input''\<rparr>"

definition world_losing_counts :: world where
  "world_losing_counts = world_with_lineup_artist\<lparr>faults := [None, Some connection_lost]\<rparr>"

text \<open>The same store with the artist already in the event's lineup.\<close>

definition world_with_lineup_entry :: world where
  "world_with_lineup_entry =
     world_with_event_artist
       \<lparr>tables :=
          (tables world_with_event_artist)
            (''lineups'' := [[(''id'', JNum 1), (''event_id'', JNum 1), (''artist_id'', JNum 1)]])\<rparr>"

text \<open>The store with one event that answers one call and fails the second, and a read
  request of a user for the events.\<close>

definition world_losing_user_events :: world where
  "world_losing_user_events = world_with_event_artist\<lparr>faults := [None, Some connection_lost]\<rparr>"

definition event_read_request :: "string \<Rightarrow> request" where
  "event_read_request path =
     \<lparr>req_method = ''GET'', req_path = path, req_query = [], req_api_key = None,
      req_authorization = Some ''Bearer tok-alice'',
      req_body = Inl ''Unexpected end of JSON input''\<rparr>"


text \<open>The row \<open>handleCreateEvent\<close> inserts for a body, and the requests of an administrator:
  with the secret and without an Authorization header.\<close>

definition event_row :: "row \<Rightarrow> row" where
  "event_row body =
     js_object [(''name'', map_of body ''name''),
                (''date_start'', map_of body ''date_start''),
                (''date_end'', map_of body ''date_end''),
                (''venue'', map_of body ''venue''),
                (''city'', map_of body ''city''),
                (''country'', map_of body ''country''),
                (''featured'', map_of body ''featured''),
                (''details'', map_of body ''details''),
                (''image_url'', map_of body ''image_url''),
                (''created_by'', Some JNull)]"

definition admin_event_request :: "string \<Rightarrow> string \<Rightarrow> request" where
  "admin_event_request m path =
     \<lparr>req_method = m, req_path = path, req_query = [], req_api_key = Some ''secret'',
      req_authorization = None,
      req_body = Inr [(''name'', JStr ''Rave 2''), (''date_start'', JStr ''2025-06-01''),
                      (''date_end'', JStr ''2025-06-02'')]\<rparr>"

section \<open>Properties of the id extractors\<close>

lemma scan_checked_id_numeric:
  "scan_checked_id name parts = Some q \<Longrightarrow> q \<noteq> [] \<and> \<not> js_Number_isNaN q \<and> q \<in> set parts"
  by (induction name parts rule: scan_checked_id.induct) (auto split: if_splits)

lemma getGroupIdFromUrl_numeric:
  "getGroupIdFromUrl pathname = Some q \<Longrightarrow> \<not> js_Number_isNaN q"
  unfolding getGroupIdFromUrl_def by (drule scan_checked_id_numeric) simp

lemma getArtistIdFromUrl_numeric:
  "getArtistIdFromUrl pathname = Some q \<Longrightarrow> \<not> js_Number_isNaN q"
  unfolding getArtistIdFromUrl_def by (drule scan_checked_id_numeric) simp

text \<open>
  C5. The claim is that every id extractor of an integer-keyed resource returns \<open>null\<close>
  when the part in the id position does not parse as a number. The extractors of group
  schedules and artists do; those of lineup entries, set times and collaborations return
  the part unchecked: on \<open>/lineups/abc\<close>, \<open>/set_times/abc\<close> and
  \<open>/artist_collaborations/abc\<close> they return \<open>abc\<close>, for which \<open>Number\<close> is \<open>NaN\<close>.
\<close>

theorem unchecked_extractors_return_non_numeric:
  "getLineupEntryIdFromUrl ''/lineups/abc'' = Some ''abc''
   \<and> getSetTimeIdFromUrl ''/set_times/abc'' = Some ''abc''
   \<and> getCollaborationIdFromUrl ''/artist_collaborations/abc'' = Some ''abc''
   \<and> js_Number_isNaN ''abc''
   \<and> getGroupIdFromUrl ''/group-schedules/abc'' = None
   \<and> getArtistIdFromUrl ''/artists/abc'' = None"
  by code_simp

section \<open>Store operations, case by case\<close>

declare filter_holds.simps [simp del]

lemma resp_status_simps [simp]:
  "resp_status unauthorizedResponse = 401"
  "resp_status (badRequestResponse m) = 400"
  "resp_status (serverErrorResponse m) = 500"
  "resp_status (notFoundResponse m) = 404"
  "resp_status methodNotAllowedResponse = 405"
  "resp_status (rls_response a b c) = 403"
  "resp_status (json_response n kvs) = n"
  by (simp_all add: unauthorizedResponse_def badRequestResponse_def serverErrorResponse_def
        notFoundResponse_def rls_response_def json_response_def methodNotAllowedResponse_def)

lemma store_exec_cases:
  assumes "store_exec k t f w = (res, w1)"
  obtains (fault) e where "res = Inl e"
      "w1 = w\<lparr>tables := tables w, faults := tl (faults w), calls := calls w @ [Call k t (Some e)]\<rparr>"
      "faults w \<noteq> []" "hd (faults w) = Some e"
    | (run) "res = fst (f (tables w))"
      "w1 = w\<lparr>tables := snd (f (tables w)), faults := tl (faults w),
              calls := calls w @ [Call k t (error_of (fst (f (tables w))))]\<rparr>"
      "faults w = [] \<or> hd (faults w) = None"
  using assms
  by (auto simp: store_exec_def error_of_def split: prod.splits list.splits option.splits)

lemma insert_single_cases:
  assumes "insert_single t r w = (res, w1)"
  obtains (fault) e where "res = Inl e"
      "w1 = w\<lparr>tables := tables w, faults := tl (faults w), calls := calls w @ [Call OpInsert t (Some e)]\<rparr>"
    | (stored) "res = Inr ((''id'', JNum (fresh_id (tables w t))) # r)"
      "w1 = w\<lparr>tables := (tables w)(t := tables w t @ [(''id'', JNum (fresh_id (tables w t))) # r]),
              faults := tl (faults w), calls := calls w @ [Call OpInsert t None]\<rparr>"
  using assms unfolding insert_single_def
  by (elim store_exec_cases) (auto simp: insert_core_def error_of_def Let_def split: if_splits)

lemma insert_only_cases:
  assumes "insert_only t r w = (res, w1)"
  obtains (fault) e where "res = Inl e"
      "w1 = w\<lparr>tables := tables w, faults := tl (faults w), calls := calls w @ [Call OpInsert t (Some e)]\<rparr>"
    | (stored) "res = Inr ()"
      "w1 = w\<lparr>tables := (tables w)(t := tables w t @ [(''id'', JNum (fresh_id (tables w t))) # r]),
              faults := tl (faults w), calls := calls w @ [Call OpInsert t None]\<rparr>"
  using assms unfolding insert_only_def
  by (elim store_exec_cases) (auto simp: insert_core_def error_of_def Let_def split: if_splits)

lemma delete_rows_cases:
  assumes "delete_rows t fs w = (res, w1)"
  obtains (fault) e where "res = Inl e"
      "w1 = w\<lparr>tables := tables w, faults := tl (faults w), calls := calls w @ [Call OpDelete t (Some e)]\<rparr>"
    | (deleted) "res = Inr ()"
      "w1 = w\<lparr>tables := (tables w)(t := filter (\<lambda>r. \<not> list_all (\<lambda>f. filter_holds f r) fs) (tables w t)),
              faults := tl (faults w), calls := calls w @ [Call OpDelete t None]\<rparr>"
  using assms unfolding delete_rows_def
  by (elim store_exec_cases) (auto simp: error_of_def)

lemma matching_after_delete [simp]:
  "matching fs (filter (\<lambda>r. \<not> list_all (\<lambda>f. filter_holds f r) fs) rows) = []"
  by (simp add: matching_def filter_empty_conv)

lemma js_truthy_Some: "js_truthy v \<Longrightarrow> \<exists>x. v = Some x"
  by (cases v) auto

lemmas store_eval =
  store_exec_def error_of_def insert_single_def insert_only_def delete_rows_def insert_core_def
  select_rows_def select_single_def select_maybe_single_def select_count_def update_single_def
  read_rows_def apply_range_def order_rows_def
  violates_unique_def unique_keys_def same_key_def fresh_id_def matching_def filter_holds.simps
  show_int_def show_nat.simps digit_char_def Let_def
  getAuthenticatedUser_def bearer_token_def

section \<open>Creating a group schedule\<close>

text \<open>
  C1 (amended). A run of \<open>handleCreateGroupSchedule\<close> that answers 201 has added exactly
  one group schedule row and exactly one group member row, the member being the caller with
  \<open>is_admin = true\<close> and \<open>status = accepted\<close>. A run in which the member insert fails
  has made exactly three store calls (the group insert, the member insert, a delete of the
  new group row), answers with the member insert's error (403 for row-level security, 500
  otherwise) and leaves the members table as it was; when the delete itself succeeds, no row
  with the new group's id is left. The handler does not look at the delete's result.
\<close>

theorem create_group_unit:
  assumes run: "handleCreateGroupSchedule req w = (resp, w')"
    and log: "calls w = []"
  shows "(resp_status resp = 201 \<longrightarrow>
      (\<exists>uid g m. getAuthenticatedUser req w = Some uid \<and>
         tables w' ''group_schedules'' = tables w ''group_schedules'' @ [g] \<and>
         tables w' ''group_members'' = tables w ''group_members'' @ [m] \<and>
         map_of g ''created_by'' = Some (JStr uid) \<and>
         map_of m ''group_id'' = map_of g ''id'' \<and>
         map_of m ''user_id'' = Some (JStr uid) \<and>
         map_of m ''is_admin'' = Some (JBool True) \<and>
         map_of m ''status'' = Some (JStr ''accepted'')))
    \<and> (\<forall>e. Call OpInsert ''group_members'' (Some e) \<in> set (calls w') \<longrightarrow>
      (\<exists>d. calls w' = [Call OpInsert ''group_schedules'' None, Call OpInsert ''group_members'' (Some e),
                       Call OpDelete ''group_schedules'' d] \<and>
           resp = member_error_response e \<and>
           tables w' ''group_members'' = tables w ''group_members'' \<and>
           (d = None \<longrightarrow>
              matching [Eq ''id'' (JNum (fresh_id (tables w ''group_schedules'')))]
                (tables w' ''group_schedules'') = [])))"
proof (cases "getAuthenticatedUser req w")
  case None
  then have "handleCreateGroupSchedule req w = (unauthorizedResponse, w)"
    by (simp add: handleCreateGroupSchedule_def)
  with run log show ?thesis by auto
next
  case (Some uid)
  show ?thesis
  proof (cases "req_body req")
    case (Inl thrown)
    with Some have "handleCreateGroupSchedule req w = (serverErrorResponse thrown, w)"
      by (simp add: handleCreateGroupSchedule_def)
    with run log show ?thesis by auto
  next
    case (Inr body)
    show ?thesis
    proof (cases "js_truthy (map_of body ''name'') \<and> js_truthy (map_of body ''event_id'')")
      case False
      with Some Inr have "\<exists>m. handleCreateGroupSchedule req w = (badRequestResponse m, w)"
        by (auto simp: handleCreateGroupSchedule_def Let_def)
      with run log show ?thesis by auto
    next
      case True
      then obtain nm ev where nm: "map_of body ''name'' = Some nm" and ev: "map_of body ''event_id'' = Some ev"
        by (auto dest!: js_truthy_Some)
      define g0 where "g0 = [(''name'', nm), (''event_id'', ev), (''created_by'', JStr uid)]"
      define gid where "gid = JNum (fresh_id (tables w ''group_schedules''))"
      obtain r1 w1 where i1: "insert_single ''group_schedules'' g0 w = (r1, w1)" by force
      define m0 where "m0 = [(''group_id'', gid), (''user_id'', JStr uid), (''is_admin'', JBool True),
            (''status'', JStr ''accepted''), (''joined_at'', JStr (clock w1))]"
      obtain r2 w2 where i2: "insert_only ''group_members'' m0 w1 = (r2, w2)" by force
      obtain r3 w3 where i3: "delete_rows ''group_schedules'' [Eq ''id'' gid] w2 = (r3, w3)" by force
      note pre = Some Inr nm ev True [unfolded nm ev]
      from i1 show ?thesis
      proof (cases rule: insert_single_cases)
        case (fault e)
        have "\<exists>r. handleCreateGroupSchedule req w = (r, w1) \<and> resp_status r \<noteq> 201"
          using pre i1 [unfolded g0_def] \<open>r1 = Inl e\<close>
          by (simp add: handleCreateGroupSchedule_def Let_def)
        with run have "w' = w1" "resp_status resp \<noteq> 201" by auto
        with log fault show ?thesis by simp
      next
        case stored
        from i2 show ?thesis
        proof (cases rule: insert_only_cases)
          case (fault e)
          have "handleCreateGroupSchedule req w = (member_error_response e, w3)"
            using pre i1 [unfolded g0_def] \<open>r1 = Inr _\<close> i2 [unfolded m0_def gid_def] \<open>r2 = Inl e\<close>
              i3 [unfolded gid_def]
            by (simp add: handleCreateGroupSchedule_def Let_def member_error_response_def g0_def)
          with run have rw: "resp = member_error_response e" "w' = w3" by auto
          have st: "resp_status (member_error_response e) \<noteq> 201"
            by (simp add: member_error_response_def)
          from i3 show ?thesis
          proof (cases rule: delete_rows_cases)
            case (fault d)
            with rw st log stored \<open>w2 = _\<close> show ?thesis by simp
          next
            case deleted
            have c: "calls w' = [Call OpInsert ''group_schedules'' None,
                                 Call OpInsert ''group_members'' (Some e),
                                 Call OpDelete ''group_schedules'' None]"
              and m: "tables w' ''group_members'' = tables w ''group_members''"
              using rw log stored \<open>w2 = _\<close> deleted by simp_all
            have t: "matching [Eq ''id'' gid] (tables w' ''group_schedules'') = []"
              unfolding rw(2) deleted(2) by (simp add: matching_def filter_empty_conv)
            from rw(1) st c m t show ?thesis by (auto simp: gid_def)
          qed
        next
          case stored2: stored
          have "handleCreateGroupSchedule req w =
                  (json_response 201
                     [(''success'', JBool True), (''group_schedule'', JObj ((''id'', gid) # g0)),
                      (''message'', JStr ''Group and initial membership created successfully.'')], w2)"
            using pre i1 [unfolded g0_def] \<open>r1 = Inr _\<close> i2 [unfolded m0_def gid_def] \<open>r2 = Inr ()\<close>
            by (simp add: handleCreateGroupSchedule_def Let_def g0_def gid_def)
          with run have rw: "w' = w2" by auto
          with log stored stored2 Some show ?thesis
            by (simp add: g0_def m0_def gid_def)
        qed
      qed
    qed
  qed
qed

lemma create_group_fail_eval:
  "handleCreateGroupSchedule create_group_request
           (example_world\<lparr>faults := [None, Some rls_error, Some rls_error]\<rparr>)
   = (member_error_response rls_error,
      example_world\<lparr>tables := (tables example_world)(''group_schedules'' :=
           [[(''id'', JNum 1), (''name'', JStr ''Squad''), (''event_id'', JNum 1), (''created_by'', JStr ''alice'')]]),
         faults := [],
         calls := [Call OpInsert ''group_schedules'' None,
                    Call OpInsert ''group_members'' (Some rls_error),
                    Call OpDelete ''group_schedules'' (Some rls_error)]\<rparr>)"
  by (simp add: handleCreateGroupSchedule_def create_group_request_def example_world_def store_eval
        member_error_response_def rls_error_def)

text \<open>
  C1 as stated fails: when the member insert is refused and the compensating delete is
  refused too, the handler answers 403 and the group row is still in the store.
\<close>

theorem create_group_cleanup_can_fail:
  "(case handleCreateGroupSchedule create_group_request
           (example_world\<lparr>faults := [None, Some rls_error, Some rls_error]\<rparr>) of
      (resp, w') \<Rightarrow>
        calls w' = [Call OpInsert ''group_schedules'' None,
                    Call OpInsert ''group_members'' (Some rls_error),
                    Call OpDelete ''group_schedules'' (Some rls_error)] \<and>
        resp_status resp = 403 \<and>
        matching [Eq ''id'' (JNum 1)] (tables w' ''group_schedules'') \<noteq> [])"
  unfolding create_group_fail_eval
  by (simp add: member_error_response_def rls_error_def matching_def example_world_def
        filter_holds.simps show_int_def show_nat.simps digit_char_def)

theorem create_group_unit_witness:
  "calls example_world = []
   \<and> resp_status (fst (handleCreateGroupSchedule create_group_request example_world)) = 201
   \<and> (\<exists>uid g m. getAuthenticatedUser create_group_request example_world = Some uid \<and>
         tables (snd (handleCreateGroupSchedule create_group_request example_world)) ''group_schedules''
           = tables example_world ''group_schedules'' @ [g] \<and>
         tables (snd (handleCreateGroupSchedule create_group_request example_world)) ''group_members''
           = tables example_world ''group_members'' @ [m] \<and>
         map_of g ''created_by'' = Some (JStr uid) \<and>
         map_of m ''group_id'' = map_of g ''id'' \<and>
         map_of m ''user_id'' = Some (JStr uid) \<and>
         map_of m ''is_admin'' = Some (JBool True) \<and>
         map_of m ''status'' = Some (JStr ''accepted''))
   \<and> Call OpInsert ''group_members'' (Some rls_error)
        \<in> set (calls (snd (handleCreateGroupSchedule create_group_request
                              (example_world\<lparr>faults := [None, Some rls_error]\<rparr>))))
   \<and> fst (handleCreateGroupSchedule create_group_request
             (example_world\<lparr>faults := [None, Some rls_error]\<rparr>)) = member_error_response rls_error
   \<and> matching [Eq ''id'' (JNum 1)]
        (tables (snd (handleCreateGroupSchedule create_group_request
                        (example_world\<lparr>faults := [None, Some rls_error]\<rparr>))) ''group_schedules'') = []"
proof -
  let ?w2 = "example_world\<lparr>faults := [None, Some rls_error]\<rparr>"
  have log: "calls example_world = []" and log2: "calls ?w2 = []"
    by (simp_all add: example_world_def)
  have st: "resp_status (fst (handleCreateGroupSchedule create_group_request example_world)) = 201"
    by (simp add: handleCreateGroupSchedule_def create_group_request_def example_world_def store_eval)
  have cs: "calls (snd (handleCreateGroupSchedule create_group_request ?w2))
      = [Call OpInsert ''group_schedules'' None, Call OpInsert ''group_members'' (Some rls_error),
         Call OpDelete ''group_schedules'' None]"
    by (simp add: handleCreateGroupSchedule_def create_group_request_def example_world_def store_eval
          rls_error_def)
  have fr: "fresh_id (tables ?w2 ''group_schedules'') = 1"
    by (simp add: example_world_def fresh_id_def)
  have run: "handleCreateGroupSchedule create_group_request example_world
     = (fst (handleCreateGroupSchedule create_group_request example_world),
        snd (handleCreateGroupSchedule create_group_request example_world))" by simp
  have run2: "handleCreateGroupSchedule create_group_request ?w2
     = (fst (handleCreateGroupSchedule create_group_request ?w2),
        snd (handleCreateGroupSchedule create_group_request ?w2))" by simp
  have a: "\<exists>uid g m. getAuthenticatedUser create_group_request example_world = Some uid \<and>
         tables (snd (handleCreateGroupSchedule create_group_request example_world)) ''group_schedules''
           = tables example_world ''group_schedules'' @ [g] \<and>
         tables (snd (handleCreateGroupSchedule create_group_request example_world)) ''group_members''
           = tables example_world ''group_members'' @ [m] \<and>
         map_of g ''created_by'' = Some (JStr uid) \<and>
         map_of m ''group_id'' = map_of g ''id'' \<and>
         map_of m ''user_id'' = Some (JStr uid) \<and>
         map_of m ''is_admin'' = Some (JBool True) \<and>
         map_of m ''status'' = Some (JStr ''accepted'')"
    using create_group_unit [OF run log] st by blast
  have mem: "Call OpInsert ''group_members'' (Some rls_error)
        \<in> set (calls (snd (handleCreateGroupSchedule create_group_request ?w2)))"
    by (simp add: cs)
  from create_group_unit [OF run2 log2] mem
  have b: "fst (handleCreateGroupSchedule create_group_request ?w2) = member_error_response rls_error
     \<and> matching [Eq ''id'' (JNum 1)]
        (tables (snd (handleCreateGroupSchedule create_group_request ?w2)) ''group_schedules'') = []"
    unfolding fr cs by auto
  from log st a mem b show ?thesis by blast
qed

section \<open>More about store calls\<close>

lemma store_exec_ok:
  "faults w = [] \<or> hd (faults w) = None \<Longrightarrow>
   store_exec k t f w =
     (fst (f (tables w)),
      w\<lparr>tables := snd (f (tables w)), faults := tl (faults w),
        calls := calls w @ [Call k t (error_of (fst (f (tables w))))]\<rparr>)"
  by (auto simp: store_exec_def split: prod.splits list.splits option.splits)

lemma store_answers_hd: "store_answers (Suc n) w \<Longrightarrow> faults w = [] \<or> hd (faults w) = None"
  by (cases "faults w") (auto simp: store_answers_def)

lemma store_answers_tl:
  "store_answers (Suc n) w \<Longrightarrow> faults w' = tl (faults w) \<Longrightarrow> store_answers n w'"
  by (cases "faults w") (auto simp: store_answers_def)

lemma store_exec_calls:
  "calls (snd (store_exec k t f w)) = calls w @ [Call k t (error_of (fst (store_exec k t f w)))]"
  by (auto simp: store_exec_def split: prod.splits list.splits option.splits)

lemma snd_case_sum_pair:
  "snd (case p of (Inl e, w) \<Rightarrow> (f e, w) | (Inr d, w) \<Rightarrow> (g d, w)) = snd p"
  by (auto split: prod.splits sum.splits)

lemma update_single_calls:
  "calls (snd (update_single t p fs w))
     = calls w @ [Call OpUpdate t (error_of (fst (update_single t p fs w)))]"
  unfolding update_single_def by (rule store_exec_calls)

lemma delete_rows_calls:
  "calls (snd (delete_rows t fs w))
     = calls w @ [Call OpDelete t (error_of (fst (delete_rows t fs w)))]"
  unfolding delete_rows_def by (rule store_exec_calls)

lemma at_most_one: "length xs \<le> 1 \<Longrightarrow> xs = [] \<or> (\<exists>x. xs = [x])"
  by (cases xs) auto

lemma group_path_id: "getGroupIdFromUrl ''/group-schedules/1'' = Some ''1''"
  by code_simp

lemmas world_eval = world_with_group_def example_world_def group_request_def
  creator_rows_def admin_rows_def store_answers_def issued_def

section \<open>Reading a group schedule\<close>

text \<open>
  C2. An authenticated caller who is neither the creator nor a member of the group named by
  the path gets the 404 response of \<open>handleGetGroupSchedule\<close>, whenever the store answers
  the two lookups (creator, then member). No further store call is made and the tables are
  not touched. The response is one fixed value: it does not depend on whether a group with
  that id exists, so a group the caller may not see and a group that does not exist are
  answered alike, and never with 401.
\<close>

theorem get_group_not_found:
  assumes auth: "getAuthenticatedUser req w = Some uid"
    and gid: "getGroupIdFromUrl (req_path req) = Some groupId"
    and answers: "store_answers 2 w"
    and not_creator:
      "matching [Eq ''id'' (JStr groupId), Eq ''created_by'' (JStr uid)] (tables w ''group_schedules'') = []"
    and not_member:
      "matching [Eq ''group_id'' (JStr groupId), Eq ''user_id'' (JStr uid)] (tables w ''group_members'') = []"
  shows "handleGetGroupSchedule req w =
           (not_found_no_access,
            w\<lparr>tables := tables w, faults := tl (tl (faults w)),
              calls := calls w @ [Call OpSelect ''group_schedules'' None,
                                  Call OpSelect ''group_members'' None]\<rparr>)
         \<and> resp_status not_found_no_access = 404"
proof -
  have a1: "faults w = [] \<or> hd (faults w) = None"
    using answers by (simp add: store_answers_hd numeral_2_eq_2)
  have a2: "tl (faults w) = [] \<or> hd (tl (faults w)) = None"
    using answers by (cases "faults w"; cases "tl (faults w)") (auto simp: store_answers_def numeral_2_eq_2)
  show ?thesis
    using auth gid not_creator not_member a1 a2
    by (simp add: handleGetGroupSchedule_def select_maybe_single_def store_exec_ok error_of_def
          not_found_no_access_def)
qed

theorem get_group_not_found_witness:
  "getAuthenticatedUser (group_request ''GET'' ''tok-carol'') world_with_group = Some ''carol''
   \<and> matching [Eq ''id'' (JStr ''1'')] (tables world_with_group ''group_schedules'') \<noteq> []
   \<and> matching [Eq ''id'' (JStr ''1'')] (tables example_world ''group_schedules'') = []
   \<and> fst (handleGetGroupSchedule (group_request ''GET'' ''tok-carol'') world_with_group)
        = not_found_no_access
   \<and> fst (handleGetGroupSchedule (group_request ''GET'' ''tok-carol'') example_world)
        = not_found_no_access"
proof -
  let ?rq = "group_request ''GET'' ''tok-carol''"
  have p: "getGroupIdFromUrl (req_path ?rq) = Some ''1''"
    by (simp add: group_request_def group_path_id)
  have a1: "getAuthenticatedUser ?rq world_with_group = Some ''carol''"
    and a2: "getAuthenticatedUser ?rq example_world = Some ''carol''"
    by (simp_all add: world_eval store_eval)
  have e: "matching [Eq ''id'' (JStr ''1'')] (tables world_with_group ''group_schedules'') \<noteq> []"
      "matching [Eq ''id'' (JStr ''1'')] (tables example_world ''group_schedules'') = []"
    by (simp_all add: world_eval store_eval)
  have r1: "fst (handleGetGroupSchedule ?rq world_with_group) = not_found_no_access"
    using get_group_not_found [OF a1 p, THEN conjunct1]
    by (simp add: world_eval store_eval)
  have r2: "fst (handleGetGroupSchedule ?rq example_world) = not_found_no_access"
    using get_group_not_found [OF a2 p, THEN conjunct1]
    by (simp add: world_eval store_eval)
  from a1 e r1 r2 show ?thesis by simp
qed


section \<open>Updating and deleting a group schedule\<close>

lemma answers_second:
  "store_answers (Suc (Suc n)) w \<Longrightarrow> tl (faults w) = [] \<or> hd (tl (faults w)) = None"
  by (cases "faults w"; cases "tl (faults w)") (auto simp: store_answers_def)

lemma answers_third:
  "store_answers (Suc (Suc (Suc n))) w \<Longrightarrow>
   tl (tl (faults w)) = [] \<or> hd (tl (tl (faults w))) = None"
  by (cases "faults w"; cases "tl (faults w)"; cases "tl (tl (faults w))")
     (auto simp: store_answers_def)

lemma group_update_permission:
  assumes auth: "getAuthenticatedUser req w = Some uid"
    and gid: "getGroupIdFromUrl (req_path req) = Some groupId"
    and body: "req_body req = Inr body"
    and answers: "store_answers 2 w"
    and log: "calls w = []"
    and key1: "length (creator_rows w groupId uid) \<le> 1"
    and key2: "length (admin_rows w groupId uid) \<le> 1"
  shows "(issued OpUpdate ''group_schedules'' (snd (handleUpdateGroupSchedule req w))
            \<longleftrightarrow> creator_rows w groupId uid \<noteq> [] \<or> admin_rows w groupId uid \<noteq> [])
       \<and> (creator_rows w groupId uid = [] \<and> admin_rows w groupId uid = [] \<longrightarrow>
             fst (handleUpdateGroupSchedule req w) = unauthorizedResponse
             \<and> tables (snd (handleUpdateGroupSchedule req w)) = tables w)"
proof -
  have a1: "faults w = [] \<or> hd (faults w) = None"
    using answers by (simp add: store_answers_hd numeral_2_eq_2)
  have a2: "tl (faults w) = [] \<or> hd (tl (faults w)) = None"
    using answers by (simp add: answers_second numeral_2_eq_2)
  note defs = handleUpdateGroupSchedule_def select_maybe_single_def
    write_group_schedule_def store_exec_ok error_of_def issued_def Let_def
  from key1 have c: "creator_rows w groupId uid = [] \<or> (\<exists>x. creator_rows w groupId uid = [x])"
    by (rule at_most_one)
  from key2 have d: "admin_rows w groupId uid = [] \<or> (\<exists>x. admin_rows w groupId uid = [x])"
    by (rule at_most_one)
  from c show ?thesis
  proof
    assume c0: "creator_rows w groupId uid = []"
    from d show ?thesis
    proof
      assume d0: "admin_rows w groupId uid = []"
      show ?thesis
        using auth gid body log a1 a2 c0 d0 c0 [unfolded creator_rows_def] d0 [unfolded admin_rows_def]
        by (simp add: defs)
    next
      assume "\<exists>x. admin_rows w groupId uid = [x]"
      then obtain x where d1: "admin_rows w groupId uid = [x]" ..
      show ?thesis
        using auth gid body log a1 a2 c0 d1 c0 [unfolded creator_rows_def] d1 [unfolded admin_rows_def]
        by (simp add: defs snd_case_sum_pair update_single_calls)
    qed
  next
    assume "\<exists>x. creator_rows w groupId uid = [x]"
    then obtain x where c1: "creator_rows w groupId uid = [x]" ..
    show ?thesis
      using auth gid body log a1 a2 c1 c1 [unfolded creator_rows_def]
      by (simp add: defs snd_case_sum_pair update_single_calls)
  qed
qed

lemma group_update_effect:
  assumes auth: "getAuthenticatedUser req w = Some uid"
    and gid: "getGroupIdFromUrl (req_path req) = Some groupId"
    and body: "req_body req = Inr body"
    and answers: "store_answers 3 w"
    and key1: "length (creator_rows w groupId uid) \<le> 1"
    and key2: "length (admin_rows w groupId uid) \<le> 1"
    and permitted: "creator_rows w groupId uid \<noteq> [] \<or> admin_rows w groupId uid \<noteq> []"
    and one: "matching [Eq ''id'' (JStr groupId)] (tables w ''group_schedules'') = [g]"
  shows "fst (handleUpdateGroupSchedule req w) =
           json_response 200
             [(''success'', JBool True),
              (''group_schedule'',
               JObj (row_update (strip_if_truthy ''created_by'' (strip_if_truthy ''id'' body)) g))]
       \<and> tables (snd (handleUpdateGroupSchedule req w)) =
           (tables w)(''group_schedules'' :=
              map (\<lambda>x. if filter_holds (Eq ''id'' (JStr groupId)) x
                       then row_update (strip_if_truthy ''created_by'' (strip_if_truthy ''id'' body)) x
                       else x)
                (tables w ''group_schedules''))"
proof -
  have a1: "faults w = [] \<or> hd (faults w) = None"
    using answers by (simp add: store_answers_hd eval_nat_numeral)
  have a2: "tl (faults w) = [] \<or> hd (tl (faults w)) = None"
    using answers by (simp add: answers_second eval_nat_numeral)
  have a3: "tl (tl (faults w)) = [] \<or> hd (tl (tl (faults w))) = None"
    using answers by (simp add: answers_third eval_nat_numeral)
  note defs = handleUpdateGroupSchedule_def select_maybe_single_def update_single_def
    write_group_schedule_def store_exec_ok error_of_def Let_def
  from key1 have c: "creator_rows w groupId uid = [] \<or> (\<exists>x. creator_rows w groupId uid = [x])"
    by (rule at_most_one)
  from key2 have d: "admin_rows w groupId uid = [] \<or> (\<exists>x. admin_rows w groupId uid = [x])"
    by (rule at_most_one)
  from c show ?thesis
  proof
    assume c0: "creator_rows w groupId uid = []"
    with permitted d obtain x where d1: "admin_rows w groupId uid = [x]" by blast
    show ?thesis
      using auth gid body a1 a2 a3 one c0 [unfolded creator_rows_def] d1 [unfolded admin_rows_def]
      by (simp add: defs)
  next
    assume "\<exists>x. creator_rows w groupId uid = [x]"
    then obtain x where c1: "creator_rows w groupId uid = [x]" ..
    show ?thesis
      using auth gid body a1 a2 one c1 [unfolded creator_rows_def]
      by (simp add: defs)
  qed
qed

lemma group_delete_permission:
  assumes auth: "getAuthenticatedUser req w = Some uid"
    and gid: "getGroupIdFromUrl (req_path req) = Some groupId"
    and answers: "store_answers 2 w"
    and log: "calls w = []"
    and key1: "length (creator_rows w groupId uid) \<le> 1"
  shows "(issued OpDelete ''group_schedules'' (snd (handleDeleteGroupSchedule req w))
            \<longleftrightarrow> creator_rows w groupId uid \<noteq> [])
       \<and> (creator_rows w groupId uid = [] \<longrightarrow>
             fst (handleDeleteGroupSchedule req w) = unauthorizedResponse
             \<and> tables (snd (handleDeleteGroupSchedule req w)) = tables w)
       \<and> (creator_rows w groupId uid \<noteq> [] \<longrightarrow>
             fst (handleDeleteGroupSchedule req w) = json_response 200 [(''success'', JBool True)]
             \<and> tables (snd (handleDeleteGroupSchedule req w)) =
                 (tables w)(''group_schedules'' :=
                    filter (\<lambda>r. \<not> filter_holds (Eq ''id'' (JStr groupId)) r)
                      (tables w ''group_schedules'')))"
proof -
  have a1: "faults w = [] \<or> hd (faults w) = None"
    using answers by (simp add: store_answers_hd numeral_2_eq_2)
  have a2: "tl (faults w) = [] \<or> hd (tl (faults w)) = None"
    using answers by (simp add: answers_second numeral_2_eq_2)
  note defs = handleDeleteGroupSchedule_def select_maybe_single_def delete_rows_def
    store_exec_ok error_of_def issued_def Let_def
  from key1 have c: "creator_rows w groupId uid = [] \<or> (\<exists>x. creator_rows w groupId uid = [x])"
    by (rule at_most_one)
  from c show ?thesis
  proof
    assume c0: "creator_rows w groupId uid = []"
    show ?thesis
      using auth gid log a1 a2 c0 c0 [unfolded creator_rows_def]
      by (simp add: defs)
  next
    assume "\<exists>x. creator_rows w groupId uid = [x]"
    then obtain x where c1: "creator_rows w groupId uid = [x]" ..
    show ?thesis
      using auth gid log a1 a2 c1 c1 [unfolded creator_rows_def]
      by (simp add: defs)
  qed
qed

text \<open>
  C3. For an authenticated caller and a group id in the path, with the store answering the
  permission lookups and holding at most one matching creator row and one matching admin row.
  \<open>handleUpdateGroupSchedule\<close>, given a readable body, issues its update exactly when the
  caller is the group's creator or has an admin membership row, and otherwise answers 401
  with the tables untouched; when it is permitted, the store answers and one group has the
  id, the answer is 200 with the updated row, and the table holds the group with the body's
  fields written over it (\<open>id\<close> and \<open>created_by\<close> left out when they are set) and every
  other row as it was. \<open>handleDeleteGroupSchedule\<close>, whatever the body, issues its delete
  exactly when the caller is the creator: then the answer is 200 and the table holds the rows
  that do not have the id; otherwise (also for an admin member) the answer is 401 and the
  tables are untouched.
\<close>

theorem group_write_permissions:
  assumes auth: "getAuthenticatedUser req w = Some uid"
    and gid: "getGroupIdFromUrl (req_path req) = Some groupId"
    and answers: "store_answers 2 w"
    and log: "calls w = []"
    and key1: "length (creator_rows w groupId uid) \<le> 1"
    and key2: "length (admin_rows w groupId uid) \<le> 1"
  shows "(req_body req = Inr body \<longrightarrow>
           (issued OpUpdate ''group_schedules'' (snd (handleUpdateGroupSchedule req w))
              \<longleftrightarrow> creator_rows w groupId uid \<noteq> [] \<or> admin_rows w groupId uid \<noteq> [])
         \<and> (creator_rows w groupId uid = [] \<and> admin_rows w groupId uid = [] \<longrightarrow>
               fst (handleUpdateGroupSchedule req w) = unauthorizedResponse
               \<and> tables (snd (handleUpdateGroupSchedule req w)) = tables w)
         \<and> ((creator_rows w groupId uid \<noteq> [] \<or> admin_rows w groupId uid \<noteq> [])
            \<and> store_answers 3 w
            \<and> matching [Eq ''id'' (JStr groupId)] (tables w ''group_schedules'') = [g] \<longrightarrow>
               fst (handleUpdateGroupSchedule req w) =
                 json_response 200
                   [(''success'', JBool True),
                    (''group_schedule'',
                     JObj (row_update (strip_if_truthy ''created_by'' (strip_if_truthy ''id'' body)) g))]
               \<and> tables (snd (handleUpdateGroupSchedule req w)) =
                   (tables w)(''group_schedules'' :=
                      map (\<lambda>x. if filter_holds (Eq ''id'' (JStr groupId)) x
                               then row_update
                                      (strip_if_truthy ''created_by'' (strip_if_truthy ''id'' body)) x
                               else x)
                        (tables w ''group_schedules''))))
       \<and> (issued OpDelete ''group_schedules'' (snd (handleDeleteGroupSchedule req w))
            \<longleftrightarrow> creator_rows w groupId uid \<noteq> [])
       \<and> (creator_rows w groupId uid = [] \<longrightarrow>
             fst (handleDeleteGroupSchedule req w) = unauthorizedResponse
             \<and> tables (snd (handleDeleteGroupSchedule req w)) = tables w)
       \<and> (creator_rows w groupId uid \<noteq> [] \<longrightarrow>
             fst (handleDeleteGroupSchedule req w) = json_response 200 [(''success'', JBool True)]
             \<and> tables (snd (handleDeleteGroupSchedule req w)) =
                 (tables w)(''group_schedules'' :=
                    filter (\<lambda>r. \<not> filter_holds (Eq ''id'' (JStr groupId)) r)
                      (tables w ''group_schedules'')))"
  using group_update_permission [OF auth gid _ answers log key1 key2, of body]
    group_update_effect [OF auth gid _ _ key1 key2, of body g]
    group_delete_permission [OF auth gid answers log key1]
  by blast

lemma group_write_example:
  "getGroupIdFromUrl (req_path (group_request m token)) = Some ''1''"
  "req_body (group_request m token) = Inr [(''name'', JStr ''Renamed'')]"
  "getAuthenticatedUser (group_request m ''tok-alice'') world_with_group = Some ''alice''"
  "getAuthenticatedUser (group_request m ''tok-bob'') world_with_group = Some ''bob''"
  "getAuthenticatedUser (group_request m ''tok-carol'') world_with_group = Some ''carol''"
  "store_answers 2 world_with_group"
  "store_answers 3 world_with_group"
  "calls world_with_group = []"
  "creator_rows world_with_group ''1'' ''alice''
     = [[(''id'', JNum 1), (''name'', JStr ''Squad''), (''event_id'', JNum 1),
         (''created_by'', JStr ''alice'')]]"
  "creator_rows world_with_group ''1'' ''bob'' = []"
  "creator_rows world_with_group ''1'' ''carol'' = []"
  "length (admin_rows world_with_group ''1'' ''alice'') \<le> 1"
  "admin_rows world_with_group ''1'' ''bob''
     = [[(''id'', JNum 2), (''group_id'', JNum 1), (''user_id'', JStr ''bob''),
         (''is_admin'', JBool True), (''status'', JStr ''accepted'')]]"
  "admin_rows world_with_group ''1'' ''carol'' = []"
  "matching [Eq ''id'' (JStr ''1'')] (tables world_with_group ''group_schedules'')
     = [[(''id'', JNum 1), (''name'', JStr ''Squad''), (''event_id'', JNum 1),
         (''created_by'', JStr ''alice'')]]"
  "tables world_with_group ''group_schedules''
     = [[(''id'', JNum 1), (''name'', JStr ''Squad''), (''event_id'', JNum 1),
         (''created_by'', JStr ''alice'')]]"
  "filter_holds (Eq ''id'' (JStr ''1''))
     [(''id'', JNum 1), (''name'', JStr ''Squad''), (''event_id'', JNum 1),
      (''created_by'', JStr ''alice'')]"
  by (code_simp)+

theorem group_write_permissions_witness:
  "creator_rows world_with_group ''1'' ''bob'' = []
   \<and> admin_rows world_with_group ''1'' ''bob'' \<noteq> []
   \<and> issued OpUpdate ''group_schedules''
        (snd (handleUpdateGroupSchedule (group_request ''PUT'' ''tok-bob'') world_with_group))
   \<and> tables (snd (handleUpdateGroupSchedule (group_request ''PUT'' ''tok-bob'') world_with_group))
        ''group_schedules''
       = [[(''id'', JNum 1), (''name'', JStr ''Renamed''), (''event_id'', JNum 1),
           (''created_by'', JStr ''alice'')]]
   \<and> \<not> issued OpDelete ''group_schedules''
        (snd (handleDeleteGroupSchedule (group_request ''DELETE'' ''tok-bob'') world_with_group))
   \<and> fst (handleDeleteGroupSchedule (group_request ''DELETE'' ''tok-bob'') world_with_group)
        = unauthorizedResponse
   \<and> tables (snd (handleDeleteGroupSchedule (group_request ''DELETE'' ''tok-bob'') world_with_group))
        = tables world_with_group
   \<and> creator_rows world_with_group ''1'' ''alice'' \<noteq> []
   \<and> issued OpDelete ''group_schedules''
        (snd (handleDeleteGroupSchedule (group_request ''DELETE'' ''tok-alice'') world_with_group))
   \<and> tables (snd (handleDeleteGroupSchedule (group_request ''DELETE'' ''tok-alice'') world_with_group))
        ''group_schedules'' = []
   \<and> creator_rows world_with_group ''1'' ''carol'' = []
   \<and> admin_rows world_with_group ''1'' ''carol'' = []
   \<and> fst (handleUpdateGroupSchedule (group_request ''PUT'' ''tok-carol'') world_with_group)
        = unauthorizedResponse
   \<and> tables (snd (handleUpdateGroupSchedule (group_request ''PUT'' ''tok-carol'') world_with_group))
        = tables world_with_group"
proof -
  note e = group_write_example
  let ?g = "[(''id'', JNum 1), (''name'', JStr ''Squad''), (''event_id'', JNum 1),
             (''created_by'', JStr ''alice'')]"
  have bob_put:
    "issued OpUpdate ''group_schedules''
        (snd (handleUpdateGroupSchedule (group_request ''PUT'' ''tok-bob'') world_with_group))
     \<and> tables (snd (handleUpdateGroupSchedule (group_request ''PUT'' ''tok-bob'') world_with_group))
        ''group_schedules''
       = [[(''id'', JNum 1), (''name'', JStr ''Renamed''), (''event_id'', JNum 1),
           (''created_by'', JStr ''alice'')]]"
    using group_write_permissions [OF e(4) e(1) e(6) e(8), of "''PUT''"
            "[(''name'', JStr ''Renamed'')]" ?g, THEN conjunct1]
      e(2,7,10,13,15,16,17)
    by (simp add: strip_if_truthy_def row_update_def)
  have bob_delete:
    "\<not> issued OpDelete ''group_schedules''
        (snd (handleDeleteGroupSchedule (group_request ''DELETE'' ''tok-bob'') world_with_group))
     \<and> fst (handleDeleteGroupSchedule (group_request ''DELETE'' ''tok-bob'') world_with_group)
        = unauthorizedResponse
     \<and> tables (snd (handleDeleteGroupSchedule (group_request ''DELETE'' ''tok-bob'') world_with_group))
        = tables world_with_group"
    using group_write_permissions [OF e(4) e(1) e(6) e(8), of "''DELETE''", THEN conjunct2]
      e(10,13)
    by simp
  have alice_delete:
    "issued OpDelete ''group_schedules''
        (snd (handleDeleteGroupSchedule (group_request ''DELETE'' ''tok-alice'') world_with_group))
     \<and> tables (snd (handleDeleteGroupSchedule (group_request ''DELETE'' ''tok-alice'') world_with_group))
        ''group_schedules'' = []"
    using group_write_permissions [OF e(3) e(1) e(6) e(8), of "''DELETE''", THEN conjunct2]
      e(9,12,16,17)
    by simp
  have carol_put:
    "fst (handleUpdateGroupSchedule (group_request ''PUT'' ''tok-carol'') world_with_group)
        = unauthorizedResponse
     \<and> tables (snd (handleUpdateGroupSchedule (group_request ''PUT'' ''tok-carol'') world_with_group))
        = tables world_with_group"
    using group_write_permissions [OF e(5) e(1) e(6) e(8), of "''PUT''"
            "[(''name'', JStr ''Renamed'')]", THEN conjunct1]
      e(2,11,14)
    by simp
  from bob_put bob_delete alice_delete carol_put e(9,10,11,13,14) show ?thesis by simp
qed

section \<open>Paging arithmetic\<close>









lemma length_insert_row: "length (insert_row ord r xs) = Suc (length xs)"
  by (induction xs) auto

lemma length_order_rows: "length (order_rows ord rows) = length rows"
  by (induction rows) (auto simp: order_rows_def length_insert_row)



section \<open>Evaluating the handlers on the example inputs\<close>






section \<open>Paged lists\<close>




section \<open>The group schedule list has no duplicates\<close>

lemma map_set_keys [simp]:
  "fst ` set (map_set k v m) = insert k (fst ` set m)"
  by (induction m) auto











section \<open>Deleting an artist\<close>

lemma select_single_cases:
  assumes "select_single t sh fs w = (res, w1)"
  obtains (failed) e where "res = Inl e"
      "w1 = w\<lparr>tables := tables w, faults := tl (faults w), calls := calls w @ [Call OpSelect t (Some e)]\<rparr>"
    | (one) r where "matching fs (tables w t) = [r]" "res = Inr (sh (tables w) r)"
      "w1 = w\<lparr>tables := tables w, faults := tl (faults w), calls := calls w @ [Call OpSelect t None]\<rparr>"
  using assms unfolding select_single_def
  by (elim store_exec_cases) (auto simp: error_of_def split: list.splits)

lemma select_count_cases:
  assumes "select_count t fs w = (res, w1)"
  obtains (failed) e where "res = Inl e"
      "w1 = w\<lparr>tables := tables w, faults := tl (faults w), calls := calls w @ [Call OpCount t (Some e)]\<rparr>"
    | (counted) "res = Inr (length (matching fs (tables w t)))"
      "w1 = w\<lparr>tables := tables w, faults := tl (faults w), calls := calls w @ [Call OpCount t None]\<rparr>"
  using assms unfolding select_count_def
  by (elim store_exec_cases) (auto simp: error_of_def)

lemma issued_simps [simp]:
  "issued k t (w\<lparr>calls := cs\<rparr>) = list_ex (\<lambda>c. call_op c = k \<and> call_table c = t) cs"
  "issued k t (w\<lparr>tables := tb\<rparr>) = issued k t w"
  "issued k t (w\<lparr>faults := fs\<rparr>) = issued k t w"
  by (simp_all add: issued_def)

lemma delete_artist_only_without_refs:
  assumes log: "calls w = []"
    and del: "issued OpDelete ''artists'' (snd (handleDeleteArtist req w))"
  shows "\<exists>artistId. getArtistIdFromUrl (req_path req) = Some artistId
           \<and> lineup_refs w artistId = 0 \<and> set_time_refs w artistId = 0
           \<and> collaboration_refs w artistId = 0"
proof (cases "verifyApiKey req w")
  case False
  with del log show ?thesis by (simp add: handleDeleteArtist_def issued_def)
next
  case key: True
  show ?thesis
  proof (cases "getArtistIdFromUrl (req_path req)")
    case None
    with key del log show ?thesis by (simp add: handleDeleteArtist_def issued_def)
  next
    case (Some artistId)
    note pre = key Some
    obtain r1 w1 where q1: "select_single ''artists'' (cols [''id'']) [Eq ''id'' (JStr artistId)] w = (r1, w1)"
      by force
    obtain r2 w2 where q2: "select_count ''lineups'' [Eq ''artist_id'' (JStr artistId)] w1 = (r2, w2)"
      by force
    obtain r3 w3 where q3: "select_count ''set_times'' [Eq ''artist_id'' (JStr artistId)] w2 = (r3, w3)"
      by force
    obtain r4 w4 where q4: "select_count ''artist_collaborations'' [Eq ''artist_id'' (JStr artistId)] w3 = (r4, w4)"
      by force
    from q1 show ?thesis
    proof (cases rule: select_single_cases)
      case (failed e)
      with pre q1 del log show ?thesis by (simp add: handleDeleteArtist_def split: if_splits)
    next
      case (one a)
      note s1 = one(2,3)
      from q2 show ?thesis
      proof (cases rule: select_count_cases)
        case (failed e)
        with pre q1 s1 q2 del log show ?thesis by (simp add: handleDeleteArtist_def)
      next
        case counted
        note s2 = counted
        have l: "lineup_refs w artistId = 0"
          using pre q1 s1 q2 s2 del log
          by (simp add: handleDeleteArtist_def lineup_refs_def dependency_response_def split: if_splits)
        from q3 show ?thesis
        proof (cases rule: select_count_cases)
          case (failed e)
          with pre q1 s1 q2 s2 q3 log l del show ?thesis
            by (simp add: handleDeleteArtist_def lineup_refs_def)
        next
          case counted
          note s3 = counted
          have s: "set_time_refs w artistId = 0"
            using pre q1 s1 q2 s2 q3 s3 del log l
            by (simp add: handleDeleteArtist_def lineup_refs_def set_time_refs_def split: if_splits)
          from q4 show ?thesis
          proof (cases rule: select_count_cases)
            case (failed e)
            with pre q1 s1 q2 s2 q3 s3 q4 log l s del show ?thesis
              by (simp add: handleDeleteArtist_def lineup_refs_def set_time_refs_def)
          next
            case counted
            note s4 = counted
            have c: "collaboration_refs w artistId = 0"
              using pre q1 s1 q2 s2 q3 s3 q4 s4 del log l s
              by (simp add: handleDeleteArtist_def lineup_refs_def set_time_refs_def
                    collaboration_refs_def split: if_splits)
            from Some l s c show ?thesis by simp
          qed
        qed
      qed
    qed
  qed
qed

lemma store_answers_upd [simp]:
  "store_answers n (w\<lparr>calls := cs\<rparr>) = store_answers n w"
  "store_answers n (w\<lparr>tables := tb\<rparr>) = store_answers n w"
  by (simp_all add: store_answers_def)

lemma store_answers_next:
  "store_answers (Suc n) w \<Longrightarrow> store_answers n (w\<lparr>faults := tl (faults w)\<rparr>)"
  by (rule store_answers_tl) simp_all

lemma select_single_ok:
  assumes "store_answers (Suc n) w" and "matching fs (tables w t) = [r]"
  obtains w1 where "select_single t sh fs w = (Inr (sh (tables w) r), w1)"
    "tables w1 = tables w" "store_answers n w1" "calls w1 = calls w @ [Call OpSelect t None]"
proof
  show "select_single t sh fs w =
     (Inr (sh (tables w) r), w\<lparr>faults := tl (faults w), calls := calls w @ [Call OpSelect t None]\<rparr>)"
    unfolding select_single_def
    using assms(2) by (simp add: store_exec_ok [OF store_answers_hd [OF assms(1)]] error_of_def)
qed (simp_all add: store_answers_next [OF assms(1)])

lemma select_count_ok:
  assumes "store_answers (Suc n) w"
  obtains w1 where "select_count t fs w = (Inr (length (matching fs (tables w t))), w1)"
    "tables w1 = tables w" "store_answers n w1" "calls w1 = calls w @ [Call OpCount t None]"
proof
  show "select_count t fs w =
     (Inr (length (matching fs (tables w t))),
      w\<lparr>faults := tl (faults w), calls := calls w @ [Call OpCount t None]\<rparr>)"
    unfolding select_count_def
    by (simp add: store_exec_ok [OF store_answers_hd [OF assms(1)]] error_of_def)
qed (simp_all add: store_answers_next [OF assms(1)])

lemma delete_artist_blocked:
  assumes log: "calls w = []"
    and key: "verifyApiKey req w"
    and aid: "getArtistIdFromUrl (req_path req) = Some artistId"
    and artist: "matching [Eq ''id'' (JStr artistId)] (tables w ''artists'') = [a]"
    and answers: "store_answers 4 w"
    and refs: "lineup_refs w artistId > 0 \<or> set_time_refs w artistId > 0 \<or> collaboration_refs w artistId > 0"
  shows "\<exists>w'. handleDeleteArtist req w =
           ((if lineup_refs w artistId > 0
             then dependency_response ''lineup entries'' ''lineups'' (lineup_refs w artistId)
             else if set_time_refs w artistId > 0
             then dependency_response ''set times'' ''set_times'' (set_time_refs w artistId)
             else dependency_response ''collaborations'' ''collaborations''
                    (collaboration_refs w artistId)), w')
           \<and> tables w' = tables w \<and> \<not> issued OpDelete ''artists'' w'"
proof -
  have a4: "store_answers (Suc 3) w" using answers by (simp add: eval_nat_numeral)
  from select_single_ok [OF a4 artist] obtain w1 where
    s1: "select_single ''artists'' (cols [''id'']) [Eq ''id'' (JStr artistId)] w
           = (Inr (cols [''id''] (tables w) a), w1)"
    and w1: "tables w1 = tables w" "store_answers 3 w1" "calls w1 = calls w @ [Call OpSelect ''artists'' None]"
    by blast
  have a3: "store_answers (Suc 2) w1" using w1 by (simp add: eval_nat_numeral)
  from select_count_ok [OF a3] obtain w2 where
    s2: "select_count ''lineups'' [Eq ''artist_id'' (JStr artistId)] w1
           = (Inr (lineup_refs w artistId), w2)"
    and w2: "tables w2 = tables w" "store_answers 2 w2" "calls w2 = calls w1 @ [Call OpCount ''lineups'' None]"
    unfolding lineup_refs_def w1(1) [symmetric] by blast
  have a2: "store_answers (Suc 1) w2" using w2 by (simp add: eval_nat_numeral)
  from select_count_ok [OF a2] obtain w3 where
    s3: "select_count ''set_times'' [Eq ''artist_id'' (JStr artistId)] w2
           = (Inr (set_time_refs w artistId), w3)"
    and w3: "tables w3 = tables w" "store_answers 1 w3" "calls w3 = calls w2 @ [Call OpCount ''set_times'' None]"
    unfolding set_time_refs_def w2(1) [symmetric] by blast
  have a1: "store_answers (Suc 0) w3" using w3 by simp
  from select_count_ok [OF a1] obtain w4 where
    s4: "select_count ''artist_collaborations'' [Eq ''artist_id'' (JStr artistId)] w3
           = (Inr (collaboration_refs w artistId), w4)"
    and w4: "tables w4 = tables w" "calls w4 = calls w3 @ [Call OpCount ''artist_collaborations'' None]"
    unfolding collaboration_refs_def w3(1) [symmetric] by blast
  show ?thesis
    using refs key aid log w1 w2 w3 w4
    by (auto simp add: handleDeleteArtist_def s1 s2 s3 s4 issued_def)
qed

lemma delete_artist_performed:
  assumes key: "verifyApiKey req w"
    and aid: "getArtistIdFromUrl (req_path req) = Some artistId"
    and artist: "matching [Eq ''id'' (JStr artistId)] (tables w ''artists'') = [a]"
    and answers: "store_answers 4 w"
    and none: "lineup_refs w artistId = 0" "set_time_refs w artistId = 0" "collaboration_refs w artistId = 0"
  shows "issued OpDelete ''artists'' (snd (handleDeleteArtist req w))"
proof -
  have a4: "store_answers (Suc 3) w" using answers by (simp add: eval_nat_numeral)
  from select_single_ok [OF a4 artist] obtain w1 where
    s1: "select_single ''artists'' (cols [''id'']) [Eq ''id'' (JStr artistId)] w
           = (Inr (cols [''id''] (tables w) a), w1)"
    and w1: "tables w1 = tables w" "store_answers 3 w1"
    by blast
  have a3: "store_answers (Suc 2) w1" using w1 by (simp add: eval_nat_numeral)
  from select_count_ok [OF a3] obtain w2 where
    s2: "select_count ''lineups'' [Eq ''artist_id'' (JStr artistId)] w1
           = (Inr (lineup_refs w artistId), w2)"
    and w2: "tables w2 = tables w" "store_answers 2 w2"
    unfolding lineup_refs_def w1(1) [symmetric] by blast
  have a2: "store_answers (Suc 1) w2" using w2 by (simp add: eval_nat_numeral)
  from select_count_ok [OF a2] obtain w3 where
    s3: "select_count ''set_times'' [Eq ''artist_id'' (JStr artistId)] w2
           = (Inr (set_time_refs w artistId), w3)"
    and w3: "tables w3 = tables w" "store_answers 1 w3"
    unfolding set_time_refs_def w2(1) [symmetric] by blast
  have a1: "store_answers (Suc 0) w3" using w3 by simp
  from select_count_ok [OF a1] obtain w4 where
    s4: "select_count ''artist_collaborations'' [Eq ''artist_id'' (JStr artistId)] w3
           = (Inr (collaboration_refs w artistId), w4)"
    unfolding collaboration_refs_def w3(1) [symmetric] by blast
  show ?thesis
    using none key aid
    by (simp add: handleDeleteArtist_def s1 s2 s3 s4 snd_case_sum_pair issued_def delete_rows_calls)
qed

text \<open>
  C8. \<open>handleDeleteArtist\<close>, started with an empty call log on a path that names an artist.
  Whatever the store answers, a delete on \<open>artists\<close> is issued only when no lineup entry, no
  set time and no collaboration references the artist. When the key is right, the artist exists
  and the store answers the four lookups (the artist, then the three counts): if some table
  references the artist the response is the 409 whose \<open>dependencies\<close> object gives the count
  of the first referencing table in the order lineups, set times, collaborations, no delete is
  issued and the tables are left as they were, so the artist row remains; if none does, the
  delete is issued.
\<close>

theorem delete_artist_dependencies:
  assumes log: "calls w = []"
    and aid: "getArtistIdFromUrl (req_path req) = Some artistId"
  shows "(issued OpDelete ''artists'' (snd (handleDeleteArtist req w)) \<longrightarrow>
            lineup_refs w artistId = 0 \<and> set_time_refs w artistId = 0
            \<and> collaboration_refs w artistId = 0)
       \<and> (verifyApiKey req w
            \<and> matching [Eq ''id'' (JStr artistId)] (tables w ''artists'') = [a]
            \<and> store_answers 4 w \<longrightarrow>
            (if lineup_refs w artistId > 0 \<or> set_time_refs w artistId > 0
                \<or> collaboration_refs w artistId > 0
             then \<exists>w'. handleDeleteArtist req w =
                    (if lineup_refs w artistId > 0
                     then dependency_response ''lineup entries'' ''lineups'' (lineup_refs w artistId)
                     else if set_time_refs w artistId > 0
                     then dependency_response ''set times'' ''set_times'' (set_time_refs w artistId)
                     else dependency_response ''collaborations'' ''collaborations''
                            (collaboration_refs w artistId), w')
                  \<and> tables w' = tables w \<and> \<not> issued OpDelete ''artists'' w'
             else issued OpDelete ''artists'' (snd (handleDeleteArtist req w))))"
proof (intro conjI impI)
  assume "issued OpDelete ''artists'' (snd (handleDeleteArtist req w))"
  from delete_artist_only_without_refs [OF log this] aid
  show "lineup_refs w artistId = 0" "set_time_refs w artistId = 0"
    "collaboration_refs w artistId = 0"
    by simp_all
next
  assume h: "verifyApiKey req w
    \<and> matching [Eq ''id'' (JStr artistId)] (tables w ''artists'') = [a] \<and> store_answers 4 w"
  show "if lineup_refs w artistId > 0 \<or> set_time_refs w artistId > 0
                \<or> collaboration_refs w artistId > 0
             then \<exists>w'. handleDeleteArtist req w =
                    (if lineup_refs w artistId > 0
                     then dependency_response ''lineup entries'' ''lineups'' (lineup_refs w artistId)
                     else if set_time_refs w artistId > 0
                     then dependency_response ''set times'' ''set_times'' (set_time_refs w artistId)
                     else dependency_response ''collaborations'' ''collaborations''
                            (collaboration_refs w artistId), w')
                  \<and> tables w' = tables w \<and> \<not> issued OpDelete ''artists'' w'
             else issued OpDelete ''artists'' (snd (handleDeleteArtist req w))"
  proof (cases "lineup_refs w artistId > 0 \<or> set_time_refs w artistId > 0
                \<or> collaboration_refs w artistId > 0")
    case True
    from delete_artist_blocked [OF log _ aid _ _ True] h True show ?thesis
      by (simp only: if_True)
  next
    case False
    with delete_artist_performed [OF _ aid, of w a] h show ?thesis by simp
  qed
qed

lemma delete_artist_example:
  "calls world_with_lineup_artist = []"
  "getArtistIdFromUrl (req_path delete_artist_request) = Some ''1''"
  "verifyApiKey delete_artist_request world_with_lineup_artist"
  "matching [Eq ''id'' (JStr ''1'')] (tables world_with_lineup_artist ''artists'')
     = [[(''id'', JNum 1), (''name'', JStr ''DJ'')]]"
  "store_answers 4 world_with_lineup_artist"
  "lineup_refs world_with_lineup_artist ''1'' = 1"
  by (code_simp)+

lemma delete_free_artist_example:
  "calls world_with_event_artist = []"
  "verifyApiKey delete_artist_request world_with_event_artist"
  "matching [Eq ''id'' (JStr ''1'')] (tables world_with_event_artist ''artists'')
     = [[(''id'', JNum 1), (''name'', JStr ''DJ'')]]"
  "store_answers 4 world_with_event_artist"
  "lineup_refs world_with_event_artist ''1'' = 0"
  "set_time_refs world_with_event_artist ''1'' = 0"
  "collaboration_refs world_with_event_artist ''1'' = 0"
  by (code_simp)+

theorem delete_artist_dependencies_witness:
  "lineup_refs world_with_lineup_artist ''1'' = 1
   \<and> fst (handleDeleteArtist delete_artist_request world_with_lineup_artist)
       = json_response 409
           [(''error'', JStr ''Cannot delete artist with existing lineup entries''),
            (''dependencies'', JObj [(''lineups'', JNum 1)])]
   \<and> tables (snd (handleDeleteArtist delete_artist_request world_with_lineup_artist)) ''artists''
       = [[(''id'', JNum 1), (''name'', JStr ''DJ'')]]
   \<and> \<not> issued OpDelete ''artists''
         (snd (handleDeleteArtist delete_artist_request world_with_lineup_artist))
   \<and> lineup_refs world_with_event_artist ''1'' = 0
   \<and> set_time_refs world_with_event_artist ''1'' = 0
   \<and> collaboration_refs world_with_event_artist ''1'' = 0
   \<and> issued OpDelete ''artists''
         (snd (handleDeleteArtist delete_artist_request world_with_event_artist))"
proof -
  have t: "tables world_with_lineup_artist ''artists'' = [[(''id'', JNum 1), (''name'', JStr ''DJ'')]]"
    by (simp add: world_with_lineup_artist_def)
  have blocked:
    "fst (handleDeleteArtist delete_artist_request world_with_lineup_artist)
       = json_response 409
           [(''error'', JStr ''Cannot delete artist with existing lineup entries''),
            (''dependencies'', JObj [(''lineups'', JNum 1)])]
     \<and> tables (snd (handleDeleteArtist delete_artist_request world_with_lineup_artist)) ''artists''
       = [[(''id'', JNum 1), (''name'', JStr ''DJ'')]]
     \<and> \<not> issued OpDelete ''artists''
         (snd (handleDeleteArtist delete_artist_request world_with_lineup_artist))"
    using delete_artist_dependencies [OF delete_artist_example(1,2), THEN conjunct2, rule_format,
           of "[(''id'', JNum 1), (''name'', JStr ''DJ'')]"]
      delete_artist_example(3,4,5,6) t
    by (auto simp add: dependency_response_def)
  note f = delete_free_artist_example
  have performed:
    "issued OpDelete ''artists''
       (snd (handleDeleteArtist delete_artist_request world_with_event_artist))"
    using delete_artist_dependencies [OF f(1) delete_artist_example(2), THEN conjunct2, rule_format,
           of "[(''id'', JNum 1), (''name'', JStr ''DJ'')]"]
      f(2-7)
    by simp
  from blocked performed delete_artist_example(6) f(5,6,7) show ?thesis by simp
qed

section \<open>Adding a lineup entry\<close>

lemma insert_single_dup:
  assumes "store_answers (Suc n) w" and "violates_unique t r (tables w t)"
  obtains w1 where "insert_single t r w = (Inl unique_error, w1)" "tables w1 = tables w"
proof
  show "insert_single t r w =
     (Inl unique_error, w\<lparr>faults := tl (faults w), calls := calls w @ [Call OpInsert t (Some unique_error)]\<rparr>)"
    unfolding insert_single_def
    using assms(2)
    by (simp add: store_exec_ok [OF store_answers_hd [OF assms(1)]] error_of_def insert_core_def)
qed simp

lemma map_of_lineup_row:
  "map_of (lineup_row body) ''event_id'' = map_of body ''event_id''"
  "map_of (lineup_row body) ''artist_id'' = map_of body ''artist_id''"
  by (cases "map_of body ''event_id''"; cases "map_of body ''artist_id''";
      cases "map_of body ''is_headliner''"; cases "map_of body ''tier''";
      cases "map_of body ''announcement_date''"; simp add: lineup_row_def)+

lemma js_truthy_not_null: "js_truthy v \<Longrightarrow> \<exists>x. v = Some x \<and> x \<noteq> JNull"
  by (cases v rule: js_truthy.cases) auto

lemma add_lineup_existing_pair:
  assumes auth: "getAuthenticatedUser req w = Some uid"
    and body: "req_body req = Inr body"
    and fields: "js_truthy (map_of body ''event_id'')" "js_truthy (map_of body ''artist_id'')"
    and answers: "store_answers 3 w"
    and event: "matching [Eq ''id'' (row_get body ''event_id'')] (tables w ''events'') = [ev]"
    and artist: "matching [Eq ''id'' (row_get body ''artist_id'')] (tables w ''artists'') = [ar]"
    and pair: "lineup_pair_exists w body"
  shows "\<exists>w'. handleAddLineupEntry req w = (lineup_conflict_response, w') \<and> tables w' = tables w"
proof -
  have a3: "store_answers (Suc 2) w" using answers by (simp add: eval_nat_numeral)
  from select_single_ok [OF a3 event] obtain w1 where
    s1: "select_event (row_get body ''event_id'') w = (Inr (cols [''id''] (tables w) ev), w1)"
    and w1: "tables w1 = tables w" "store_answers 2 w1"
    unfolding select_event_def by blast
  have a2: "store_answers (Suc 1) w1" using w1 by (simp add: eval_nat_numeral)
  from artist have "matching [Eq ''id'' (row_get body ''artist_id'')] (tables w1 ''artists'') = [ar]"
    by (simp add: w1)
  from select_single_ok [OF a2 this] obtain w2 where
    s2: "select_single ''artists'' (cols [''id'']) [Eq ''id'' (row_get body ''artist_id'')] w1
           = (Inr (cols [''id''] (tables w1) ar), w2)"
    and w2: "tables w2 = tables w" "store_answers 1 w2"
    unfolding w1(1) [symmetric] by blast
  have a1: "store_answers (Suc 0) w2" using w2 by simp
  have "violates_unique ''lineups'' (lineup_row body) (tables w2 ''lineups'')"
    using pair by (simp add: violates_unique_def unique_keys_def lineup_pair_exists_def w2)
  from insert_single_dup [OF a1 this] obtain w3 where
    s3: "insert_single ''lineups'' (lineup_row body) w2 = (Inl unique_error, w3)"
    and w3: "tables w3 = tables w"
    unfolding w2(1) [symmetric] by blast
  show ?thesis
    using auth body fields
    by (simp add: handleAddLineupEntry_def s1 s2 s3 w3 unique_error_def)
qed

lemma add_lineup_success:
  assumes ok: "resp_status (fst (handleAddLineupEntry req w)) = 200"
  obtains uid body ev ar where
    "getAuthenticatedUser req w = Some uid" "req_body req = Inr body"
    "js_truthy (map_of body ''event_id'')" "js_truthy (map_of body ''artist_id'')"
    "matching [Eq ''id'' (row_get body ''event_id'')] (tables w ''events'') = [ev]"
    "matching [Eq ''id'' (row_get body ''artist_id'')] (tables w ''artists'') = [ar]"
    "tables (snd (handleAddLineupEntry req w))
       = (tables w)(''lineups'' := tables w ''lineups''
            @ [(''id'', JNum (fresh_id (tables w ''lineups''))) # lineup_row body])"
    "auth_users (snd (handleAddLineupEntry req w)) = auth_users w"
proof -
  from ok obtain uid where auth: "getAuthenticatedUser req w = Some uid"
    by (cases "getAuthenticatedUser req w") (simp_all add: handleAddLineupEntry_def)
  from ok auth obtain body where body: "req_body req = Inr body"
    by (cases "req_body req") (simp_all add: handleAddLineupEntry_def)
  from ok auth body have fields:
    "js_truthy (map_of body ''event_id'')" "js_truthy (map_of body ''artist_id'')"
    by (auto simp add: handleAddLineupEntry_def split: if_splits)
  note pre = auth body fields
  obtain r1 w1 where q1: "select_single ''events'' (cols [''id'']) [Eq ''id'' (row_get body ''event_id'')] w = (r1, w1)"
    by force
  obtain r2 w2 where q2: "select_single ''artists'' (cols [''id'']) [Eq ''id'' (row_get body ''artist_id'')] w1 = (r2, w2)"
    by force
  obtain r3 w3 where q3: "insert_single ''lineups'' (lineup_row body) w2 = (r3, w3)"
    by force
  from q1 show ?thesis
  proof (cases rule: select_single_cases)
    case (failed e)
    with pre q1 ok show ?thesis
      by (simp add: handleAddLineupEntry_def select_event_def not_found_message_def)
  next
    case (one ev)
    note s1 = one
    from q2 show ?thesis
    proof (cases rule: select_single_cases)
      case (failed e)
      with pre q1 s1 q2 ok show ?thesis
        by (simp add: handleAddLineupEntry_def select_event_def not_found_artist_def)
    next
      case (one ar)
      note s2 = one
      from q3 show ?thesis
      proof (cases rule: insert_single_cases)
        case (fault e)
        with pre q1 s1 q2 s2 q3 ok show ?thesis
          by (simp add: handleAddLineupEntry_def select_event_def lineup_conflict_response_def
                split: if_splits)
      next
        case stored
        have run: "handleAddLineupEntry req w
                     = (json_response 200 [(''success'', JBool True), (''entry'', JObj (projr r3))], w3)"
          using pre q1 s1(2) q2 s2(2) q3 stored(1)
          by (simp add: handleAddLineupEntry_def select_event_def)
        show ?thesis
        proof (rule that [OF auth body fields s1(1)])
          show "matching [Eq ''id'' (row_get body ''artist_id'')] (tables w ''artists'') = [ar]"
            using s2(1) s1(3) by simp
          show "tables (snd (handleAddLineupEntry req w))
                 = (tables w)(''lineups'' := tables w ''lineups''
                      @ [(''id'', JNum (fresh_id (tables w ''lineups''))) # lineup_row body])"
            unfolding run using stored(2) s2(3) s1(3) by simp
          show "auth_users (snd (handleAddLineupEntry req w)) = auth_users w"
            unfolding run using stored(2) s2(3) s1(3) by simp
        qed
      qed
    qed
  qed
qed

lemma add_lineup_23505:
  assumes log: "calls w = []"
    and call: "Call OpInsert ''lineups'' (Some e) \<in> set (calls (snd (handleAddLineupEntry req w)))"
    and code: "err_code e = ''23505''"
  shows "fst (handleAddLineupEntry req w) = lineup_conflict_response
         \<and> tables (snd (handleAddLineupEntry req w)) = tables w"
proof (cases "getAuthenticatedUser req w")
  case None
  with call log show ?thesis by (simp add: handleAddLineupEntry_def)
next
  case (Some uid)
  note auth = Some
  show ?thesis
  proof (cases "req_body req")
    case (Inl thrown)
    with auth call log show ?thesis by (simp add: handleAddLineupEntry_def)
  next
    case (Inr body)
    show ?thesis
    proof (cases "js_truthy (map_of body ''event_id'') \<and> js_truthy (map_of body ''artist_id'')")
      case False
      with auth Inr call log show ?thesis by (auto simp add: handleAddLineupEntry_def)
    next
      case True
      note pre = auth Inr True
      obtain r1 w1 where q1: "select_single ''events'' (cols [''id'']) [Eq ''id'' (row_get body ''event_id'')] w = (r1, w1)"
        by force
      obtain r2 w2 where q2: "select_single ''artists'' (cols [''id'']) [Eq ''id'' (row_get body ''artist_id'')] w1 = (r2, w2)"
        by force
      obtain r3 w3 where q3: "insert_single ''lineups'' (lineup_row body) w2 = (r3, w3)"
        by force
      from q1 show ?thesis
      proof (cases rule: select_single_cases)
        case (failed e1)
        with pre q1 log call show ?thesis
          by (simp add: handleAddLineupEntry_def select_event_def)
      next
        case (one ev)
        note s1 = one
        from q2 show ?thesis
        proof (cases rule: select_single_cases)
          case (failed e2)
          with pre q1 s1 q2 log call show ?thesis
            by (simp add: handleAddLineupEntry_def select_event_def)
        next
          case (one ar)
          note s2 = one
          from q3 show ?thesis
          proof (cases rule: insert_single_cases)
            case (fault e3)
            with pre q1 s1 q2 s2 q3 log code call show ?thesis
              by (simp add: handleAddLineupEntry_def select_event_def split: if_splits)
          next
            case stored
            with pre q1 s1 q2 s2 q3 log call show ?thesis
              by (simp add: handleAddLineupEntry_def select_event_def)
          qed
        qed
      qed
    qed
  qed
qed

lemma add_lineup_repeated:
  assumes ok: "resp_status (fst (handleAddLineupEntry req w)) = 200"
    and answers: "store_answers 3 (snd (handleAddLineupEntry req w))"
  shows "\<exists>w''. handleAddLineupEntry req (snd (handleAddLineupEntry req w))
                  = (lineup_conflict_response, w'')
               \<and> tables w'' = tables (snd (handleAddLineupEntry req w))"
proof -
  let ?w = "snd (handleAddLineupEntry req w)"
  from ok obtain uid body ev ar where
    auth: "getAuthenticatedUser req w = Some uid" and body: "req_body req = Inr body"
    and fields: "js_truthy (map_of body ''event_id'')" "js_truthy (map_of body ''artist_id'')"
    and event: "matching [Eq ''id'' (row_get body ''event_id'')] (tables w ''events'') = [ev]"
    and artist: "matching [Eq ''id'' (row_get body ''artist_id'')] (tables w ''artists'') = [ar]"
    and tb: "tables ?w = (tables w)(''lineups'' := tables w ''lineups''
                @ [(''id'', JNum (fresh_id (tables w ''lineups''))) # lineup_row body])"
    and au: "auth_users ?w = auth_users w"
    by (rule add_lineup_success)
  have auth': "getAuthenticatedUser req ?w = Some uid"
    using auth unfolding getAuthenticatedUser_def au .
  have event': "matching [Eq ''id'' (row_get body ''event_id'')] (tables ?w ''events'') = [ev]"
    and artist': "matching [Eq ''id'' (row_get body ''artist_id'')] (tables ?w ''artists'') = [ar]"
    using event artist by (simp_all add: tb)
  have pair: "lineup_pair_exists ?w body"
    using js_truthy_not_null [OF fields(1)] js_truthy_not_null [OF fields(2)]
    by (auto simp add: lineup_pair_exists_def tb same_key_def map_of_lineup_row)
  from add_lineup_existing_pair [OF auth' body fields answers event' artist' pair]
  show ?thesis .
qed

text \<open>
  C7. \<open>handleAddLineupEntry\<close>, started with an empty call log. The conflict response has
  status 409. If the insert into \<open>lineups\<close> was answered with error code 23505, the response
  is the conflict response and no table has changed. If the caller is authenticated, the body
  names an event and an artist that exist, the store answers the three calls and the lineup
  table already holds an entry with this (event_id, artist_id) pair, the response is the
  conflict response and no table has changed. And if the request succeeded (200), the same
  request repeated on the resulting store, with the store answering, gets the conflict
  response and leaves the tables as they are: no second row, and not a 500.
\<close>

theorem lineup_duplicate_conflict:
  assumes log: "calls w = []"
    and run: "handleAddLineupEntry req w = (resp, w')"
  shows "resp_status lineup_conflict_response = 409
       \<and> (\<forall>e. Call OpInsert ''lineups'' (Some e) \<in> set (calls w') \<and> err_code e = ''23505''
              \<longrightarrow> resp = lineup_conflict_response \<and> tables w' = tables w)
       \<and> (\<forall>uid body ev ar.
             getAuthenticatedUser req w = Some uid \<and> req_body req = Inr body
             \<and> js_truthy (map_of body ''event_id'') \<and> js_truthy (map_of body ''artist_id'')
             \<and> store_answers 3 w
             \<and> matching [Eq ''id'' (row_get body ''event_id'')] (tables w ''events'') = [ev]
             \<and> matching [Eq ''id'' (row_get body ''artist_id'')] (tables w ''artists'') = [ar]
             \<and> lineup_pair_exists w body
             \<longrightarrow> resp = lineup_conflict_response \<and> tables w' = tables w)
       \<and> (resp_status resp = 200 \<and> store_answers 3 w'
            \<longrightarrow> (\<exists>w''. handleAddLineupEntry req w' = (lineup_conflict_response, w'')
                       \<and> tables w'' = tables w'))"
proof (intro conjI allI impI)
  show "resp_status lineup_conflict_response = 409"
    by (simp add: lineup_conflict_response_def)
next
  fix e
  assume "Call OpInsert ''lineups'' (Some e) \<in> set (calls w') \<and> err_code e = ''23505''"
  with add_lineup_23505 [OF log, of e req] run
  show "resp = lineup_conflict_response" "tables w' = tables w"
    by simp_all
next
  fix uid body ev ar
  assume "getAuthenticatedUser req w = Some uid \<and> req_body req = Inr body
             \<and> js_truthy (map_of body ''event_id'') \<and> js_truthy (map_of body ''artist_id'')
             \<and> store_answers 3 w
             \<and> matching [Eq ''id'' (row_get body ''event_id'')] (tables w ''events'') = [ev]
             \<and> matching [Eq ''id'' (row_get body ''artist_id'')] (tables w ''artists'') = [ar]
             \<and> lineup_pair_exists w body"
  with add_lineup_existing_pair [of req w uid body ev ar] run
  show "resp = lineup_conflict_response" "tables w' = tables w"
    by auto
next
  assume "resp_status resp = 200 \<and> store_answers 3 w'"
  with add_lineup_repeated [of req w] run
  show "\<exists>w''. handleAddLineupEntry req w' = (lineup_conflict_response, w'')
                       \<and> tables w'' = tables w'"
    by simp
qed

lemma add_lineup_example:
  "calls world_with_event_artist = []"
  "resp_status (fst (handleAddLineupEntry add_lineup_request world_with_event_artist)) = 200"
  "store_answers 3 (snd (handleAddLineupEntry add_lineup_request world_with_event_artist))"
  "tables (snd (handleAddLineupEntry add_lineup_request world_with_event_artist)) ''lineups''
     = [[(''id'', JNum 1), (''event_id'', JNum 1), (''artist_id'', JNum 1)]]"
  by (code_simp)+

lemma add_lineup_again_example:
  "calls world_with_lineup_entry = []"
  "getAuthenticatedUser add_lineup_request world_with_lineup_entry = Some ''alice''"
  "req_body add_lineup_request = Inr [(''event_id'', JNum 1), (''artist_id'', JNum 1)]"
  "store_answers 3 world_with_lineup_entry"
  "matching [Eq ''id'' (row_get [(''event_id'', JNum 1), (''artist_id'', JNum 1)] ''event_id'')]
     (tables world_with_lineup_entry ''events'') = [[(''id'', JNum 1), (''name'', JStr ''Rave'')]]"
  "matching [Eq ''id'' (row_get [(''event_id'', JNum 1), (''artist_id'', JNum 1)] ''artist_id'')]
     (tables world_with_lineup_entry ''artists'') = [[(''id'', JNum 1), (''name'', JStr ''DJ'')]]"
  "lineup_pair_exists world_with_lineup_entry [(''event_id'', JNum 1), (''artist_id'', JNum 1)]"
  "Call OpInsert ''lineups'' (Some unique_error)
     \<in> set (calls (snd (handleAddLineupEntry add_lineup_request world_with_lineup_entry)))"
  "err_code unique_error = ''23505''"
  by (code_simp)+

theorem lineup_duplicate_conflict_witness:
  "resp_status (fst (handleAddLineupEntry add_lineup_request world_with_event_artist)) = 200
   \<and> resp_status (fst (handleAddLineupEntry add_lineup_request
         (snd (handleAddLineupEntry add_lineup_request world_with_event_artist)))) = 409
   \<and> tables (snd (handleAddLineupEntry add_lineup_request
         (snd (handleAddLineupEntry add_lineup_request world_with_event_artist)))) ''lineups''
       = [[(''id'', JNum 1), (''event_id'', JNum 1), (''artist_id'', JNum 1)]]
   \<and> lineup_pair_exists world_with_lineup_entry [(''event_id'', JNum 1), (''artist_id'', JNum 1)]
   \<and> Call OpInsert ''lineups'' (Some unique_error)
        \<in> set (calls (snd (handleAddLineupEntry add_lineup_request world_with_lineup_entry)))
   \<and> fst (handleAddLineupEntry add_lineup_request world_with_lineup_entry)
        = lineup_conflict_response
   \<and> tables (snd (handleAddLineupEntry add_lineup_request world_with_lineup_entry))
        = tables world_with_lineup_entry"
proof -
  note e = add_lineup_again_example
  have repeated:
    "resp_status (fst (handleAddLineupEntry add_lineup_request
         (snd (handleAddLineupEntry add_lineup_request world_with_event_artist)))) = 409
     \<and> tables (snd (handleAddLineupEntry add_lineup_request
         (snd (handleAddLineupEntry add_lineup_request world_with_event_artist)))) ''lineups''
       = [[(''id'', JNum 1), (''event_id'', JNum 1), (''artist_id'', JNum 1)]]"
    using lineup_duplicate_conflict [OF add_lineup_example(1) surjective_pairing,
            of add_lineup_request, THEN conjunct2, THEN conjunct2, THEN conjunct2]
      add_lineup_example(2,3,4)
    by (auto simp add: lineup_conflict_response_def)
  have by_code:
    "fst (handleAddLineupEntry add_lineup_request world_with_lineup_entry)
        = lineup_conflict_response
     \<and> tables (snd (handleAddLineupEntry add_lineup_request world_with_lineup_entry))
        = tables world_with_lineup_entry"
    using lineup_duplicate_conflict [OF e(1) surjective_pairing,
            of add_lineup_request, THEN conjunct2, THEN conjunct1, rule_format, of unique_error]
      e(8,9)
    by simp
  have by_pair:
    "fst (handleAddLineupEntry add_lineup_request world_with_lineup_entry)
        = lineup_conflict_response"
    using lineup_duplicate_conflict [OF e(1) surjective_pairing,
            of add_lineup_request, THEN conjunct2, THEN conjunct2, THEN conjunct1, rule_format,
            of "''alice''" "[(''event_id'', JNum 1), (''artist_id'', JNum 1)]"
               "[(''id'', JNum 1), (''name'', JStr ''Rave'')]"
               "[(''id'', JNum 1), (''name'', JStr ''DJ'')]"]
      e(2-7)
    by simp
  from repeated by_code by_pair add_lineup_example(2) e(7,8) show ?thesis by simp
qed

section \<open>Store errors\<close>

lemma orderlyI:
  "calls (snd p) = calls w @ cs \<Longrightarrow> stops_at_failure h cs (fst p) \<Longrightarrow> orderly h w p"
  by (simp add: orderly_def new_calls_def)

lemma orderlyD:
  "orderly h w p \<Longrightarrow> \<exists>cs. calls (snd p) = calls w @ cs \<and> stops_at_failure h cs (fst p)"
  unfolding orderly_def by blast

lemma orderly_ret: "orderly h w (r, w)"
  by (rule orderlyI [of _ _ "[]"]) simp_all

lemma orderly_if:
  "orderly h w a \<Longrightarrow> orderly h w b \<Longrightarrow> orderly h w (if c then a else b)"
  by simp

lemma orderly_option:
  "orderly h w a \<Longrightarrow> (\<And>x. orderly h w (b x)) \<Longrightarrow>
   orderly h w (case v of None \<Rightarrow> a | Some x \<Rightarrow> b x)"
  by (cases v) simp_all

lemma orderly_sum:
  "(\<And>x. orderly h w (a x)) \<Longrightarrow> (\<And>x. orderly h w (b x)) \<Longrightarrow>
   orderly h w (case v of Inl x \<Rightarrow> a x | Inr x \<Rightarrow> b x)"
  by (cases v) simp_all

lemma failing_ret: "400 \<le> resp_status r \<Longrightarrow> failing w (r, w)"
  by (simp add: failing_def)

lemma failing_if: "failing w a \<Longrightarrow> failing w b \<Longrightarrow> failing w (if c then a else b)"
  by simp

lemma passing_ret: "resp_status r = 200 \<Longrightarrow> passing w (r, w)"
  by (simp add: passing_def)

lemma orderly_call:
  assumes logs: "calls (snd c) = calls w @ [Call k t (error_of (fst c))]"
    and strict: "\<And>e. \<not> tolerated h (Call k t e)"
    and fail: "\<And>e w1. failing w1 (a e w1)"
    and cont: "\<And>x w1. orderly h w1 (b x w1)"
  shows "orderly h w (case c of (Inl e, w1) \<Rightarrow> a e w1 | (Inr x, w1) \<Rightarrow> b x w1)"
proof -
  obtain r w1 where c: "c = (r, w1)" by force
  show ?thesis
  proof (cases r)
    case (Inl e)
    from fail [of w1 e] logs c Inl strict show ?thesis
      by (intro orderlyI [of _ _ "[Call k t (Some e)]"]) (simp_all add: failing_def error_of_def)
  next
    case (Inr x)
    from orderlyD [OF cont [of w1 x]] obtain cs where
      cs: "calls (snd (b x w1)) = calls w1 @ cs" "stops_at_failure h cs (fst (b x w1))"
      by blast
    from cs logs c Inr show ?thesis
      by (intro orderlyI [of _ _ "Call k t None # cs"]) (simp_all add: error_of_def)
  qed
qed

lemma orderly_tolerated_call:
  assumes logs: "calls (snd c) = calls w @ [Call k t (error_of (fst c))]"
    and tol: "\<And>e. tolerated h (Call k t e)"
    and cont: "\<And>r w1. passing w1 (a r w1)"
  shows "orderly h w (case c of (r, w1) \<Rightarrow> a r w1)"
proof -
  obtain r w1 where c: "c = (r, w1)" by force
  from cont [of w1 r] logs c tol show ?thesis
    by (intro orderlyI [of _ _ "[Call k t (error_of r)]"]) (simp_all add: passing_def)
qed

lemma orderly_compensated_call:
  assumes logs: "calls (snd c) = calls w @ [Call OpInsert ''group_members'' (error_of (fst c))]"
    and undo: "\<And>w1. calls (snd (d w1)) = calls w1 @ [Call OpDelete ''group_schedules'' (error_of (fst (d w1)))]"
    and fail: "\<And>e r w2. failing w2 (a e r w2)"
    and cont: "\<And>x w1. orderly CreateGroupSchedule w1 (b x w1)"
  shows "orderly CreateGroupSchedule w
           (case c of (Inl e, w1) \<Rightarrow> (case d w1 of (r, w2) \<Rightarrow> a e r w2) | (Inr x, w1) \<Rightarrow> b x w1)"
proof -
  obtain r w1 where c: "c = (r, w1)" by force
  show ?thesis
  proof (cases r)
    case (Inl e)
    obtain r2 w2 where d: "d w1 = (r2, w2)" by force
    from fail [of w2 e r2] logs undo [of w1] c d Inl show ?thesis
      by (intro orderlyI [of _ _ "[Call OpInsert ''group_members'' (Some e),
                                   Call OpDelete ''group_schedules'' (error_of r2)]"])
         (simp_all add: failing_def error_of_def compensation_def tolerated_def)
  next
    case (Inr x)
    from orderlyD [OF cont [of w1 x]] obtain cs where
      cs: "calls (snd (b x w1)) = calls w1 @ cs"
        "stops_at_failure CreateGroupSchedule cs (fst (b x w1))"
      by blast
    from cs logs c Inr show ?thesis
      by (intro orderlyI [of _ _ "Call OpInsert ''group_members'' None # cs"])
         (simp_all add: error_of_def)
  qed
qed

lemma select_rows_calls:
  "calls (snd (select_rows t sh fs ord rng w))
     = calls w @ [Call OpSelect t (error_of (fst (select_rows t sh fs ord rng w)))]"
  unfolding select_rows_def by (rule store_exec_calls)

lemma select_single_calls:
  "calls (snd (select_single t sh fs w))
     = calls w @ [Call OpSelect t (error_of (fst (select_single t sh fs w)))]"
  unfolding select_single_def by (rule store_exec_calls)

lemma select_maybe_single_calls:
  "calls (snd (select_maybe_single t sh fs w))
     = calls w @ [Call OpSelect t (error_of (fst (select_maybe_single t sh fs w)))]"
  unfolding select_maybe_single_def by (rule store_exec_calls)

lemma select_count_calls:
  "calls (snd (select_count t fs w))
     = calls w @ [Call OpCount t (error_of (fst (select_count t fs w)))]"
  unfolding select_count_def by (rule store_exec_calls)

lemma insert_single_calls:
  "calls (snd (insert_single t r w))
     = calls w @ [Call OpInsert t (error_of (fst (insert_single t r w)))]"
  unfolding insert_single_def by (rule store_exec_calls)

lemma insert_only_calls:
  "calls (snd (insert_only t r w))
     = calls w @ [Call OpInsert t (error_of (fst (insert_only t r w)))]"
  unfolding insert_only_def by (rule store_exec_calls)

lemmas orderly_calls =
  orderly_call [OF select_rows_calls] orderly_call [OF select_single_calls]
  orderly_call [OF select_maybe_single_calls] orderly_call [OF select_count_calls]
  orderly_call [OF insert_single_calls] orderly_call [OF insert_only_calls]
  orderly_call [OF update_single_calls] orderly_call [OF delete_rows_calls]

lemmas orderly_steps = orderly_ret orderly_if orderly_option orderly_sum orderly_calls
  failing_ret failing_if

lemmas handler_parts = Let_def select_event_def select_stage_event_def
  read_group_schedule_def write_group_schedule_def write_set_time_def

lemmas error_statuses = not_found_message_def not_found_artist_def stage_error_response_def
  set_time_not_found_def lineup_conflict_response_def dependency_response_def
  value_response_def tolerated_def

lemma orderly_handleListGroupSchedules: "orderly ListGroupSchedules w (handleListGroupSchedules req w)"
  unfolding handleListGroupSchedules_def handler_parts
  by (intro orderly_steps; simp add: error_statuses)

lemma orderly_handleGetGroupSchedule: "orderly GetGroupSchedule w (handleGetGroupSchedule req w)"
  unfolding handleGetGroupSchedule_def handler_parts
  by (intro orderly_steps; simp add: error_statuses)

lemma orderly_handleUpdateGroupSchedule: "orderly UpdateGroupSchedule w (handleUpdateGroupSchedule req w)"
  unfolding handleUpdateGroupSchedule_def handler_parts
  by (intro orderly_steps; simp add: error_statuses)

lemma orderly_handleDeleteGroupSchedule: "orderly DeleteGroupSchedule w (handleDeleteGroupSchedule req w)"
  unfolding handleDeleteGroupSchedule_def handler_parts
  by (intro orderly_steps; simp add: error_statuses)

lemma orderly_handleCreateEvent: "orderly CreateEvent w (handleCreateEvent req w)"
  unfolding handleCreateEvent_def handler_parts
  by (intro orderly_steps; simp add: error_statuses)

lemma orderly_handleUpdateEvent: "orderly UpdateEvent w (handleUpdateEvent req w)"
  unfolding handleUpdateEvent_def handler_parts
  by (intro orderly_steps; simp add: error_statuses)

lemma orderly_handleDeleteEvent: "orderly DeleteEvent w (handleDeleteEvent req w)"
  unfolding handleDeleteEvent_def handler_parts
  by (intro orderly_steps; simp add: error_statuses)

lemma orderly_handleCreateArtist: "orderly CreateArtist w (handleCreateArtist req w)"
  unfolding handleCreateArtist_def handler_parts
  by (intro orderly_steps; simp add: error_statuses)

lemma orderly_handleListArtists: "orderly ListArtists w (handleListArtists req w)"
  unfolding handleListArtists_def handler_parts
  by (intro orderly_steps; simp add: error_statuses)

lemma orderly_handleGetArtist: "orderly GetArtist w (handleGetArtist req w)"
  unfolding handleGetArtist_def handler_parts
  by (intro orderly_steps; simp add: error_statuses)

lemma orderly_handleUpdateArtist: "orderly UpdateArtist w (handleUpdateArtist req w)"
  unfolding handleUpdateArtist_def handler_parts
  by (intro orderly_steps; simp add: error_statuses)

lemma orderly_handleDeleteArtist: "orderly DeleteArtist w (handleDeleteArtist req w)"
  unfolding handleDeleteArtist_def handler_parts
  by (intro orderly_steps; simp add: error_statuses)

lemma orderly_handleAddLineupEntry: "orderly AddLineupEntry w (handleAddLineupEntry req w)"
  unfolding handleAddLineupEntry_def handler_parts
  by (intro orderly_steps; simp add: error_statuses)

lemma orderly_handleListLineup: "orderly ListLineup w (handleListLineup req w)"
  unfolding handleListLineup_def handler_parts
  by (intro orderly_steps; simp add: error_statuses)

lemma orderly_handleRemoveLineupEntry: "orderly RemoveLineupEntry w (handleRemoveLineupEntry req w)"
  unfolding handleRemoveLineupEntry_def handler_parts
  by (intro orderly_steps; simp add: error_statuses)

lemma orderly_handleCreateStage: "orderly CreateStage w (handleCreateStage req w)"
  unfolding handleCreateStage_def handler_parts
  by (intro orderly_steps; simp add: error_statuses)

lemma orderly_handleListStages: "orderly ListStages w (handleListStages req w)"
  unfolding handleListStages_def handler_parts
  by (intro orderly_steps; simp add: error_statuses)

lemma orderly_handleUpdateStage: "orderly UpdateStage w (handleUpdateStage req w)"
  unfolding handleUpdateStage_def handler_parts
  by (intro orderly_steps; simp add: error_statuses)

lemma orderly_handleDeleteStage: "orderly DeleteStage w (handleDeleteStage req w)"
  unfolding handleDeleteStage_def handler_parts
  by (intro orderly_steps; simp add: error_statuses)

lemma orderly_handleCreateSetTime: "orderly CreateSetTime w (handleCreateSetTime req w)"
  unfolding handleCreateSetTime_def handler_parts
  by (intro orderly_steps; simp add: error_statuses)

lemma orderly_handleUpdateSetTime: "orderly UpdateSetTime w (handleUpdateSetTime req w)"
  unfolding handleUpdateSetTime_def handler_parts
  by (intro orderly_steps; simp add: error_statuses)

lemma orderly_handleDeleteSetTime: "orderly DeleteSetTime w (handleDeleteSetTime req w)"
  unfolding handleDeleteSetTime_def handler_parts
  by (intro orderly_steps; simp add: error_statuses)

lemma orderly_handleAddCollaboration: "orderly AddCollaboration w (handleAddCollaboration req w)"
  unfolding handleAddCollaboration_def handler_parts
  by (intro orderly_steps; simp add: error_statuses)

lemma orderly_handleListCollaborations: "orderly ListCollaborations w (handleListCollaborations req w)"
  unfolding handleListCollaborations_def handler_parts
  by (intro orderly_steps; simp add: error_statuses)

lemma orderly_handleRemoveCollaboration: "orderly RemoveCollaboration w (handleRemoveCollaboration req w)"
  unfolding handleRemoveCollaboration_def handler_parts
  by (intro orderly_steps; simp add: error_statuses)

lemma orderly_member_insert:
  assumes "\<And>e r w2. failing w2 (a e r w2)"
    and "\<And>x w1. orderly CreateGroupSchedule w1 (b x w1)"
  shows "orderly CreateGroupSchedule w
           (case insert_only ''group_members'' r w of
              (Inl e, w1) \<Rightarrow> (case delete_rows ''group_schedules'' fs w1 of (c, w2) \<Rightarrow> a e c w2)
            | (Inr x, w1) \<Rightarrow> b x w1)"
  using insert_only_calls delete_rows_calls assms
  by (rule orderly_compensated_call [where d = "delete_rows ''group_schedules'' fs"])

lemma orderly_handleCreateGroupSchedule:
  "orderly CreateGroupSchedule w (handleCreateGroupSchedule req w)"
  unfolding handleCreateGroupSchedule_def handler_parts
  by (intro orderly_member_insert orderly_steps; simp add: error_statuses)

lemma tolerated_lookups:
  "tolerated ListEvents (Call OpSelect ''user_events'' e)"
  "tolerated GetEvent (Call OpSelect ''user_events'' e)"
  "tolerated ListSetTimes (Call OpSelect ''artist_collaborations'' e)"
  by (simp_all add: tolerated_def)

lemmas tolerated_steps =
  orderly_tolerated_call [OF select_rows_calls] orderly_tolerated_call [OF select_maybe_single_calls]
  passing_ret

lemma orderly_handleListEvents: "orderly ListEvents w (handleListEvents req w)"
  unfolding handleListEvents_def handler_parts
  by (intro orderly_steps tolerated_steps; simp add: error_statuses tolerated_lookups)

lemma orderly_handleGetEvent: "orderly GetEvent w (handleGetEvent req w)"
  unfolding handleGetEvent_def handler_parts
  by (intro orderly_steps tolerated_steps; simp add: error_statuses tolerated_lookups)

lemma orderly_handleListSetTimes: "orderly ListSetTimes w (handleListSetTimes req w)"
  unfolding handleListSetTimes_def handler_parts
  by (intro orderly_steps tolerated_steps; simp add: error_statuses tolerated_lookups)

lemmas orderly_handlers =
  orderly_handleListGroupSchedules
  orderly_handleGetGroupSchedule
  orderly_handleUpdateGroupSchedule
  orderly_handleDeleteGroupSchedule
  orderly_handleCreateEvent
  orderly_handleUpdateEvent
  orderly_handleDeleteEvent
  orderly_handleCreateArtist
  orderly_handleListArtists
  orderly_handleGetArtist
  orderly_handleUpdateArtist
  orderly_handleDeleteArtist
  orderly_handleAddLineupEntry
  orderly_handleListLineup
  orderly_handleRemoveLineupEntry
  orderly_handleCreateStage
  orderly_handleListStages
  orderly_handleUpdateStage
  orderly_handleDeleteStage
  orderly_handleCreateSetTime
  orderly_handleUpdateSetTime
  orderly_handleDeleteSetTime
  orderly_handleAddCollaboration
  orderly_handleListCollaborations
  orderly_handleRemoveCollaboration
  orderly_handleCreateGroupSchedule
  orderly_handleListEvents
  orderly_handleGetEvent
  orderly_handleListSetTimes

lemma orderly_run: "orderly h w (run h req w)"
  by (cases h) (simp_all only: run.simps orderly_handlers)

text \<open>
  C6 (amended). For every handler, every request and every store, the calls the handler adds
  to the log obey \<open>stops_at_failure\<close>: a call that returned an error is the handler's last
  call, except that \<open>handleCreateGroupSchedule\<close> follows a failed insert of the member with
  the one delete of the new group, so no failed call is repeated; and the response has an
  error status (400 or more), except after the three lookups whose error the source passes
  over, where it is 200: the caller's \<open>user_events\<close> in \<open>handleListEvents\<close> and
  \<open>handleGetEvent\<close>, the collaborations in \<open>handleListSetTimes\<close>.
\<close>

theorem store_failure_stops_handler:
  assumes "run h req w = (resp, w')"
  shows "\<exists>cs. calls w' = calls w @ cs \<and> stops_at_failure h cs resp"
  using orderlyD [OF orderly_run [of h w req]] assms by simp

lemma delete_artist_failure_example:
  "calls world_losing_counts = []"
  "calls (snd (handleDeleteArtist delete_artist_request world_losing_counts))
     = [Call OpSelect ''artists'' None, Call OpCount ''lineups'' (Some connection_lost)]"
  "fst (handleDeleteArtist delete_artist_request world_losing_counts)
     = serverErrorResponse ''connection lost''"
  by (code_simp)+

lemma tolerated_failure_example:
  "calls world_losing_collaborations = []"
  "calls (snd (handleListSetTimes schedule_request world_losing_collaborations))
     = [Call OpSelect ''events'' None, Call OpSelect ''stages'' None,
        Call OpSelect ''set_times'' None,
        Call OpSelect ''artist_collaborations'' (Some connection_lost)]"
  "resp_status (fst (handleListSetTimes schedule_request world_losing_collaborations)) = 200"
  "calls world_losing_user_events = []"
  "calls (snd (handleListEvents (event_read_request ''/events'') world_losing_user_events))
     = [Call OpSelect ''events'' None, Call OpSelect ''user_events'' (Some connection_lost)]"
  "resp_status (fst (handleListEvents (event_read_request ''/events'') world_losing_user_events)) = 200"
  "calls (snd (handleGetEvent (event_read_request ''/events/1'') world_losing_user_events))
     = [Call OpSelect ''events'' None, Call OpSelect ''user_events'' (Some connection_lost)]"
  "resp_status (fst (handleGetEvent (event_read_request ''/events/1'') world_losing_user_events)) = 200"
  by (code_simp)+

theorem store_failure_stops_handler_witness:
  "calls (snd (handleDeleteArtist delete_artist_request world_losing_counts))
     = [Call OpSelect ''artists'' None, Call OpCount ''lineups'' (Some connection_lost)]
   \<and> fst (handleDeleteArtist delete_artist_request world_losing_counts)
       = serverErrorResponse ''connection lost''
   \<and> stops_at_failure DeleteArtist
       [Call OpSelect ''artists'' None, Call OpCount ''lineups'' (Some connection_lost)]
       (serverErrorResponse ''connection lost'')
   \<and> stops_at_failure ListSetTimes
       [Call OpSelect ''events'' None, Call OpSelect ''stages'' None,
        Call OpSelect ''set_times'' None,
        Call OpSelect ''artist_collaborations'' (Some connection_lost)]
       (fst (handleListSetTimes schedule_request world_losing_collaborations))
   \<and> resp_status (fst (handleListSetTimes schedule_request world_losing_collaborations)) = 200
   \<and> stops_at_failure ListEvents
       [Call OpSelect ''events'' None, Call OpSelect ''user_events'' (Some connection_lost)]
       (fst (handleListEvents (event_read_request ''/events'') world_losing_user_events))
   \<and> resp_status (fst (handleListEvents (event_read_request ''/events'') world_losing_user_events))
       = 200
   \<and> stops_at_failure GetEvent
       [Call OpSelect ''events'' None, Call OpSelect ''user_events'' (Some connection_lost)]
       (fst (handleGetEvent (event_read_request ''/events/1'') world_losing_user_events))
   \<and> resp_status (fst (handleGetEvent (event_read_request ''/events/1'') world_losing_user_events))
       = 200"
proof -
  note e = tolerated_failure_example
  have strict:
    "calls (snd (handleDeleteArtist delete_artist_request world_losing_counts))
       = [Call OpSelect ''artists'' None, Call OpCount ''lineups'' (Some connection_lost)]
     \<and> fst (handleDeleteArtist delete_artist_request world_losing_counts)
         = serverErrorResponse ''connection lost''
     \<and> stops_at_failure DeleteArtist
         [Call OpSelect ''artists'' None, Call OpCount ''lineups'' (Some connection_lost)]
         (serverErrorResponse ''connection lost'')"
    using store_failure_stops_handler [OF surjective_pairing,
            of DeleteArtist delete_artist_request world_losing_counts]
    by (simp add: delete_artist_failure_example)
  have schedule:
    "stops_at_failure ListSetTimes
       [Call OpSelect ''events'' None, Call OpSelect ''stages'' None,
        Call OpSelect ''set_times'' None,
        Call OpSelect ''artist_collaborations'' (Some connection_lost)]
       (fst (handleListSetTimes schedule_request world_losing_collaborations))"
    using store_failure_stops_handler [OF surjective_pairing,
            of ListSetTimes schedule_request world_losing_collaborations]
    by (simp only: run.simps e(1,2) append_Nil) simp
  have list_events:
    "stops_at_failure ListEvents
       [Call OpSelect ''events'' None, Call OpSelect ''user_events'' (Some connection_lost)]
       (fst (handleListEvents (event_read_request ''/events'') world_losing_user_events))"
    using store_failure_stops_handler [OF surjective_pairing,
            of ListEvents "event_read_request ''/events''" world_losing_user_events]
    by (simp only: run.simps e(4,5) append_Nil) simp
  have get_event:
    "stops_at_failure GetEvent
       [Call OpSelect ''events'' None, Call OpSelect ''user_events'' (Some connection_lost)]
       (fst (handleGetEvent (event_read_request ''/events/1'') world_losing_user_events))"
    using store_failure_stops_handler [OF surjective_pairing,
            of GetEvent "event_read_request ''/events/1''" world_losing_user_events]
    by (simp only: run.simps e(4,7) append_Nil) simp
  from strict schedule list_events get_event e(3,6,8) show ?thesis
    by (simp add: tolerated_def)
qed

text \<open>
  C6 as stated fails for \<open>handleListSetTimes\<close>: when the lookup of the collaborations
  returns an error, the handler goes on and answers the schedule of the event with 200.
\<close>

theorem list_set_times_passes_over_error:
  "calls (snd (handleListSetTimes schedule_request world_losing_collaborations))
     = [Call OpSelect ''events'' None, Call OpSelect ''stages'' None,
        Call OpSelect ''set_times'' None,
        Call OpSelect ''artist_collaborations'' (Some connection_lost)]
   \<and> resp_status (fst (handleListSetTimes schedule_request world_losing_collaborations)) = 200"
  using tolerated_failure_example(2,3) by simp

section \<open>The administrative path of the event handlers\<close>

lemma store_answers_1: "store_answers 1 w \<Longrightarrow> faults w = [] \<or> hd (faults w) = None"
  by (cases "faults w") (auto simp: store_answers_def)

text \<open>
  C9. Event create, update and delete are decided by the \<open>x-api-key\<close> header alone. Without
  a key equal to the configured secret the handler answers 401 and leaves the world as it was
  (no store call is made). The outcome does not depend on the Authorization header: replacing
  it by any other value gives the same response and the same world. With the key the handler
  goes on: it never answers 401, and when the store answers its one call, a body with the
  required fields is inserted as a new event row, the one event with the id of the path is
  updated with the body (without \<open>id\<close> and \<open>created_by\<close> when they are set), and the events
  with the id of the path are deleted, each answered 200.
\<close>

theorem event_writes_depend_on_api_key_only:
  "(\<not> verifyApiKey req w \<longrightarrow>
       handleCreateEvent req w = (unauthorizedResponse, w)
     \<and> handleUpdateEvent req w = (unauthorizedResponse, w)
     \<and> handleDeleteEvent req w = (unauthorizedResponse, w))
   \<and> handleCreateEvent (req\<lparr>req_authorization := a\<rparr>) w = handleCreateEvent req w
   \<and> handleUpdateEvent (req\<lparr>req_authorization := a\<rparr>) w = handleUpdateEvent req w
   \<and> handleDeleteEvent (req\<lparr>req_authorization := a\<rparr>) w = handleDeleteEvent req w
   \<and> (verifyApiKey req w \<longrightarrow>
         resp_status (fst (handleCreateEvent req w)) \<noteq> 401
       \<and> resp_status (fst (handleUpdateEvent req w)) \<noteq> 401
       \<and> resp_status (fst (handleDeleteEvent req w)) \<noteq> 401)
   \<and> (verifyApiKey req w \<and> store_answers 1 w \<longrightarrow>
         (req_body req = Inr body \<and> js_truthy (map_of body ''name'')
          \<and> js_truthy (map_of body ''date_start'') \<and> js_truthy (map_of body ''date_end'') \<longrightarrow>
            handleCreateEvent req w =
              (json_response 200
                 [(''success'', JBool True),
                  (''event'', JObj ((''id'', JNum (fresh_id (tables w ''events''))) # event_row body))],
               w\<lparr>tables := (tables w)(''events'' := tables w ''events''
                              @ [(''id'', JNum (fresh_id (tables w ''events''))) # event_row body]),
                 faults := tl (faults w),
                 calls := calls w @ [Call OpInsert ''events'' None]\<rparr>))
       \<and> (getEventIdFromUrl (req_path req) = Some eventId \<and> eventId \<noteq> []
          \<and> req_body req = Inr body
          \<and> matching [Eq ''id'' (JStr eventId)] (tables w ''events'') = [ev] \<longrightarrow>
            handleUpdateEvent req w =
              (json_response 200
                 [(''success'', JBool True),
                  (''event'',
                   JObj (row_update (strip_if_truthy ''created_by'' (strip_if_truthy ''id'' body)) ev))],
               w\<lparr>tables := (tables w)(''events'' :=
                              map (\<lambda>x. if filter_holds (Eq ''id'' (JStr eventId)) x
                                       then row_update
                                              (strip_if_truthy ''created_by'' (strip_if_truthy ''id'' body)) x
                                       else x)
                                (tables w ''events'')),
                 faults := tl (faults w),
                 calls := calls w @ [Call OpUpdate ''events'' None]\<rparr>))
       \<and> (getEventIdFromUrl (req_path req) = Some eventId \<and> eventId \<noteq> [] \<longrightarrow>
            handleDeleteEvent req w =
              (json_response 200 [(''success'', JBool True)],
               w\<lparr>tables := (tables w)(''events'' :=
                              filter (\<lambda>r. \<not> filter_holds (Eq ''id'' (JStr eventId)) r)
                                (tables w ''events'')),
                 faults := tl (faults w),
                 calls := calls w @ [Call OpDelete ''events'' None]\<rparr>)))"
proof (intro conjI impI)
  assume "\<not> verifyApiKey req w"
  then show "handleCreateEvent req w = (unauthorizedResponse, w)"
    "handleUpdateEvent req w = (unauthorizedResponse, w)"
    "handleDeleteEvent req w = (unauthorizedResponse, w)"
    by (simp_all add: handleCreateEvent_def handleUpdateEvent_def handleDeleteEvent_def)
next
  show "handleCreateEvent (req\<lparr>req_authorization := a\<rparr>) w = handleCreateEvent req w"
    "handleUpdateEvent (req\<lparr>req_authorization := a\<rparr>) w = handleUpdateEvent req w"
    "handleDeleteEvent (req\<lparr>req_authorization := a\<rparr>) w = handleDeleteEvent req w"
    by (simp_all add: handleCreateEvent_def handleUpdateEvent_def handleDeleteEvent_def
          verifyApiKey_def split: sum.splits)
next
  assume "verifyApiKey req w"
  then show "resp_status (fst (handleCreateEvent req w)) \<noteq> 401"
    "resp_status (fst (handleUpdateEvent req w)) \<noteq> 401"
    "resp_status (fst (handleDeleteEvent req w)) \<noteq> 401"
    by (simp_all add: handleCreateEvent_def handleUpdateEvent_def handleDeleteEvent_def
          split: sum.splits prod.splits)
next
  assume k: "verifyApiKey req w \<and> store_answers 1 w"
    and b: "req_body req = Inr body \<and> js_truthy (map_of body ''name'')
          \<and> js_truthy (map_of body ''date_start'') \<and> js_truthy (map_of body ''date_end'')"
  from k have ok: "faults w = [] \<or> hd (faults w) = None" by (simp add: store_answers_1)
  show "handleCreateEvent req w =
              (json_response 200
                 [(''success'', JBool True),
                  (''event'', JObj ((''id'', JNum (fresh_id (tables w ''events''))) # event_row body))],
               w\<lparr>tables := (tables w)(''events'' := tables w ''events''
                              @ [(''id'', JNum (fresh_id (tables w ''events''))) # event_row body]),
                 faults := tl (faults w),
                 calls := calls w @ [Call OpInsert ''events'' None]\<rparr>)"
    using k b
    by (simp add: handleCreateEvent_def insert_single_def store_exec_ok [OF ok] insert_core_def
          violates_unique_def unique_keys_def error_of_def Let_def event_row_def)
next
  assume k: "verifyApiKey req w \<and> store_answers 1 w"
    and b: "getEventIdFromUrl (req_path req) = Some eventId \<and> eventId \<noteq> []
          \<and> req_body req = Inr body
          \<and> matching [Eq ''id'' (JStr eventId)] (tables w ''events'') = [ev]"
  from k have ok: "faults w = [] \<or> hd (faults w) = None" by (simp add: store_answers_1)
  show "handleUpdateEvent req w =
              (json_response 200
                 [(''success'', JBool True),
                  (''event'',
                   JObj (row_update (strip_if_truthy ''created_by'' (strip_if_truthy ''id'' body)) ev))],
               w\<lparr>tables := (tables w)(''events'' :=
                              map (\<lambda>x. if filter_holds (Eq ''id'' (JStr eventId)) x
                                       then row_update
                                              (strip_if_truthy ''created_by'' (strip_if_truthy ''id'' body)) x
                                       else x)
                                (tables w ''events'')),
                 faults := tl (faults w),
                 calls := calls w @ [Call OpUpdate ''events'' None]\<rparr>)"
    using k b
    by (simp add: handleUpdateEvent_def update_single_def store_exec_ok [OF ok] error_of_def
          no_id_def)
next
  assume k: "verifyApiKey req w \<and> store_answers 1 w"
    and b: "getEventIdFromUrl (req_path req) = Some eventId \<and> eventId \<noteq> []"
  from k have ok: "faults w = [] \<or> hd (faults w) = None" by (simp add: store_answers_1)
  show "handleDeleteEvent req w =
              (json_response 200 [(''success'', JBool True)],
               w\<lparr>tables := (tables w)(''events'' :=
                              filter (\<lambda>r. \<not> filter_holds (Eq ''id'' (JStr eventId)) r)
                                (tables w ''events'')),
                 faults := tl (faults w),
                 calls := calls w @ [Call OpDelete ''events'' None]\<rparr>)"
    using k b
    by (simp add: handleDeleteEvent_def delete_rows_def store_exec_ok [OF ok] error_of_def
          no_id_def)
qed

lemma admin_event_example:
  "\<not> verifyApiKey delete_event_request example_world"
  "verifyApiKey (admin_event_request m path) world_with_event_artist"
  "store_answers 1 world_with_event_artist"
  "req_body (admin_event_request m path)
     = Inr [(''name'', JStr ''Rave 2''), (''date_start'', JStr ''2025-06-01''),
            (''date_end'', JStr ''2025-06-02'')]"
  "getEventIdFromUrl (req_path (admin_event_request m ''/events/1'')) = Some ''1''"
  "matching [Eq ''id'' (JStr ''1'')] (tables world_with_event_artist ''events'')
     = [[(''id'', JNum 1), (''name'', JStr ''Rave'')]]"
  "tables world_with_event_artist ''events'' = [[(''id'', JNum 1), (''name'', JStr ''Rave'')]]"
  "fresh_id (tables world_with_event_artist ''events'') = 2"
  "filter_holds (Eq ''id'' (JStr ''1'')) [(''id'', JNum 1), (''name'', JStr ''Rave'')]"
  by (code_simp)+

theorem event_writes_depend_on_api_key_only_witness:
  "\<not> verifyApiKey delete_event_request example_world
   \<and> handleDeleteEvent delete_event_request example_world = (unauthorizedResponse, example_world)
   \<and> handleDeleteEvent (delete_event_request\<lparr>req_authorization := None\<rparr>) example_world
       = (unauthorizedResponse, example_world)
   \<and> verifyApiKey (admin_event_request ''POST'' ''/events'') world_with_event_artist
   \<and> resp_status (fst (handleCreateEvent (admin_event_request ''POST'' ''/events'')
                          world_with_event_artist)) = 200
   \<and> tables (snd (handleCreateEvent (admin_event_request ''POST'' ''/events'')
                     world_with_event_artist)) ''events''
       = [[(''id'', JNum 1), (''name'', JStr ''Rave'')],
          [(''id'', JNum 2), (''name'', JStr ''Rave 2''), (''date_start'', JStr ''2025-06-01''),
           (''date_end'', JStr ''2025-06-02''), (''created_by'', JNull)]]
   \<and> handleCreateEvent
         ((admin_event_request ''POST'' ''/events'')\<lparr>req_authorization := Some ''Bearer tok-bob''\<rparr>)
         world_with_event_artist
       = handleCreateEvent (admin_event_request ''POST'' ''/events'') world_with_event_artist
   \<and> resp_status (fst (handleUpdateEvent (admin_event_request ''PUT'' ''/events/1'')
                          world_with_event_artist)) = 200
   \<and> tables (snd (handleUpdateEvent (admin_event_request ''PUT'' ''/events/1'')
                     world_with_event_artist)) ''events''
       = [[(''id'', JNum 1), (''name'', JStr ''Rave 2''), (''date_start'', JStr ''2025-06-01''),
           (''date_end'', JStr ''2025-06-02'')]]
   \<and> resp_status (fst (handleDeleteEvent (admin_event_request ''DELETE'' ''/events/1'')
                          world_with_event_artist)) = 200
   \<and> tables (snd (handleDeleteEvent (admin_event_request ''DELETE'' ''/events/1'')
                     world_with_event_artist)) ''events'' = []"
proof -
  note e = admin_event_example
  let ?body = "[(''name'', JStr ''Rave 2''), (''date_start'', JStr ''2025-06-01''),
                (''date_end'', JStr ''2025-06-02'')]"
  let ?ev = "[(''id'', JNum 1), (''name'', JStr ''Rave'')]"
  have refused:
    "handleDeleteEvent delete_event_request example_world = (unauthorizedResponse, example_world)
     \<and> handleDeleteEvent (delete_event_request\<lparr>req_authorization := None\<rparr>) example_world
       = (unauthorizedResponse, example_world)"
    using event_writes_depend_on_api_key_only [of delete_event_request example_world None] e(1)
    by simp
  have created:
    "resp_status (fst (handleCreateEvent (admin_event_request ''POST'' ''/events'')
                          world_with_event_artist)) = 200
     \<and> tables (snd (handleCreateEvent (admin_event_request ''POST'' ''/events'')
                     world_with_event_artist)) ''events''
       = [[(''id'', JNum 1), (''name'', JStr ''Rave'')],
          [(''id'', JNum 2), (''name'', JStr ''Rave 2''), (''date_start'', JStr ''2025-06-01''),
           (''date_end'', JStr ''2025-06-02''), (''created_by'', JNull)]]
     \<and> handleCreateEvent
         ((admin_event_request ''POST'' ''/events'')\<lparr>req_authorization := Some ''Bearer tok-bob''\<rparr>)
         world_with_event_artist
       = handleCreateEvent (admin_event_request ''POST'' ''/events'') world_with_event_artist"
    using event_writes_depend_on_api_key_only
            [of "admin_event_request ''POST'' ''/events''" world_with_event_artist
                "Some ''Bearer tok-bob''" ?body]
      e(2,3,4,7,8)
    by (simp add: event_row_def)
  have updated:
    "resp_status (fst (handleUpdateEvent (admin_event_request ''PUT'' ''/events/1'')
                          world_with_event_artist)) = 200
     \<and> tables (snd (handleUpdateEvent (admin_event_request ''PUT'' ''/events/1'')
                     world_with_event_artist)) ''events''
       = [[(''id'', JNum 1), (''name'', JStr ''Rave 2''), (''date_start'', JStr ''2025-06-01''),
           (''date_end'', JStr ''2025-06-02'')]]"
    using event_writes_depend_on_api_key_only
            [of "admin_event_request ''PUT'' ''/events/1''" world_with_event_artist
                None ?body "''1''" ?ev]
      e(2,3,4,5,6,7,9)
    by (simp add: strip_if_truthy_def row_update_def)
  have deleted:
    "resp_status (fst (handleDeleteEvent (admin_event_request ''DELETE'' ''/events/1'')
                          world_with_event_artist)) = 200
     \<and> tables (snd (handleDeleteEvent (admin_event_request ''DELETE'' ''/events/1'')
                     world_with_event_artist)) ''events'' = []"
    using event_writes_depend_on_api_key_only
            [of "admin_event_request ''DELETE'' ''/events/1''" world_with_event_artist
                None _ "''1''"]
      e(2,3,5,7,9)
    by simp
  from refused created updated deleted e(1,2) show ?thesis by simp
qed

end
